theory Spec2Isabelle
  imports Complex_Main
begin

section \<open>GDAY canopy module: data model\<close>

text \<open>
  A shallow embedding of \<^verbatim>\<open>src/canopy.c\<close>, the half-hourly two-leaf canopy flux
  engine of GDAY. C \<^verbatim>\<open>double\<close> values are modelled as mathematical reals (rounding,
  infinities and NaN are outside the model), except in the last section of the model,
  which gives the daily accumulation of carbon in rounded arithmetic as well, because
  there a sum of up to 48 rounded terms is at stake. C \<^verbatim>\<open>int\<close> counters are modelled as
  \<^typ>\<open>int\<close> and array indices as \<^typ>\<open>nat\<close>. The structures live in a header that
  is not part of the sources at hand, so each record lists the fields that
  \<^verbatim>\<open>canopy.c\<close> reads or writes. Arrays of \<^verbatim>\<open>NUM_LEAVES\<close> doubles are lists.
\<close>

record canopy_wk =
  elevation :: real
  diffuse_frac :: real
  leaf_idx :: nat
  an_leaf :: "real list"
  gsc_leaf :: "real list"
  trans_leaf :: "real list"
  rnet_leaf :: "real list"
  apar_leaf :: "real list"
  omega_leaf :: "real list"
  tleaf :: real
  tleaf_new :: real
  Cs :: real
  dleaf :: real
  N0 :: real
  an_canopy :: real
  gsc_canopy :: real
  apar_canopy :: real
  trans_canopy :: real
  omega_canopy :: real
  rnet_canopy :: real

datatype pathway = C3 | C4

record control =
  hour_idx :: int
  num_hlf_hrs :: int
  ps_pathway :: pathway
  water_stress :: bool

record fluxes =
  gpp_gCm2 :: real
  npp_gCm2 :: real
  gpp :: real
  npp :: real
  auto_resp :: real
  apar :: real
  gs_mol_m2_sec :: real
  omega :: real

record met =
  tair :: real
  vpd :: real
  Ca :: real
  press :: real
  par :: real
  sw_rad :: real
  tsoil :: real

record met_arrays =
  doy :: "real list"

record params =
  sla :: real
  cfracts :: real
  cue :: real
  leaf_abs :: real

record state =
  lai :: real
  shootnc :: real
  wtfac_topsoil :: real
  wtfac_root :: real

text \<open>
  The numeric macros of \<^verbatim>\<open>constants.h\<close> are not among the sources, so they are
  taken as parameters, one field per macro.
\<close>

record constants =
  PAR_2_SW :: real
  CP :: real
  MASS_AIR :: real
  DEG_TO_KELVIN :: real
  SIGMA_const :: real
  KG_AS_G :: real
  UMOL_TO_MOL :: real
  MOL_C_TO_GRAMS_C :: real
  SEC_2_HLFHR :: real
  GRAM_C_2_TONNES_HA :: real

text \<open>
  Modelled from the spec: the leaf-class macros \<^verbatim>\<open>NUM_LEAVES\<close>, \<^verbatim>\<open>SUNLIT\<close> and
  \<^verbatim>\<open>SHADED\<close> are declared outside \<^verbatim>\<open>canopy.c\<close>; the specification fixes exactly two
  leaf classes, class 0 sunlit and class 1 shaded.
\<close>

definition NUM_LEAVES :: nat where
  "NUM_LEAVES = 2"

definition SUNLIT :: nat where
  "SUNLIT = 0"

definition SHADED :: nat where
  "SHADED = 1"

text \<open>The six outputs that \<^verbatim>\<open>penman_leaf_wrapper\<close> writes through its pointer arguments.\<close>

record penman_out =
  pm_transpiration :: real
  pm_LE :: real
  pm_gbc :: real
  pm_gh :: real
  pm_gv :: real
  pm_omega :: real

text \<open>
  The routines that \<^verbatim>\<open>canopy.c\<close> calls but does not define (radiation, photosynthesis,
  Penman solver, water balance, soil water, meteorology unpacking) are parameters of the
  model. Each takes the arguments of the C call and returns what the call produces,
  following the collaborator contracts of the specification: the photosynthesis routine
  yields the assimilation and the stomatal conductance of the current leaf class, the
  radiation routine the per-leaf absorbed PAR, the solar geometry the elevation, and so on.
\<close>

record collab =
  unpack_met_data :: "control \<Rightarrow> met_arrays \<Rightarrow> met \<Rightarrow> int \<Rightarrow> met"
  calculate_solar_geometry :: "canopy_wk \<Rightarrow> params \<Rightarrow> real \<Rightarrow> int \<Rightarrow> real"
  get_diffuse_frac :: "canopy_wk \<Rightarrow> real \<Rightarrow> real \<Rightarrow> real"
  calculate_absorbed_radiation :: "canopy_wk \<Rightarrow> params \<Rightarrow> state \<Rightarrow> real \<Rightarrow> real list"
  photosynthesis_C3 :: "control \<Rightarrow> canopy_wk \<Rightarrow> met \<Rightarrow> params \<Rightarrow> state \<Rightarrow> real \<times> real"
  penman_leaf_wrapper :: "met \<Rightarrow> params \<Rightarrow> state \<Rightarrow> real \<Rightarrow> real \<Rightarrow> real \<Rightarrow> penman_out"
  calc_sat_water_vapour_press :: "real \<Rightarrow> real"
  calc_soil_water_potential :: "control \<Rightarrow> params \<Rightarrow> state \<Rightarrow> state"
  calculate_water_balance ::
    "control \<Rightarrow> fluxes \<Rightarrow> met \<Rightarrow> params \<Rightarrow> state \<Rightarrow> int \<Rightarrow> real \<Rightarrow> real \<Rightarrow> real \<Rightarrow> fluxes \<times> state"
  calculate_soil_water_fac :: "control \<Rightarrow> params \<Rightarrow> state \<Rightarrow> state"
  zero_water_day_fluxes :: "fluxes \<Rightarrow> fluxes"

section \<open>Flux reset and aggregation\<close>

definition zero_carbon_day_fluxes :: "'a fluxes_scheme \<Rightarrow> 'a fluxes_scheme" where
  "zero_carbon_day_fluxes f =
     f\<lparr>gpp_gCm2 := 0, npp_gCm2 := 0, gpp := 0, npp := 0, auto_resp := 0, apar := 0\<rparr>"

text \<open>One pass of the body of the loop in \<^verbatim>\<open>zero_hourly_fluxes\<close>, for leaf index \<open>i\<close>.\<close>

definition zero_leaf :: "nat \<Rightarrow> 'a canopy_wk_scheme \<Rightarrow> 'a canopy_wk_scheme" where
  "zero_leaf i cw =
     cw\<lparr>an_leaf := (an_leaf cw)[i := 0],
        gsc_leaf := (gsc_leaf cw)[i := 0],
        trans_leaf := (trans_leaf cw)[i := 0],
        rnet_leaf := (rnet_leaf cw)[i := 0],
        apar_leaf := (apar_leaf cw)[i := 0],
        omega_leaf := (omega_leaf cw)[i := 0]\<rparr>"

definition zero_hourly_fluxes :: "'a canopy_wk_scheme \<Rightarrow> 'a canopy_wk_scheme" where
  "zero_hourly_fluxes cw = fold zero_leaf [0..<NUM_LEAVES] cw"

definition scale_to_canopy :: "'a canopy_wk_scheme \<Rightarrow> 'a canopy_wk_scheme" where
  "scale_to_canopy cw =
     cw\<lparr>an_canopy := an_leaf cw ! SUNLIT + an_leaf cw ! SHADED,
        gsc_canopy := gsc_leaf cw ! SUNLIT + gsc_leaf cw ! SHADED,
        apar_canopy := apar_leaf cw ! SUNLIT + apar_leaf cw ! SHADED,
        trans_canopy := trans_leaf cw ! SUNLIT + trans_leaf cw ! SHADED,
        omega_canopy := (omega_leaf cw ! SUNLIT + omega_leaf cw ! SHADED) / 2,
        rnet_canopy := rnet_leaf cw ! SUNLIT + rnet_leaf cw ! SHADED\<rparr>"

definition sum_hourly_carbon_fluxes ::
  "constants \<Rightarrow> 'a canopy_wk_scheme \<Rightarrow> 'b fluxes_scheme \<Rightarrow> 'c params_scheme \<Rightarrow> 'b fluxes_scheme" where
  "sum_hourly_carbon_fluxes K cw f p =
     (let f = f\<lparr>gpp_gCm2 := gpp_gCm2 f + an_canopy cw * UMOL_TO_MOL K * MOL_C_TO_GRAMS_C K * SEC_2_HLFHR K\<rparr>;
          f = f\<lparr>npp_gCm2 := gpp_gCm2 f * cue p\<rparr>;
          f = f\<lparr>gpp := gpp_gCm2 f * GRAM_C_2_TONNES_HA K\<rparr>;
          f = f\<lparr>npp := npp_gCm2 f * GRAM_C_2_TONNES_HA K\<rparr>;
          f = f\<lparr>auto_resp := gpp f - npp f\<rparr>;
          f = f\<lparr>apar := apar f + apar_canopy cw\<rparr>;
          f = f\<lparr>gs_mol_m2_sec := gs_mol_m2_sec f + gsc_canopy cw\<rparr>
      in f)"

definition initialise_leaf_surface :: "'a canopy_wk_scheme \<Rightarrow> 'b met_scheme \<Rightarrow> 'a canopy_wk_scheme" where
  "initialise_leaf_surface cw m = cw\<lparr>tleaf := tair m, dleaf := vpd m, Cs := Ca m\<rparr>"

section \<open>Top-of-canopy nitrogen\<close>

definition calculate_top_of_canopy_leafn ::
  "constants \<Rightarrow> 'a canopy_wk_scheme \<Rightarrow> 'b params_scheme \<Rightarrow> 'c state_scheme \<Rightarrow> 'a canopy_wk_scheme" where
  "calculate_top_of_canopy_leafn K cw p s =
     (let kn = 0.3;
          LMA = 1.0 / sla p * cfracts p * KG_AS_G K
      in if lai s > 0.0 then
           (let Ntot = shootnc s * LMA * lai s
            in cw\<lparr>N0 := Ntot * kn / (1.0 - exp (- kn * lai s))\<rparr>)
         else cw\<lparr>N0 := 0.0\<rparr>)"

section \<open>Leaf energy balance\<close>

text \<open>
  \<^verbatim>\<open>pow(Tk, 4.0)\<close> is the fourth power; \<^verbatim>\<open>pow(ea / Tk, 1.0 / 7.0)\<close> is \<open>powr\<close>, which
  agrees with C on non-negative bases (C yields NaN on a negative base).
\<close>

definition calc_leaf_net_rad ::
  "constants \<Rightarrow> collab \<Rightarrow> 'a params_scheme \<Rightarrow> 'b state_scheme \<Rightarrow> real \<Rightarrow> real \<Rightarrow> real \<Rightarrow> real" where
  "calc_leaf_net_rad K X p s tair_v vpd_v sw_rad_v =
     (let kd = 0.8;
          Tk = tair_v + DEG_TO_KELVIN K;
          ea = calc_sat_water_vapour_press X tair_v - vpd_v;
          emissivity_atm = 0.642 * ((ea / Tk) powr (1.0 / 7.0));
          net_lw_rad = (1.0 - emissivity_atm) * SIGMA_const K * Tk ^ 4;
          rnet = leaf_abs p * sw_rad_v - net_lw_rad * kd * exp (- kd * lai s)
      in rnet)"

definition solve_leaf_energy_balance ::
  "constants \<Rightarrow> collab \<Rightarrow> control \<Rightarrow> canopy_wk \<Rightarrow> fluxes \<Rightarrow> met \<Rightarrow> params \<Rightarrow> state \<Rightarrow> canopy_wk" where
  "solve_leaf_energy_balance K X c cw f m p s =
     (let idx = leaf_idx cw;
          sw_rad_v = apar_leaf cw ! idx * PAR_2_SW K;
          cw = cw\<lparr>rnet_leaf := (rnet_leaf cw)[idx := calc_leaf_net_rad K X p s (tair m) (vpd m) sw_rad_v]\<rparr>;
          pm = penman_leaf_wrapper X m p s (tleaf cw) (rnet_leaf cw ! idx) (gsc_leaf cw ! idx);
          cw = cw\<lparr>trans_leaf := (trans_leaf cw)[idx := pm_transpiration pm]\<rparr>;
          cw = cw\<lparr>omega_leaf := (omega_leaf cw)[idx := pm_omega pm]\<rparr>;
          Tdiff = (rnet_leaf cw ! idx - pm_LE pm) / (CP K * MASS_AIR K * pm_gh pm);
          cw = cw\<lparr>tleaf_new := tair m + Tdiff / 4.0\<rparr>;
          cw = cw\<lparr>Cs := Ca m - an_leaf cw ! idx / pm_gbc pm\<rparr>;
          cw = cw\<lparr>dleaf := trans_leaf cw ! idx * press m / pm_gv pm\<rparr>
      in cw)"

section \<open>Leaf temperature convergence solver\<close>

text \<open>
  The two calls of \<^verbatim>\<open>exit(EXIT_FAILURE)\<close> become error values, which hold what can
  be observed of the process when it exits. \<open>C4_not_implemented\<close> records the text
  that line 77 writes to \<^verbatim>\<open>stderr\<close> before the exit of line 78, and the flux
  accumulator \<^verbatim>\<open>f\<close> as it stands at that exit. \<open>No_convergence\<close> records the value
  that the iteration counter has at the exit of line 92.
\<close>

datatype error = C4_not_implemented string fluxes | No_convergence int

text \<open>
  The leaf temperature loop is left by one of two \<^verbatim>\<open>break\<close> statements; the model
  returns which one: line 87 (\<open>NonPhotosynthesizing\<close>) or line 94 (\<open>Converged\<close>).
\<close>

datatype leaf_exit = Converged | NonPhotosynthesizing

definition itermax :: int where
  "itermax = 100"

text \<open>
  \<^verbatim>\<open>while (TRUE)\<close> of lines 71-100, for the leaf class \<open>leaf_idx cw\<close>, started with
  the counter at \<open>iter\<close>. A further pass is made only while \<open>iter < itermax\<close>, which is
  what makes the loop terminate.
\<close>

function leaf_temperature_loop ::
  "constants \<Rightarrow> collab \<Rightarrow> control \<Rightarrow> fluxes \<Rightarrow> met \<Rightarrow> params \<Rightarrow> state \<Rightarrow> canopy_wk \<Rightarrow> int
     \<Rightarrow> error + (leaf_exit \<times> canopy_wk \<times> int)" where
  "leaf_temperature_loop K X c f m p s cw iter =
     (if ps_pathway c = C3 then
        (let ag = photosynthesis_C3 X c cw m p s;
             cw = cw\<lparr>an_leaf := (an_leaf cw)[leaf_idx cw := fst ag],
                     gsc_leaf := (gsc_leaf cw)[leaf_idx cw := snd ag]\<rparr>
         in if an_leaf cw ! leaf_idx cw > 0.0001 then
              (let cw = solve_leaf_energy_balance K X c cw f m p s
               in if iter \<ge> itermax then Inl (No_convergence iter)
                  else if \<bar>tleaf cw - tleaf_new cw\<bar> < 0.02 then Inr (Converged, cw, iter)
                  else leaf_temperature_loop K X c f m p s (cw\<lparr>tleaf := tleaf_new cw\<rparr>) (iter + 1))
            else Inr (NonPhotosynthesizing, cw, iter))
      else Inl (C4_not_implemented (''C4 photosynthesis not implemented'' @ [CHR 0x0A]) f))"
  by pat_completeness auto
termination
  by (relation "measure (\<lambda>(K, X, c, f, m, p, s, cw, iter). nat (itermax - iter))") auto

declare leaf_temperature_loop.simps [simp del]

text \<open>
  The sunlit/shaded loop of lines 65-101. The loop variable is the workspace field
  \<open>leaf_idx\<close>, set to 0 by the caller; the counter \<open>iter\<close> is handed from one leaf
  class to the next as it stands.
\<close>

function leaf_loop ::
  "constants \<Rightarrow> collab \<Rightarrow> control \<Rightarrow> fluxes \<Rightarrow> met \<Rightarrow> params \<Rightarrow> state \<Rightarrow> canopy_wk \<Rightarrow> int
     \<Rightarrow> error + (canopy_wk \<times> int)" where
  "leaf_loop K X c f m p s cw iter =
     (if leaf_idx cw < NUM_LEAVES then
        (case leaf_temperature_loop K X c f m p s (initialise_leaf_surface cw m) iter of
           Inl e \<Rightarrow> Inl e
         | Inr (ex, cw', iter') \<Rightarrow>
             leaf_loop K X c f m p s (cw'\<lparr>leaf_idx := leaf_idx cw' + 1\<rparr>) iter')
      else Inr (cw, iter))"
  by pat_completeness auto
termination
proof -
  have solve_idx: "leaf_idx (solve_leaf_energy_balance K X c cw f m p s) = leaf_idx cw"
    for K X c cw f m p s
    by (simp add: solve_leaf_energy_balance_def Let_def)
  have keep: "leaf_temperature_loop K X c f m p s cw iter = Inr (ex, cw', iter')
      \<Longrightarrow> leaf_idx cw' = leaf_idx cw" for K X c f m p s cw iter ex cw' iter'
  proof (induction K X c f m p s cw iter rule: leaf_temperature_loop.induct)
    case (1 K X c f m p s cw iter)
    from "1.prems" show ?case
      by (subst (asm) leaf_temperature_loop.simps)
         (auto simp: Let_def solve_idx split: if_splits dest!: "1.IH"[OF _ refl refl _ refl])
  qed
  show ?thesis
    by (relation "measure (\<lambda>(K, X, c, f, m, p, s, cw, iter). NUM_LEAVES - leaf_idx cw)")
       (auto dest!: keep simp: initialise_leaf_surface_def)
qed

declare leaf_loop.simps [simp del]

section \<open>Daily canopy driver\<close>

text \<open>
  The variables of one call of \<^verbatim>\<open>canopy\<close>: the structures it mutates through its
  pointer arguments and its two counters \<^verbatim>\<open>iter\<close> and \<^verbatim>\<open>sunlight_hrs\<close>.
\<close>

record frame =
  fr_cw :: canopy_wk
  fr_c :: control
  fr_f :: fluxes
  fr_m :: met
  fr_s :: state
  fr_iter :: int
  fr_sunlight_hrs :: int

text \<open>
  The body of the loop over the half hours, lines 53-123, for the half hour \<open>hod\<close>.
  \<open>dummy\<close> is the local of that name, which the source passes on without ever
  assigning it.
\<close>

definition half_hour ::
  "constants \<Rightarrow> collab \<Rightarrow> met_arrays \<Rightarrow> params \<Rightarrow> int \<Rightarrow> real \<Rightarrow> int \<Rightarrow> frame \<Rightarrow> error + frame" where
  "half_hour K X ma p dummy doy_v hod fr =
     (let c = fr_c fr; f = fr_f fr; s = fr_s fr; iter = fr_iter fr;
          m = unpack_met_data X c ma (fr_m fr) hod;
          cw = fr_cw fr;
          cw = cw\<lparr>elevation := calculate_solar_geometry X cw p doy_v hod\<rparr>;
          cw = cw\<lparr>diffuse_frac := get_diffuse_frac X cw doy_v (sw_rad m)\<rparr>;
          branch =
            (if elevation cw > 0.0 \<and> par m > 20.0 then
               (let cw = cw\<lparr>apar_leaf := calculate_absorbed_radiation X cw p s (par m)\<rparr>;
                    cw = calculate_top_of_canopy_leafn K cw p s
                in case leaf_loop K X c f m p s (cw\<lparr>leaf_idx := 0\<rparr>) iter of
                     Inl e \<Rightarrow> Inl e
                   | Inr (cw, iter) \<Rightarrow> Inr (cw, s, iter))
             else
               (let cw = zero_hourly_fluxes cw;
                    s = (if hod = 10 then calc_soil_water_potential X c p s else s)
                in Inr (cw, s, iter)))
      in case branch of
           Inl e \<Rightarrow> Inl e
         | Inr (cw, s, iter) \<Rightarrow>
             (let cw = scale_to_canopy cw;
                  f = sum_hourly_carbon_fluxes K cw f p;
                  fs = calculate_water_balance X c f m p s dummy
                         (trans_canopy cw) (omega_canopy cw) (rnet_canopy cw);
                  c = c\<lparr>hour_idx := hour_idx c + 1\<rparr>
              in Inr (fr\<lparr>fr_cw := cw, fr_c := c, fr_f := fst fs, fr_m := m, fr_s := snd fs,
                          fr_iter := iter, fr_sunlight_hrs := fr_sunlight_hrs fr + 1\<rparr>)))"

text \<open>The loop \<^verbatim>\<open>for (hod = 0; hod < c->num_hlf_hrs; hod++)\<close>, entered at \<open>hod\<close>.\<close>

function hour_loop ::
  "constants \<Rightarrow> collab \<Rightarrow> met_arrays \<Rightarrow> params \<Rightarrow> int \<Rightarrow> real \<Rightarrow> int \<Rightarrow> frame \<Rightarrow> error + frame" where
  "hour_loop K X ma p dummy doy_v hod fr =
     (if hod < num_hlf_hrs (fr_c fr) then
        (case half_hour K X ma p dummy doy_v hod fr of
           Inl e \<Rightarrow> Inl e
         | Inr fr' \<Rightarrow> hour_loop K X ma p dummy doy_v (hod + 1) fr')
      else Inr fr)"
  by pat_completeness auto
termination
proof -
  have keep: "half_hour K X ma p dummy doy_v hod fr = Inr fr'
      \<Longrightarrow> num_hlf_hrs (fr_c fr') = num_hlf_hrs (fr_c fr)" for K X ma p dummy doy_v hod fr fr'
    by (auto simp: half_hour_def Let_def split: sum.splits prod.splits if_splits)
  show ?thesis
    by (relation "measure (\<lambda>(K, X, ma, p, dummy, doy_v, hod, fr). nat (num_hlf_hrs (fr_c fr) - hod))")
       (auto dest!: keep)
qed

declare hour_loop.simps [simp del]

text \<open>
  The procedure \<^verbatim>\<open>canopy\<close>. The result is the frame as it stands at \<^verbatim>\<open>return\<close>, or
  the error with which the process exits. The two divisions at day end are real
  division; HOL gives \<open>x / 0 = 0\<close> where C gives an infinity or NaN.
\<close>

definition canopy ::
  "constants \<Rightarrow> collab \<Rightarrow> int \<Rightarrow> canopy_wk \<Rightarrow> control \<Rightarrow> fluxes \<Rightarrow> met_arrays \<Rightarrow> met \<Rightarrow> params \<Rightarrow> state
     \<Rightarrow> error + frame" where
  "canopy K X dummy cw c f ma m p s =
     (let iter = 0;
          f = zero_carbon_day_fluxes f;
          f = zero_water_day_fluxes X f;
          sunlight_hrs = 0;
          doy_v = doy ma ! nat (hour_idx c);
          fr = \<lparr>fr_cw = cw, fr_c = c, fr_f = f, fr_m = m, fr_s = s,
                fr_iter = iter, fr_sunlight_hrs = sunlight_hrs\<rparr>
      in case hour_loop K X ma p dummy doy_v 0 fr of
           Inl e \<Rightarrow> Inl e
         | Inr fr \<Rightarrow>
             (let c = fr_c fr; s = fr_s fr;
                  f = (fr_f fr)\<lparr>omega := omega (fr_f fr) / real_of_int (fr_sunlight_hrs fr)\<rparr>;
                  m = (fr_m fr)\<lparr>tsoil := tsoil (fr_m fr) / real_of_int (num_hlf_hrs c)\<rparr>;
                  s = (if water_stress c then calculate_soil_water_fac X c p s
                       else s\<lparr>wtfac_topsoil := 1.0, wtfac_root := 1.0\<rparr>)
              in Inr (fr\<lparr>fr_f := f, fr_m := m, fr_s := s\<rparr>)))"


section \<open>The carbon accumulation in double arithmetic\<close>

text \<open>
  \<^verbatim>\<open>sum_hourly_carbon_fluxes\<close> is called once per half hour, so that line 288 adds a
  rounded term to a rounded sum up to 48 times a day. What such a sum is depends on the
  rounding, so this function is modelled a second time, with the arithmetic of the C
  doubles: IEEE 754 binary64, rounding to nearest with ties to even, every operation
  rounded on its own. A double other than 0 is a real \<open>\<plusminus> m * 2 ^ (e - 52)\<close> with
  \<open>2 ^ 52 \<le> m < 2 ^ 53\<close>. The exponent \<open>e\<close> is not bounded here: overflow, subnormal
  numbers, infinities and NaN stay outside the model.

  \<open>rne\<close> rounds a real to the nearest integer, a tie to the even one; \<open>fl64\<close> rounds a
  real to the nearest double.
\<close>

definition rne :: "real \<Rightarrow> int" where
  "rne x = (let n = \<lfloor>x\<rfloor>; r = x - of_int n
            in if r < 1 / 2 then n else if 1 / 2 < r then n + 1 else if even n then n else n + 1)"

definition fl64 :: "real \<Rightarrow> real" where
  "fl64 x = (if x = 0 then 0
             else (let e = \<lfloor>log 2 \<bar>x\<bar>\<rfloor>; u = 2 powr (of_int e - 52)
                   in sgn x * (of_int (rne (\<bar>x\<bar> / u)) * u)))"

definition dbl_add :: "real \<Rightarrow> real \<Rightarrow> real" where
  "dbl_add x y = fl64 (x + y)"

definition dbl_sub :: "real \<Rightarrow> real \<Rightarrow> real" where
  "dbl_sub x y = fl64 (x - y)"

definition dbl_mul :: "real \<Rightarrow> real \<Rightarrow> real" where
  "dbl_mul x y = fl64 (x * y)"

text \<open>
  Lines 285-297 with every \<^verbatim>\<open>+\<close>, \<^verbatim>\<open>-\<close> and \<^verbatim>\<open>*\<close> rounded; the product of line 288
  is evaluated from the left, as C does.
\<close>

definition sum_hourly_carbon_fluxes_dbl ::
  "constants \<Rightarrow> 'a canopy_wk_scheme \<Rightarrow> 'b fluxes_scheme \<Rightarrow> 'c params_scheme \<Rightarrow> 'b fluxes_scheme" where
  "sum_hourly_carbon_fluxes_dbl K cw f p =
     (let f = f\<lparr>gpp_gCm2 := dbl_add (gpp_gCm2 f)
                   (dbl_mul (dbl_mul (dbl_mul (an_canopy cw) (UMOL_TO_MOL K)) (MOL_C_TO_GRAMS_C K))
                      (SEC_2_HLFHR K))\<rparr>;
          f = f\<lparr>npp_gCm2 := dbl_mul (gpp_gCm2 f) (cue p)\<rparr>;
          f = f\<lparr>gpp := dbl_mul (gpp_gCm2 f) (GRAM_C_2_TONNES_HA K)\<rparr>;
          f = f\<lparr>npp := dbl_mul (npp_gCm2 f) (GRAM_C_2_TONNES_HA K)\<rparr>;
          f = f\<lparr>auto_resp := dbl_sub (gpp f) (npp f)\<rparr>;
          f = f\<lparr>apar := dbl_add (apar f) (apar_canopy cw)\<rparr>;
          f = f\<lparr>gs_mol_m2_sec := dbl_add (gs_mol_m2_sec f) (gsc_canopy cw)\<rparr>
      in f)"
section \<open>Auxiliary notions for stating the properties\<close>

text \<open>
  The C arrays have \<^verbatim>\<open>NUM_LEAVES\<close> elements; a workspace whose six per-leaf lists
  have that length is the model of a well-formed \<^verbatim>\<open>canopy_wk\<close>.
\<close>

definition leaf_arrays_ok :: "'a canopy_wk_scheme \<Rightarrow> bool" where
  "leaf_arrays_ok cw \<longleftrightarrow>
     length (an_leaf cw) = NUM_LEAVES \<and> length (gsc_leaf cw) = NUM_LEAVES \<and>
     length (trans_leaf cw) = NUM_LEAVES \<and> length (rnet_leaf cw) = NUM_LEAVES \<and>
     length (apar_leaf cw) = NUM_LEAVES \<and> length (omega_leaf cw) = NUM_LEAVES"

text \<open>
  The successive calls of \<^verbatim>\<open>sum_hourly_carbon_fluxes\<close> (line 118) over the half hours
  of a day, in double arithmetic, \<open>cws\<close> being the workspaces after canopy scaling, in
  order; and the term that line 288 adds for a canopy assimilation \<open>a\<close>, in double
  arithmetic.
\<close>

definition accumulate_day_dbl ::
  "constants \<Rightarrow> 'c params_scheme \<Rightarrow> 'a canopy_wk_scheme list \<Rightarrow> 'b fluxes_scheme \<Rightarrow> 'b fluxes_scheme" where
  "accumulate_day_dbl K p cws f = fold (\<lambda>cw f. sum_hourly_carbon_fluxes_dbl K cw f p) cws f"

definition hlfhr_gC_dbl :: "constants \<Rightarrow> real \<Rightarrow> real" where
  "hlfhr_gC_dbl K a = dbl_mul (dbl_mul (dbl_mul a (UMOL_TO_MOL K)) (MOL_C_TO_GRAMS_C K)) (SEC_2_HLFHR K)"

subsection \<open>One pass of the leaf temperature loop\<close>

text \<open>The workspace after the call of \<^verbatim>\<open>photosynthesis_C3\<close> on line 74.\<close>

definition after_photosynthesis ::
  "collab \<Rightarrow> control \<Rightarrow> canopy_wk \<Rightarrow> met \<Rightarrow> params \<Rightarrow> state \<Rightarrow> canopy_wk" where
  "after_photosynthesis X c cw m p s =
     cw\<lparr>an_leaf := (an_leaf cw)[leaf_idx cw := fst (photosynthesis_C3 X c cw m p s)],
        gsc_leaf := (gsc_leaf cw)[leaf_idx cw := snd (photosynthesis_C3 X c cw m p s)]\<rparr>"

text \<open>The test of line 81.\<close>

definition photosynthesizing :: "collab \<Rightarrow> control \<Rightarrow> canopy_wk \<Rightarrow> met \<Rightarrow> params \<Rightarrow> state \<Rightarrow> bool" where
  "photosynthesizing X c cw m p s \<longleftrightarrow>
     an_leaf (after_photosynthesis X c cw m p s) ! leaf_idx cw > 0.0001"

text \<open>The workspace after lines 74-83 of a pass in which the leaf photosynthesizes.\<close>

definition leaf_pass ::
  "constants \<Rightarrow> collab \<Rightarrow> control \<Rightarrow> fluxes \<Rightarrow> met \<Rightarrow> params \<Rightarrow> state \<Rightarrow> canopy_wk \<Rightarrow> canopy_wk" where
  "leaf_pass K X c f m p s cw =
     solve_leaf_energy_balance K X c (after_photosynthesis X c cw m p s) f m p s"

text \<open>The test of line 93.\<close>

definition within_tolerance :: "canopy_wk \<Rightarrow> bool" where
  "within_tolerance cw \<longleftrightarrow> \<bar>tleaf cw - tleaf_new cw\<bar> < 0.02"

text \<open>Line 98: the workspace with which the following pass starts.\<close>

definition next_pass ::
  "constants \<Rightarrow> collab \<Rightarrow> control \<Rightarrow> fluxes \<Rightarrow> met \<Rightarrow> params \<Rightarrow> state \<Rightarrow> canopy_wk \<Rightarrow> canopy_wk" where
  "next_pass K X c f m p s cw =
     (leaf_pass K X c f m p s cw)\<lparr>tleaf := tleaf_new (leaf_pass K X c f m p s cw)\<rparr>"

text \<open>
  The first \<open>k\<close> passes, counted from the workspace \<open>cw\<close>, all photosynthesize and
  all miss the tolerance.
\<close>

definition unconverged_passes ::
  "constants \<Rightarrow> collab \<Rightarrow> control \<Rightarrow> fluxes \<Rightarrow> met \<Rightarrow> params \<Rightarrow> state \<Rightarrow> canopy_wk \<Rightarrow> nat \<Rightarrow> bool" where
  "unconverged_passes K X c f m p s cw k \<longleftrightarrow>
     (\<forall>j\<in>{..<k}. photosynthesizing X c ((next_pass K X c f m p s ^^ j) cw) m p s \<and>
            \<not> within_tolerance (leaf_pass K X c f m p s ((next_pass K X c f m p s ^^ j) cw)))"

subsection \<open>The parts of one half hour\<close>

text \<open>Line 53: the meteorological record of the half hour.\<close>

definition met_of_hour :: "collab \<Rightarrow> met_arrays \<Rightarrow> int \<Rightarrow> frame \<Rightarrow> met" where
  "met_of_hour X ma hod fr = unpack_met_data X (fr_c fr) ma (fr_m fr) hod"

text \<open>Lines 56-57: the workspace once elevation and diffuse fraction are set.\<close>

definition wk_of_hour :: "collab \<Rightarrow> met_arrays \<Rightarrow> params \<Rightarrow> real \<Rightarrow> int \<Rightarrow> frame \<Rightarrow> canopy_wk" where
  "wk_of_hour X ma p doy_v hod fr =
     (let cw = (fr_cw fr)\<lparr>elevation := calculate_solar_geometry X (fr_cw fr) p doy_v hod\<rparr>
      in cw\<lparr>diffuse_frac := get_diffuse_frac X cw doy_v (sw_rad (met_of_hour X ma hod fr))\<rparr>)"

text \<open>The test of line 60.\<close>

definition sun_up :: "collab \<Rightarrow> met_arrays \<Rightarrow> params \<Rightarrow> real \<Rightarrow> int \<Rightarrow> frame \<Rightarrow> bool" where
  "sun_up X ma p doy_v hod fr \<longleftrightarrow>
     elevation (wk_of_hour X ma p doy_v hod fr) > 0 \<and> par (met_of_hour X ma hod fr) > 20"

text \<open>Lines 117-123, which follow either branch.\<close>

definition hour_tail ::
  "constants \<Rightarrow> collab \<Rightarrow> params \<Rightarrow> int \<Rightarrow> frame \<Rightarrow> met \<Rightarrow> canopy_wk \<Rightarrow> state \<Rightarrow> int \<Rightarrow> frame" where
  "hour_tail K X p dummy fr m cw s iter =
     (let cw = scale_to_canopy cw;
          f = sum_hourly_carbon_fluxes K cw (fr_f fr) p;
          fs = calculate_water_balance X (fr_c fr) f m p s dummy
                 (trans_canopy cw) (omega_canopy cw) (rnet_canopy cw)
      in fr\<lparr>fr_cw := cw, fr_c := (fr_c fr)\<lparr>hour_idx := hour_idx (fr_c fr) + 1\<rparr>,
            fr_f := fst fs, fr_m := m, fr_s := snd fs,
            fr_iter := iter, fr_sunlight_hrs := fr_sunlight_hrs fr + 1\<rparr>)"

text \<open>The half hour when the sun is down: lines 103-112, then lines 117-123.\<close>

definition night_half_hour ::
  "constants \<Rightarrow> collab \<Rightarrow> met_arrays \<Rightarrow> params \<Rightarrow> int \<Rightarrow> real \<Rightarrow> int \<Rightarrow> frame \<Rightarrow> frame" where
  "night_half_hour K X ma p dummy doy_v hod fr =
     hour_tail K X p dummy fr (met_of_hour X ma hod fr)
       (zero_hourly_fluxes (wk_of_hour X ma p doy_v hod fr))
       (if hod = 10 then calc_soil_water_potential X (fr_c fr) p (fr_s fr) else fr_s fr)
       (fr_iter fr)"

text \<open>Lines 61-65: the workspace with which the sunlit/shaded loop is entered.\<close>

definition sunlit_wk ::
  "constants \<Rightarrow> collab \<Rightarrow> met_arrays \<Rightarrow> params \<Rightarrow> real \<Rightarrow> int \<Rightarrow> frame \<Rightarrow> canopy_wk" where
  "sunlit_wk K X ma p doy_v hod fr =
     (calculate_top_of_canopy_leafn K
        ((wk_of_hour X ma p doy_v hod fr)
           \<lparr>apar_leaf := calculate_absorbed_radiation X (wk_of_hour X ma p doy_v hod fr) p (fr_s fr)
                            (par (met_of_hour X ma hod fr))\<rparr>) p (fr_s fr))\<lparr>leaf_idx := 0\<rparr>"

text \<open>
  The workspace with which the sunlit/shaded loop ends when both leaves leave the
  temperature loop on line 87 in their first pass: each leaf has had its assimilation
  and conductance stored by the photosynthesis call and nothing else.
\<close>

definition idle_leaves ::
  "constants \<Rightarrow> collab \<Rightarrow> met_arrays \<Rightarrow> params \<Rightarrow> real \<Rightarrow> int \<Rightarrow> frame \<Rightarrow> canopy_wk" where
  "idle_leaves K X ma p doy_v hod fr =
     (let m = met_of_hour X ma hod fr;
          cw1 = after_photosynthesis X (fr_c fr)
                  (initialise_leaf_surface (sunlit_wk K X ma p doy_v hod fr) m) m p (fr_s fr);
          cw2 = after_photosynthesis X (fr_c fr)
                  (initialise_leaf_surface (cw1\<lparr>leaf_idx := 1\<rparr>) m) m p (fr_s fr)
      in cw2\<lparr>leaf_idx := 2\<rparr>)"

text \<open>
  The workspaces with which the temperature loops of the two leaves are entered (line
  68): that of the sunlit leaf, and that of the shaded leaf when the sunlit leaf has
  left its loop on line 87 in its first pass.
\<close>

definition sunlit_entry ::
  "constants \<Rightarrow> collab \<Rightarrow> met_arrays \<Rightarrow> params \<Rightarrow> real \<Rightarrow> int \<Rightarrow> frame \<Rightarrow> canopy_wk" where
  "sunlit_entry K X ma p doy_v hod fr =
     initialise_leaf_surface (sunlit_wk K X ma p doy_v hod fr) (met_of_hour X ma hod fr)"

definition shaded_entry_after_idle ::
  "constants \<Rightarrow> collab \<Rightarrow> met_arrays \<Rightarrow> params \<Rightarrow> real \<Rightarrow> int \<Rightarrow> frame \<Rightarrow> canopy_wk" where
  "shaded_entry_after_idle K X ma p doy_v hod fr =
     initialise_leaf_surface
       ((after_photosynthesis X (fr_c fr) (sunlit_entry K X ma p doy_v hod fr)
           (met_of_hour X ma hod fr) p (fr_s fr))\<lparr>leaf_idx := 1\<rparr>)
       (met_of_hour X ma hod fr)"

subsection \<open>The parts of one call of the driver\<close>

text \<open>Lines 43-50: the variables with which the loop over the half hours is entered.\<close>

definition entry_frame :: "collab \<Rightarrow> canopy_wk \<Rightarrow> control \<Rightarrow> fluxes \<Rightarrow> met \<Rightarrow> state \<Rightarrow> frame" where
  "entry_frame X cw c f m s =
     \<lparr>fr_cw = cw, fr_c = c, fr_f = zero_water_day_fluxes X (zero_carbon_day_fluxes f),
      fr_m = m, fr_s = s, fr_iter = 0, fr_sunlight_hrs = 0\<rparr>"

text \<open>Lines 127-140, which follow the loop over the half hours.\<close>

definition day_end :: "collab \<Rightarrow> params \<Rightarrow> frame \<Rightarrow> frame" where
  "day_end X p fr =
     fr\<lparr>fr_f := (fr_f fr)\<lparr>omega := omega (fr_f fr) / real_of_int (fr_sunlight_hrs fr)\<rparr>,
        fr_m := (fr_m fr)\<lparr>tsoil := tsoil (fr_m fr) / real_of_int (num_hlf_hrs (fr_c fr))\<rparr>,
        fr_s := (if water_stress (fr_c fr) then calculate_soil_water_fac X (fr_c fr) p (fr_s fr)
                 else (fr_s fr)\<lparr>wtfac_topsoil := 1.0, wtfac_root := 1.0\<rparr>)\<rparr>"

text \<open>
  The frame after the half hours \<open>0, \<dots>, n - 1\<close>, each of them carried out with the
  sun down.
\<close>

primrec sundown_run ::
  "constants \<Rightarrow> collab \<Rightarrow> met_arrays \<Rightarrow> params \<Rightarrow> int \<Rightarrow> real \<Rightarrow> nat \<Rightarrow> frame \<Rightarrow> frame" where
  "sundown_run K X ma p dummy doy_v 0 fr = fr"
| "sundown_run K X ma p dummy doy_v (Suc n) fr =
     night_half_hour K X ma p dummy doy_v (int n) (sundown_run K X ma p dummy doy_v n fr)"

text \<open>
  The six day totals that \<open>zero_carbon_day_fluxes\<close> resets, and the condition that the
  two water routines that receive the flux accumulator leave them as they are.
\<close>

definition carbon_day_totals :: "fluxes \<Rightarrow> real \<times> real \<times> real \<times> real \<times> real \<times> real" where
  "carbon_day_totals f = (gpp_gCm2 f, npp_gCm2 f, gpp f, npp f, auto_resp f, apar f)"

definition keeps_carbon_totals :: "collab \<Rightarrow> bool" where
  "keeps_carbon_totals X \<longleftrightarrow>
     (\<forall>f. carbon_day_totals (zero_water_day_fluxes X f) = carbon_day_totals f) \<and>
     (\<forall>c f m p s d tr om rn.
        carbon_day_totals (fst (calculate_water_balance X c f m p s d tr om rn)) = carbon_day_totals f)"

section \<open>Concrete scenarios\<close>

text \<open>
  Inputs on which the model is run: typical values of the physical constants, a zeroed
  workspace, a workspace as a sunlit half hour leaves it, and stand-ins for the
  collaborators. The stand-in Penman solver is given the candidate leaf temperature
  \<open>next_t tair tleaf\<close> it is to produce: it returns the latent heat for which line 179
  yields that candidate.
\<close>

definition K_gday :: constants where
  "K_gday = \<lparr>PAR_2_SW = 1 / 2.3, CP = 1010, MASS_AIR = 0.029, DEG_TO_KELVIN = 273.15,
     SIGMA_const = 0.0000000567, KG_AS_G = 1000, UMOL_TO_MOL = 0.000001, MOL_C_TO_GRAMS_C = 12,
     SEC_2_HLFHR = 1800, GRAM_C_2_TONNES_HA = 0.01\<rparr>"

definition X_stub :: "(int \<Rightarrow> bool) \<Rightarrow> (control \<Rightarrow> real \<times> real) \<Rightarrow> (real \<Rightarrow> real \<Rightarrow> real) \<Rightarrow> collab" where
  "X_stub sun ps next_t =
     \<lparr>unpack_met_data = (\<lambda>c ma m hod. m\<lparr>tair := 20, vpd := 1, Ca := 400, press := 101,
          par := (if sun hod then 500 else 0), sw_rad := (if sun hod then 217 else 0),
          tsoil := tsoil m + 10\<rparr>),
      calculate_solar_geometry = (\<lambda>cw p d hod. if sun hod then 30 else - 30),
      get_diffuse_frac = (\<lambda>cw d sw. 0.5),
      calculate_absorbed_radiation = (\<lambda>cw p s pr. [0.6 * pr, 0.2 * pr]),
      photosynthesis_C3 = (\<lambda>c cw m p s. ps c),
      penman_leaf_wrapper = (\<lambda>m p s t rn gs.
         \<lparr>pm_transpiration = gs / 50,
          pm_LE = rn - 4 * (1010 * 0.029) * (next_t (tair m) t - tair m),
          pm_gbc = 1, pm_gh = 1, pm_gv = 1, pm_omega = 0.5\<rparr>),
      calc_sat_water_vapour_press = (\<lambda>t. 2.3),
      calc_soil_water_potential = (\<lambda>c p s. s),
      calculate_water_balance = (\<lambda>c f m p s d tr om rn. (f\<lparr>omega := omega f + om\<rparr>, s)),
      calculate_soil_water_fac = (\<lambda>c p s. s\<lparr>wtfac_topsoil := 0.5, wtfac_root := 0.5\<rparr>),
      zero_water_day_fluxes = (\<lambda>f. f\<lparr>omega := 0\<rparr>)\<rparr>"

text \<open>When the sun is up: half hours 20 to 30, always, never.\<close>

definition sun_window :: "int \<Rightarrow> bool" where
  "sun_window h \<longleftrightarrow> 20 \<le> h \<and> h \<le> 30"

definition sun_always :: "int \<Rightarrow> bool" where
  "sun_always h \<longleftrightarrow> True"

definition sun_never :: "int \<Rightarrow> bool" where
  "sun_never h \<longleftrightarrow> False"

text \<open>
  Photosynthesis: a steady assimilation of 10 with conductance 0.1, or that in the first
  half hour of the series and none afterwards.
\<close>

definition ps_steady :: "control \<Rightarrow> real \<times> real" where
  "ps_steady c = (10, 0.1)"

definition ps_first_only :: "control \<Rightarrow> real \<times> real" where
  "ps_first_only c = (if hour_idx c = 0 then (10, 0.1) else (0, 0))"

text \<open>
  Candidate temperatures: \<open>settle_after n\<close> moves one degree per pass until \<open>n\<close>
  degrees above air temperature and stays there; \<open>contract\<close> closes one hundredth
  of the remaining distance to 5.43 degrees above air temperature at each pass, so
  that the difference between candidate and current temperature shrinks at every pass;
  \<open>drift\<close> moves one degree per pass for ever.
\<close>

definition settle_after :: "nat \<Rightarrow> real \<Rightarrow> real \<Rightarrow> real" where
  "settle_after n ta t = (if t < ta + real n then t + 1 else t)"

definition contract :: "real \<Rightarrow> real \<Rightarrow> real" where
  "contract ta t = (ta + 5.43) - 0.99 * ((ta + 5.43) - t)"

definition drift :: "real \<Rightarrow> real \<Rightarrow> real" where
  "drift ta t = t + 1"

definition X_window :: collab where
  "X_window = X_stub sun_window ps_steady (settle_after 0)"

definition X_polar_night :: collab where
  "X_polar_night = X_stub sun_never ps_steady (settle_after 0)"

definition X_slow :: collab where
  "X_slow = X_stub sun_always ps_steady (settle_after 30)"


definition X_fading :: collab where
  "X_fading = X_stub sun_always ps_first_only (settle_after 0)"

definition X_contract :: collab where
  "X_contract = X_stub sun_always ps_steady contract"

definition X_drift :: collab where
  "X_drift = X_stub sun_always ps_steady drift"

definition cw0 :: canopy_wk where
  "cw0 = \<lparr>elevation = 0, diffuse_frac = 0, leaf_idx = 0, an_leaf = [0, 0], gsc_leaf = [0, 0],
     trans_leaf = [0, 0], rnet_leaf = [0, 0], apar_leaf = [0, 0], omega_leaf = [0, 0],
     tleaf = 0, tleaf_new = 0, Cs = 0, dleaf = 0, N0 = 0, an_canopy = 0, gsc_canopy = 0,
     apar_canopy = 0, trans_canopy = 0, omega_canopy = 0, rnet_canopy = 0\<rparr>"

definition cw_prev :: canopy_wk where
  "cw_prev = \<lparr>elevation = 30, diffuse_frac = 0.5, leaf_idx = 2, an_leaf = [10, 4], gsc_leaf = [0.1, 0.05],
     trans_leaf = [0.002, 0.001], rnet_leaf = [300, 100], apar_leaf = [300, 100], omega_leaf = [0.5, 0.3],
     tleaf = 21, tleaf_new = 21, Cs = 390, dleaf = 1, N0 = 2, an_canopy = 14, gsc_canopy = 0.15,
     apar_canopy = 400, trans_canopy = 0.003, omega_canopy = 0.4, rnet_canopy = 400\<rparr>"

definition c_day :: "int \<Rightarrow> pathway \<Rightarrow> bool \<Rightarrow> control" where
  "c_day n pw ws = \<lparr>hour_idx = 0, num_hlf_hrs = n, ps_pathway = pw, water_stress = ws\<rparr>"

definition f0 :: fluxes where
  "f0 = \<lparr>gpp_gCm2 = 3, npp_gCm2 = 2, gpp = 1, npp = 1, auto_resp = 1, apar = 9,
          gs_mol_m2_sec = 4, omega = 5\<rparr>"

definition m0 :: met where
  "m0 = \<lparr>tair = 0, vpd = 0, Ca = 0, press = 0, par = 0, sw_rad = 0, tsoil = 0\<rparr>"

definition m_noon :: met where
  "m_noon = \<lparr>tair = 20, vpd = 1, Ca = 400, press = 101, par = 500, sw_rad = 217, tsoil = 10\<rparr>"

definition ma0 :: met_arrays where
  "ma0 = \<lparr>doy = replicate 48 1\<rparr>"

definition p0 :: params where
  "p0 = \<lparr>sla = 4, cfracts = 0.5, cue = 0.5, leaf_abs = 0.5\<rparr>"

definition s0 :: state where
  "s0 = \<lparr>lai = 2, shootnc = 0.03, wtfac_topsoil = 0.4, wtfac_root = 0.3\<rparr>"

definition s_bare :: state where
  "s_bare = \<lparr>lai = 0, shootnc = 0.03, wtfac_topsoil = 0.4, wtfac_root = 0.3\<rparr>"

text \<open>The workspace with which the sunlit leaf is entered at noon, from the zeroed workspace.\<close>

definition cw_leaf :: canopy_wk where
  "cw_leaf = initialise_leaf_surface cw0 m_noon"

text \<open>The frame with which \<^verbatim>\<open>canopy\<close> enters its loop over the half hours.\<close>

definition fr_start :: "collab \<Rightarrow> control \<Rightarrow> frame" where
  "fr_start X c = \<lparr>fr_cw = cw0, fr_c = c, fr_f = zero_water_day_fluxes X (zero_carbon_day_fluxes f0),
     fr_m = m0, fr_s = s0, fr_iter = 0, fr_sunlight_hrs = 0\<rparr>"

text \<open>
  A frame at the start of half hour 25, whose workspace holds what the half hour before
  left in it.
\<close>

definition fr_prev :: frame where
  "fr_prev = \<lparr>fr_cw = cw_prev, fr_c = (c_day 48 C3 False)\<lparr>hour_idx := 25\<rparr>, fr_f = f0,
     fr_m = m_noon, fr_s = s0, fr_iter = 0, fr_sunlight_hrs = 25\<rparr>"

text \<open>
  Scaled workspaces of a three-half-hour series: assimilation 5, 0 and 5; of a dark one;
  and of a series of six half hours with assimilation 1.
\<close>

definition day_bright :: "canopy_wk list" where
  "day_bright = [cw0\<lparr>an_canopy := 5\<rparr>, cw0, cw0\<lparr>an_canopy := 5\<rparr>]"

definition day_dark :: "canopy_wk list" where
  "day_dark = [cw0, cw0, cw0]"

definition day_six :: "canopy_wk list" where
  "day_six = replicate 6 (cw0\<lparr>an_canopy := 1\<rparr>)"

text \<open>The three conversion constants of line 288 as doubles: 1E-6 rounded, 12 and 1800.\<close>

definition K_gday_dbl :: constants where
  "K_gday_dbl = K_gday\<lparr>UMOL_TO_MOL := fl64 0.000001, MOL_C_TO_GRAMS_C := fl64 12,
     SEC_2_HLFHR := fl64 1800\<rparr>"

section \<open>Properties of the leaf temperature loop\<close>

lemma ltl_unfold:
  "leaf_temperature_loop K X c f m p s cw iter =
     (if ps_pathway c \<noteq> C3
        then Inl (C4_not_implemented (''C4 photosynthesis not implemented'' @ [CHR 0x0A]) f)
      else if \<not> photosynthesizing X c cw m p s
        then Inr (NonPhotosynthesizing, after_photosynthesis X c cw m p s, iter)
      else if iter \<ge> itermax then Inl (No_convergence iter)
      else if within_tolerance (leaf_pass K X c f m p s cw)
        then Inr (Converged, leaf_pass K X c f m p s cw, iter)
      else leaf_temperature_loop K X c f m p s (next_pass K X c f m p s cw) (iter + 1))"
  by (subst leaf_temperature_loop.simps)
     (simp add: Let_def photosynthesizing_def after_photosynthesis_def leaf_pass_def
        within_tolerance_def next_pass_def)

lemma solve_leaf_idx [simp]:
  "leaf_idx (solve_leaf_energy_balance K X c cw f m p s) = leaf_idx cw"
  by (simp add: solve_leaf_energy_balance_def Let_def)

lemma solve_tleaf [simp]:
  "tleaf (solve_leaf_energy_balance K X c cw f m p s) = tleaf cw"
  by (simp add: solve_leaf_energy_balance_def Let_def)

lemma solve_an_gsc_apar [simp]:
  "an_leaf (solve_leaf_energy_balance K X c cw f m p s) = an_leaf cw"
  "gsc_leaf (solve_leaf_energy_balance K X c cw f m p s) = gsc_leaf cw"
  "apar_leaf (solve_leaf_energy_balance K X c cw f m p s) = apar_leaf cw"
  by (simp_all add: solve_leaf_energy_balance_def Let_def)

lemma solve_arrays_ok [simp]:
  "leaf_arrays_ok (solve_leaf_energy_balance K X c cw f m p s) = leaf_arrays_ok cw"
  by (simp add: solve_leaf_energy_balance_def Let_def leaf_arrays_ok_def)

lemma after_photosynthesis_simps [simp]:
  "leaf_idx (after_photosynthesis X c cw m p s) = leaf_idx cw"
  "tleaf (after_photosynthesis X c cw m p s) = tleaf cw"
  "trans_leaf (after_photosynthesis X c cw m p s) = trans_leaf cw"
  "rnet_leaf (after_photosynthesis X c cw m p s) = rnet_leaf cw"
  "omega_leaf (after_photosynthesis X c cw m p s) = omega_leaf cw"
  "apar_leaf (after_photosynthesis X c cw m p s) = apar_leaf cw"
  "leaf_arrays_ok (after_photosynthesis X c cw m p s) = leaf_arrays_ok cw"
  by (simp_all add: after_photosynthesis_def leaf_arrays_ok_def)

lemma leaf_pass_simps [simp]:
  "leaf_idx (leaf_pass K X c f m p s cw) = leaf_idx cw"
  "tleaf (leaf_pass K X c f m p s cw) = tleaf cw"
  "leaf_arrays_ok (leaf_pass K X c f m p s cw) = leaf_arrays_ok cw"
  by (simp_all add: leaf_pass_def)

lemma arrays_ok_tleaf [simp]: "leaf_arrays_ok (cw\<lparr>tleaf := x\<rparr>) = leaf_arrays_ok cw"
  by (simp add: leaf_arrays_ok_def)

lemma next_pass_simps [simp]:
  "leaf_idx (next_pass K X c f m p s cw) = leaf_idx cw"
  "tleaf (next_pass K X c f m p s cw) = tleaf_new (leaf_pass K X c f m p s cw)"
  "leaf_arrays_ok (next_pass K X c f m p s cw) = leaf_arrays_ok cw"
  by (simp_all add: next_pass_def)

lemma ltl_induct [case_names pass]:
  assumes step: "\<And>K X c f m p s cw iter.
     (\<lbrakk>ps_pathway c = C3; photosynthesizing X c cw m p s; iter < itermax;
       \<not> within_tolerance (leaf_pass K X c f m p s cw)\<rbrakk>
        \<Longrightarrow> P K X c f m p s (next_pass K X c f m p s cw) (iter + 1))
     \<Longrightarrow> P K X c f m p s cw iter"
  shows "P K X c f m p s cw iter"
proof (induction K X c f m p s cw iter rule: leaf_temperature_loop.induct)
  case (1 K X c f m p s cw iter)
  show ?case
  proof (rule step)
    assume a: "ps_pathway c = C3" "photosynthesizing X c cw m p s" "iter < itermax"
      "\<not> within_tolerance (leaf_pass K X c f m p s cw)"
    have "P K X c f m p s
           ((solve_leaf_energy_balance K X c (after_photosynthesis X c cw m p s) f m p s)
              \<lparr>tleaf := tleaf_new (solve_leaf_energy_balance K X c (after_photosynthesis X c cw m p s) f m p s)\<rparr>)
           (iter + 1)"
      using a
      by (intro "1.IH"[OF _ refl _ _ refl])
         (simp_all add: photosynthesizing_def after_photosynthesis_def within_tolerance_def leaf_pass_def)
    then show "P K X c f m p s (next_pass K X c f m p s cw) (iter + 1)"
      by (simp add: next_pass_def leaf_pass_def)
  qed
qed

lemma ltl_result:
  "leaf_temperature_loop K X c f m p s cw iter = Inr (ex, cw', iter') \<Longrightarrow>
     leaf_idx cw' = leaf_idx cw \<and> iter \<le> iter' \<and> (iter \<le> itermax \<longrightarrow> iter' \<le> itermax) \<and>
     (leaf_arrays_ok cw \<longrightarrow> leaf_arrays_ok cw')"
proof (induction K X c f m p s cw iter rule: ltl_induct)
  case (pass K X c f m p s cw iter)
  from pass.prems show ?case
    by (subst (asm) ltl_unfold) (auto split: if_splits dest!: pass.IH)
qed

lemma ltl_failure:
  "leaf_temperature_loop K X c f m p s cw iter = Inl (No_convergence n) \<Longrightarrow>
     iter \<le> itermax \<Longrightarrow> n = itermax"
proof (induction K X c f m p s cw iter rule: ltl_induct)
  case (pass K X c f m p s cw iter)
  from pass.prems show ?case
    by (subst (asm) ltl_unfold) (auto split: if_splits dest!: pass.IH)
qed


lemma unconverged_passes_iff:
  "unconverged_passes K X c f m p s cw k \<longleftrightarrow>
     (\<forall>j<k. photosynthesizing X c ((next_pass K X c f m p s ^^ j) cw) m p s \<and>
            \<not> within_tolerance (leaf_pass K X c f m p s ((next_pass K X c f m p s ^^ j) cw)))"
  by (auto simp: unconverged_passes_def)

lemma unconverged_passes_Suc:
  "unconverged_passes K X c f m p s cw (Suc k) \<longleftrightarrow>
     photosynthesizing X c cw m p s \<and> \<not> within_tolerance (leaf_pass K X c f m p s cw) \<and>
     unconverged_passes K X c f m p s (next_pass K X c f m p s cw) k"
  unfolding unconverged_passes_iff
  by (auto simp: less_Suc_eq_0_disj funpow_swap1)

lemma ltl_skip:
  "ps_pathway c = C3 \<Longrightarrow> unconverged_passes K X c f m p s cw k \<Longrightarrow> iter + int k \<le> itermax \<Longrightarrow>
   leaf_temperature_loop K X c f m p s cw iter =
     leaf_temperature_loop K X c f m p s ((next_pass K X c f m p s ^^ k) cw) (iter + int k)"
proof (induction k arbitrary: cw iter)
  case 0
  then show ?case by simp
next
  case (Suc k)
  from Suc.prems have a: "photosynthesizing X c cw m p s"
      "\<not> within_tolerance (leaf_pass K X c f m p s cw)"
      "unconverged_passes K X c f m p s (next_pass K X c f m p s cw) k"
    by (simp_all add: unconverged_passes_Suc)
  from Suc.prems have b: "iter < itermax" "(iter + 1) + int k \<le> itermax" by simp_all
  have "leaf_temperature_loop K X c f m p s cw iter =
        leaf_temperature_loop K X c f m p s (next_pass K X c f m p s cw) (iter + 1)"
    using Suc.prems(1) a b by (subst ltl_unfold) simp
  also have "\<dots> = leaf_temperature_loop K X c f m p s
        ((next_pass K X c f m p s ^^ k) (next_pass K X c f m p s cw)) ((iter + 1) + int k)"
    using Suc.prems(1) a(3) b(2) by (rule Suc.IH)
  also have "(iter + 1) + int k = iter + int (Suc k)" by simp
  finally show ?case by (simp only: funpow_Suc_right o_apply)
qed

lemma ltl_converges:
  assumes "ps_pathway c = C3" "unconverged_passes K X c f m p s cw k"
    "photosynthesizing X c ((next_pass K X c f m p s ^^ k) cw) m p s"
    "within_tolerance (leaf_pass K X c f m p s ((next_pass K X c f m p s ^^ k) cw))"
    "iter + int k < itermax"
  shows "leaf_temperature_loop K X c f m p s cw iter =
           Inr (Converged, leaf_pass K X c f m p s ((next_pass K X c f m p s ^^ k) cw), iter + int k)"
proof -
  have "leaf_temperature_loop K X c f m p s cw iter =
        leaf_temperature_loop K X c f m p s ((next_pass K X c f m p s ^^ k) cw) (iter + int k)"
    using assms by (intro ltl_skip) simp_all
  also have "\<dots> = Inr (Converged, leaf_pass K X c f m p s ((next_pass K X c f m p s ^^ k) cw), iter + int k)"
    using assms by (subst ltl_unfold) simp
  finally show ?thesis .
qed

lemma ltl_fails:
  assumes "ps_pathway c = C3" "unconverged_passes K X c f m p s cw k"
    "photosynthesizing X c ((next_pass K X c f m p s ^^ k) cw) m p s"
    "iter + int k = itermax"
  shows "leaf_temperature_loop K X c f m p s cw iter = Inl (No_convergence itermax)"
proof -
  have "leaf_temperature_loop K X c f m p s cw iter =
        leaf_temperature_loop K X c f m p s ((next_pass K X c f m p s ^^ k) cw) (iter + int k)"
    using assms by (intro ltl_skip) simp_all
  also have "\<dots> = Inl (No_convergence itermax)"
    using assms by (subst ltl_unfold) simp
  finally show ?thesis .
qed

lemma ltl_stops_photosynthesizing:
  assumes "ps_pathway c = C3" "unconverged_passes K X c f m p s cw k"
    "\<not> photosynthesizing X c ((next_pass K X c f m p s ^^ k) cw) m p s"
    "iter + int k \<le> itermax"
  shows "leaf_temperature_loop K X c f m p s cw iter =
     Inr (NonPhotosynthesizing, after_photosynthesis X c ((next_pass K X c f m p s ^^ k) cw) m p s, iter + int k)"
proof -
  have "leaf_temperature_loop K X c f m p s cw iter =
        leaf_temperature_loop K X c f m p s ((next_pass K X c f m p s ^^ k) cw) (iter + int k)"
    using assms by (intro ltl_skip) simp_all
  also have "\<dots> = Inr (NonPhotosynthesizing, after_photosynthesis X c ((next_pass K X c f m p s ^^ k) cw) m p s, iter + int k)"
    using assms by (subst ltl_unfold) simp
  finally show ?thesis .
qed

section \<open>Properties of the half-hour loop\<close>

lemma half_hour_unfold:
  "half_hour K X ma p dummy doy_v hod fr =
     (if sun_up X ma p doy_v hod fr then
        (case leaf_loop K X (fr_c fr) (fr_f fr) (met_of_hour X ma hod fr) p (fr_s fr)
                (sunlit_wk K X ma p doy_v hod fr) (fr_iter fr) of
           Inl e \<Rightarrow> Inl e
         | Inr (cw, iter) \<Rightarrow> Inr (hour_tail K X p dummy fr (met_of_hour X ma hod fr) cw (fr_s fr) iter))
      else Inr (night_half_hour K X ma p dummy doy_v hod fr))"
  by (simp add: half_hour_def sun_up_def met_of_hour_def wk_of_hour_def hour_tail_def
        night_half_hour_def sunlit_wk_def Let_def split: sum.splits prod.splits)

lemma hour_tail_simps [simp]:
  "fr_sunlight_hrs (hour_tail K X p dummy fr m cw s iter) = fr_sunlight_hrs fr + 1"
  "fr_iter (hour_tail K X p dummy fr m cw s iter) = iter"
  "fr_c (hour_tail K X p dummy fr m cw s iter) = (fr_c fr)\<lparr>hour_idx := hour_idx (fr_c fr) + 1\<rparr>"
  "fr_cw (hour_tail K X p dummy fr m cw s iter) = scale_to_canopy cw"
  "fr_m (hour_tail K X p dummy fr m cw s iter) = m"
  by (simp_all add: hour_tail_def Let_def)

lemma half_hour_counts:
  "half_hour K X ma p dummy doy_v hod fr = Inr fr' \<Longrightarrow>
     fr_sunlight_hrs fr' = fr_sunlight_hrs fr + 1 \<and>
     fr_c fr' = (fr_c fr)\<lparr>hour_idx := hour_idx (fr_c fr) + 1\<rparr>"
  by (auto simp: half_hour_unfold night_half_hour_def split: if_splits sum.splits prod.splits)

lemma hour_loop_counts:
  "hour_loop K X ma p dummy doy_v hod fr = Inr fr' \<Longrightarrow>
     fr_sunlight_hrs fr' = fr_sunlight_hrs fr + max 0 (num_hlf_hrs (fr_c fr) - hod) \<and>
     num_hlf_hrs (fr_c fr') = num_hlf_hrs (fr_c fr) \<and>
     ps_pathway (fr_c fr') = ps_pathway (fr_c fr) \<and>
     water_stress (fr_c fr') = water_stress (fr_c fr)"
proof (induction K X ma p dummy doy_v hod fr rule: hour_loop.induct)
  case (1 K X ma p dummy doy_v hod fr)
  show ?case
  proof (cases "hod < num_hlf_hrs (fr_c fr)")
    case True
    with "1.prems" obtain fr1 where
      h: "half_hour K X ma p dummy doy_v hod fr = Inr fr1" and
      r: "hour_loop K X ma p dummy doy_v (hod + 1) fr1 = Inr fr'"
      by (subst (asm) hour_loop.simps) (auto split: sum.splits)
    from "1.IH"[OF True h r] half_hour_counts[OF h] True show ?thesis
      by simp
  next
    case False
    with "1.prems" show ?thesis
      by (subst (asm) hour_loop.simps) simp
  qed
qed

lemma canopy_counts:
  "canopy K X dummy cw c f ma m p s = Inr fr \<Longrightarrow>
     fr_sunlight_hrs fr = max 0 (num_hlf_hrs c) \<and>
     (\<not> water_stress c \<longrightarrow> wtfac_topsoil (fr_s fr) = 1 \<and> wtfac_root (fr_s fr) = 1)"
  by (auto simp: canopy_def Let_def split: sum.splits dest!: hour_loop_counts)

lemma leaf_loop_unfold:
  assumes "leaf_idx cw = 0"
  shows "leaf_loop K X c f m p s cw iter =
     (case leaf_temperature_loop K X c f m p s (initialise_leaf_surface cw m) iter of
        Inl e \<Rightarrow> Inl e
      | Inr (ex1, cw1, iter1) \<Rightarrow>
          (case leaf_temperature_loop K X c f m p s
                  (initialise_leaf_surface (cw1\<lparr>leaf_idx := 1\<rparr>) m) iter1 of
             Inl e \<Rightarrow> Inl e
           | Inr (ex2, cw2, iter2) \<Rightarrow> Inr (cw2\<lparr>leaf_idx := 2\<rparr>, iter2)))"
proof (cases "leaf_temperature_loop K X c f m p s (initialise_leaf_surface cw m) iter")
  case (Inl e)
  then show ?thesis using assms
    by (subst leaf_loop.simps) (simp add: NUM_LEAVES_def)
next
  case (Inr r)
  obtain ex1 cw1 iter1 where r: "r = (ex1, cw1, iter1)" by (cases r) auto
  from ltl_result[OF Inr[unfolded r]] assms
  have i1: "leaf_idx cw1 = 0" by (simp add: initialise_leaf_surface_def)
  have first: "leaf_loop K X c f m p s cw iter = leaf_loop K X c f m p s (cw1\<lparr>leaf_idx := 1\<rparr>) iter1"
    using assms Inr r i1 by (subst leaf_loop.simps) (simp add: NUM_LEAVES_def)
  show ?thesis
  proof (cases "leaf_temperature_loop K X c f m p s (initialise_leaf_surface (cw1\<lparr>leaf_idx := 1\<rparr>) m) iter1")
    case (Inl e)
    then show ?thesis using Inr r first
      by (subst first, subst leaf_loop.simps) (simp add: NUM_LEAVES_def)
  next
    case Inr2: (Inr r2)
    obtain ex2 cw2 iter2 where r2: "r2 = (ex2, cw2, iter2)" by (cases r2) auto
    from ltl_result[OF Inr2[unfolded r2]]
    have i2: "leaf_idx cw2 = 1" by (simp add: initialise_leaf_surface_def)
    have "leaf_loop K X c f m p s (cw1\<lparr>leaf_idx := 1\<rparr>) iter1 =
          leaf_loop K X c f m p s (cw2\<lparr>leaf_idx := 2\<rparr>) iter2"
      using Inr2 r2 i2 by (subst leaf_loop.simps) (simp add: NUM_LEAVES_def numeral_2_eq_2)
    also have "\<dots> = Inr (cw2\<lparr>leaf_idx := 2\<rparr>, iter2)"
      by (subst leaf_loop.simps) (simp add: NUM_LEAVES_def)
    finally show ?thesis using Inr r Inr2 r2 first by simp
  qed
qed

lemma ltl_not_C3:
  "ps_pathway c \<noteq> C3 \<Longrightarrow>
   leaf_temperature_loop K X c f m p s cw iter =
     Inl (C4_not_implemented (''C4 photosynthesis not implemented'' @ [CHR 0x0A]) f)"
  by (subst ltl_unfold) simp

lemma half_hour_not_C3:
  "ps_pathway (fr_c fr) \<noteq> C3 \<Longrightarrow>
   half_hour K X ma p dummy doy_v hod fr =
     (if sun_up X ma p doy_v hod fr
        then Inl (C4_not_implemented (''C4 photosynthesis not implemented'' @ [CHR 0x0A]) (fr_f fr))
      else Inr (night_half_hour K X ma p dummy doy_v hod fr))"
  by (simp add: half_hour_unfold leaf_loop_unfold sunlit_wk_def ltl_not_C3)

lemma night_half_hour_c [simp]:
  "fr_c (night_half_hour K X ma p dummy doy_v hod fr) = (fr_c fr)\<lparr>hour_idx := hour_idx (fr_c fr) + 1\<rparr>"
  by (simp add: night_half_hour_def)

lemma hour_loop_not_C3:
  "ps_pathway (fr_c fr) \<noteq> C3 \<Longrightarrow> hod < num_hlf_hrs (fr_c fr) \<Longrightarrow>
   hour_loop K X ma p dummy doy_v hod fr =
     (if sun_up X ma p doy_v hod fr
        then Inl (C4_not_implemented (''C4 photosynthesis not implemented'' @ [CHR 0x0A]) (fr_f fr))
      else hour_loop K X ma p dummy doy_v (hod + 1) (night_half_hour K X ma p dummy doy_v hod fr))"
  by (subst hour_loop.simps) (simp add: half_hour_not_C3)

lemma zero_hourly_fluxes_unfold:
  "zero_hourly_fluxes cw = zero_leaf 1 (zero_leaf 0 cw)"
  by (simp add: zero_hourly_fluxes_def NUM_LEAVES_def upt_rec[of 0] upt_rec[of 1] upt_rec[of 2]
        numeral_2_eq_2)

lemma iterate_invariants:
  "leaf_idx ((next_pass K X c f m p s ^^ j) cw) = leaf_idx cw \<and>
   leaf_arrays_ok ((next_pass K X c f m p s ^^ j) cw) = leaf_arrays_ok cw"
  by (induction j) simp_all

lemma initialise_simps [simp]:
  "leaf_idx (initialise_leaf_surface cw m) = leaf_idx cw"
  "tleaf (initialise_leaf_surface cw m) = tair m"
  "leaf_arrays_ok (initialise_leaf_surface cw m) = leaf_arrays_ok cw"
  "trans_leaf (initialise_leaf_surface cw m) = trans_leaf cw"
  "rnet_leaf (initialise_leaf_surface cw m) = rnet_leaf cw"
  "omega_leaf (initialise_leaf_surface cw m) = omega_leaf cw"
  "an_leaf (initialise_leaf_surface cw m) = an_leaf cw"
  "gsc_leaf (initialise_leaf_surface cw m) = gsc_leaf cw"
  "apar_leaf (initialise_leaf_surface cw m) = apar_leaf cw"
  by (simp_all add: initialise_leaf_surface_def leaf_arrays_ok_def)

lemma arrays_ok_leaf_idx [simp]: "leaf_arrays_ok (cw\<lparr>leaf_idx := i\<rparr>) = leaf_arrays_ok cw"
  by (simp add: leaf_arrays_ok_def)

lemma scale_arrays_ok [simp]: "leaf_arrays_ok (scale_to_canopy cw) = leaf_arrays_ok cw"
  by (simp add: leaf_arrays_ok_def scale_to_canopy_def)

lemma zero_arrays_ok [simp]: "leaf_arrays_ok (zero_hourly_fluxes cw) = leaf_arrays_ok cw"
  by (simp add: leaf_arrays_ok_def zero_hourly_fluxes_unfold zero_leaf_def)

lemma wk_of_hour_arrays_ok [simp]:
  "leaf_arrays_ok (wk_of_hour X ma p doy_v hod fr) = leaf_arrays_ok (fr_cw fr)"
  by (simp add: wk_of_hour_def Let_def leaf_arrays_ok_def)

lemma half_hour_night:
  assumes "\<not> sun_up X ma p doy_v hod fr"
  shows "half_hour K X ma p dummy doy_v hod fr = Inr (night_half_hour K X ma p dummy doy_v hod fr)"
  using assms by (simp add: half_hour_unfold)

lemma night_half_hour_simps [simp]:
  "fr_iter (night_half_hour K X ma p dummy doy_v hod fr) = fr_iter fr"
  "leaf_arrays_ok (fr_cw (night_half_hour K X ma p dummy doy_v hod fr)) = leaf_arrays_ok (fr_cw fr)"
  by (simp_all add: night_half_hour_def)

lemma hour_loop_invariant:
  assumes step: "\<And>hod fr. I fr \<Longrightarrow> \<exists>fr'. half_hour K X ma p dummy doy_v hod fr = Inr fr' \<and> I fr'"
  shows "I fr \<Longrightarrow> \<exists>fr'. hour_loop K X ma p dummy doy_v hod fr = Inr fr' \<and> I fr'"
  using step
proof (induction K X ma p dummy doy_v hod fr rule: hour_loop.induct)
  case (1 K X ma p dummy doy_v hod fr)
  show ?case
  proof (cases "hod < num_hlf_hrs (fr_c fr)")
    case True
    from "1.prems"(2)[OF "1.prems"(1)] obtain fr1 where
      h: "half_hour K X ma p dummy doy_v hod fr = Inr fr1" and i: "I fr1"
      by blast
    from "1.IH"[OF True h i "1.prems"(2)] obtain fr' where
      "hour_loop K X ma p dummy doy_v (hod + 1) fr1 = Inr fr'" "I fr'"
      by blast
    with True h show ?thesis
      by (subst hour_loop.simps) simp
  next
    case False
    with "1.prems" show ?thesis
      by (subst hour_loop.simps) simp
  qed
qed

lemma hour_loop_invariant_indexed:
  assumes step: "\<And>hod fr. I hod fr \<Longrightarrow> hod < num_hlf_hrs (fr_c fr) \<Longrightarrow>
      \<exists>fr'. half_hour K X ma p dummy doy_v hod fr = Inr fr' \<and> I (hod + 1) fr'"
  shows "I hod fr \<Longrightarrow>
    \<exists>fr'. hour_loop K X ma p dummy doy_v hod fr = Inr fr' \<and> I (max hod (num_hlf_hrs (fr_c fr))) fr'"
  using step
proof (induction K X ma p dummy doy_v hod fr rule: hour_loop.induct)
  case (1 K X ma p dummy doy_v hod fr)
  show ?case
  proof (cases "hod < num_hlf_hrs (fr_c fr)")
    case True
    from "1.prems"(2)[OF "1.prems"(1) True] obtain fr1 where
      h: "half_hour K X ma p dummy doy_v hod fr = Inr fr1" and i: "I (hod + 1) fr1"
      by blast
    from half_hour_counts[OF h] have n: "num_hlf_hrs (fr_c fr1) = num_hlf_hrs (fr_c fr)"
      by simp
    from "1.IH"[OF True h i "1.prems"(2)] obtain fr' where
      "hour_loop K X ma p dummy doy_v (hod + 1) fr1 = Inr fr'"
      "I (max (hod + 1) (num_hlf_hrs (fr_c fr1))) fr'"
      by blast
    moreover have "max (hod + 1) (num_hlf_hrs (fr_c fr1)) = max hod (num_hlf_hrs (fr_c fr))"
      using True n by simp
    ultimately show ?thesis
      using True h by (subst hour_loop.simps) simp
  next
    case False
    then have "max hod (num_hlf_hrs (fr_c fr)) = hod" by simp
    with False "1.prems"(1) show ?thesis
      by (subst hour_loop.simps) simp
  qed
qed

lemma canopy_projr_counts:
  "\<not> isl (canopy K X dummy cw c f ma m p s) \<Longrightarrow>
     fr_sunlight_hrs (projr (canopy K X dummy cw c f ma m p s)) = max 0 (num_hlf_hrs c) \<and>
     (\<not> water_stress c \<longrightarrow> wtfac_topsoil (fr_s (projr (canopy K X dummy cw c f ma m p s))) = 1 \<and>
        wtfac_root (fr_s (projr (canopy K X dummy cw c f ma m p s))) = 1)"
  using canopy_counts[of K X dummy cw c f ma m p s "projr (canopy K X dummy cw c f ma m p s)"]
  by (cases "canopy K X dummy cw c f ma m p s") simp_all

lemma hour_loop_error_kinds:
  "hour_loop K X ma p dummy doy_v hod fr = Inl e \<Longrightarrow> ps_pathway (fr_c fr) \<noteq> C3 \<Longrightarrow>
     \<exists>g. e = C4_not_implemented (''C4 photosynthesis not implemented'' @ [CHR 0x0A]) g"
proof (induction K X ma p dummy doy_v hod fr rule: hour_loop.induct)
  case (1 K X ma p dummy doy_v hod fr)
  show ?case
  proof (cases "hod < num_hlf_hrs (fr_c fr)")
    case True
    show ?thesis
    proof (cases "sun_up X ma p doy_v hod fr")
      case su: True
      with True "1.prems" show ?thesis
        by (auto simp: hour_loop_not_C3)
    next
      case False
      have h: "half_hour K X ma p dummy doy_v hod fr = Inr (night_half_hour K X ma p dummy doy_v hod fr)"
        using False by (rule half_hour_night)
      have r: "hour_loop K X ma p dummy doy_v (hod + 1) (night_half_hour K X ma p dummy doy_v hod fr) = Inl e"
        using True False "1.prems" by (simp add: hour_loop_not_C3)
      from "1.IH"[OF True h r] "1.prems"(2) show ?thesis
        by simp
    qed
  next
    case False
    with "1.prems" show ?thesis
      by (subst (asm) hour_loop.simps) simp
  qed
qed





lemma ltl_never_converging:
  assumes "ps_pathway c = C3" "iter \<le> itermax"
    "\<forall>j. unconverged_passes K X c f m p s cw j"
  shows "leaf_temperature_loop K X c f m p s cw iter = Inl (No_convergence itermax)"
proof (rule ltl_fails[where k = "nat (itermax - iter)"])
  show "unconverged_passes K X c f m p s cw (nat (itermax - iter))"
    using assms by simp
  have "unconverged_passes K X c f m p s cw (Suc (nat (itermax - iter)))"
    using assms by simp
  then show "photosynthesizing X c ((next_pass K X c f m p s ^^ nat (itermax - iter)) cw) m p s"
    unfolding unconverged_passes_iff by simp
qed (use assms in simp_all)

section \<open>Which per-leaf values a half hour writes\<close>

lemma solve_rnet:
  "leaf_idx cw < length (rnet_leaf cw) \<Longrightarrow>
   rnet_leaf (solve_leaf_energy_balance K X c cw f m p s) ! leaf_idx cw =
     calc_leaf_net_rad K X p s (tair m) (vpd m) (apar_leaf cw ! leaf_idx cw * PAR_2_SW K)"
  by (simp add: solve_leaf_energy_balance_def Let_def)

lemma solve_lengths [simp]:
  "length (rnet_leaf (solve_leaf_energy_balance K X c cw f m p s)) = length (rnet_leaf cw)"
  by (simp add: solve_leaf_energy_balance_def Let_def)

lemma leaf_pass_rnet:
  "leaf_idx cw < length (rnet_leaf cw) \<Longrightarrow>
   rnet_leaf (leaf_pass K X c f m p s cw) ! leaf_idx cw =
     calc_leaf_net_rad K X p s (tair m) (vpd m) (apar_leaf cw ! leaf_idx cw * PAR_2_SW K)"
  using solve_rnet[of "after_photosynthesis X c cw m p s" K X c f m p s]
  by (simp add: leaf_pass_def)

lemma leaf_pass_length [simp]:
  "length (rnet_leaf (leaf_pass K X c f m p s cw)) = length (rnet_leaf cw)"
  by (simp add: leaf_pass_def)

lemma next_pass_keeps [simp]:
  "apar_leaf (next_pass K X c f m p s cw) = apar_leaf cw"
  "rnet_leaf (next_pass K X c f m p s cw) = rnet_leaf (leaf_pass K X c f m p s cw)"
  "length (rnet_leaf (next_pass K X c f m p s cw)) = length (rnet_leaf cw)"
  by (simp_all add: next_pass_def leaf_pass_def)

lemma ltl_freshness:
  "leaf_temperature_loop K X c f m p s cw iter = Inr (ex, cw', iter') \<Longrightarrow>
   leaf_idx cw < length (rnet_leaf cw) \<Longrightarrow>
     (ex = NonPhotosynthesizing \<and> iter' = iter \<longrightarrow>
        rnet_leaf cw' = rnet_leaf cw \<and> trans_leaf cw' = trans_leaf cw \<and> omega_leaf cw' = omega_leaf cw) \<and>
     (\<not> (ex = NonPhotosynthesizing \<and> iter' = iter) \<longrightarrow>
        rnet_leaf cw' ! leaf_idx cw =
          calc_leaf_net_rad K X p s (tair m) (vpd m) (apar_leaf cw ! leaf_idx cw * PAR_2_SW K))"
proof (induction K X c f m p s cw iter rule: ltl_induct)
  case (pass K X c f m p s cw iter)
  show ?case
  proof (cases "ps_pathway c = C3 \<and> photosynthesizing X c cw m p s \<and> iter < itermax
                 \<and> \<not> within_tolerance (leaf_pass K X c f m p s cw)")
    case True
    then have r: "leaf_temperature_loop K X c f m p s (next_pass K X c f m p s cw) (iter + 1)
                    = Inr (ex, cw', iter')"
      using pass.prems(1) by (subst (asm) ltl_unfold) simp
    from ltl_result[OF r] have gt: "iter < iter'" by simp
    from True r pass.prems(2) have ih:
      "(ex = NonPhotosynthesizing \<and> iter' = iter + 1 \<longrightarrow>
          rnet_leaf cw' = rnet_leaf (next_pass K X c f m p s cw)) \<and>
       (\<not> (ex = NonPhotosynthesizing \<and> iter' = iter + 1) \<longrightarrow>
          rnet_leaf cw' ! leaf_idx cw =
            calc_leaf_net_rad K X p s (tair m) (vpd m) (apar_leaf cw ! leaf_idx cw * PAR_2_SW K))"
      using pass.IH by simp
    then have "rnet_leaf cw' ! leaf_idx cw =
            calc_leaf_net_rad K X p s (tair m) (vpd m) (apar_leaf cw ! leaf_idx cw * PAR_2_SW K)"
      using leaf_pass_rnet[OF pass.prems(2), of K X c f m p s] by auto
    with gt show ?thesis by simp
  next
    case False
    with pass.prems show ?thesis
      by (subst (asm) ltl_unfold) (auto split: if_splits simp: leaf_pass_rnet)
  qed
qed

lemma hour_result_scaled:
  "half_hour K X ma p dummy doy_v hod fr = Inr fr' \<Longrightarrow>
     an_canopy (fr_cw fr') = an_leaf (fr_cw fr') ! SUNLIT + an_leaf (fr_cw fr') ! SHADED \<and>
     gsc_canopy (fr_cw fr') = gsc_leaf (fr_cw fr') ! SUNLIT + gsc_leaf (fr_cw fr') ! SHADED \<and>
     apar_canopy (fr_cw fr') = apar_leaf (fr_cw fr') ! SUNLIT + apar_leaf (fr_cw fr') ! SHADED \<and>
     trans_canopy (fr_cw fr') = trans_leaf (fr_cw fr') ! SUNLIT + trans_leaf (fr_cw fr') ! SHADED \<and>
     rnet_canopy (fr_cw fr') = rnet_leaf (fr_cw fr') ! SUNLIT + rnet_leaf (fr_cw fr') ! SHADED \<and>
     omega_canopy (fr_cw fr') = (omega_leaf (fr_cw fr') ! SUNLIT + omega_leaf (fr_cw fr') ! SHADED) / 2"
  by (auto simp: half_hour_unfold night_half_hour_def scale_to_canopy_def
           split: if_splits sum.splits prod.splits)

lemma zeroed_leaves:
  "leaf_arrays_ok cw \<Longrightarrow>
     an_leaf (zero_hourly_fluxes cw) = [0, 0] \<and> gsc_leaf (zero_hourly_fluxes cw) = [0, 0] \<and>
     trans_leaf (zero_hourly_fluxes cw) = [0, 0] \<and> rnet_leaf (zero_hourly_fluxes cw) = [0, 0] \<and>
     apar_leaf (zero_hourly_fluxes cw) = [0, 0] \<and> omega_leaf (zero_hourly_fluxes cw) = [0, 0]"
  by (auto simp: leaf_arrays_ok_def NUM_LEAVES_def zero_hourly_fluxes_unfold zero_leaf_def
        length_Suc_conv numeral_2_eq_2)

lemma scale_leaves [simp]:
  "an_leaf (scale_to_canopy cw) = an_leaf cw" "gsc_leaf (scale_to_canopy cw) = gsc_leaf cw"
  "trans_leaf (scale_to_canopy cw) = trans_leaf cw" "rnet_leaf (scale_to_canopy cw) = rnet_leaf cw"
  "apar_leaf (scale_to_canopy cw) = apar_leaf cw" "omega_leaf (scale_to_canopy cw) = omega_leaf cw"
  by (simp_all add: scale_to_canopy_def)

lemma night_leaves:
  "leaf_arrays_ok (fr_cw fr) \<Longrightarrow>
     an_leaf (fr_cw (night_half_hour K X ma p dummy doy_v hod fr)) = [0, 0] \<and>
     gsc_leaf (fr_cw (night_half_hour K X ma p dummy doy_v hod fr)) = [0, 0] \<and>
     trans_leaf (fr_cw (night_half_hour K X ma p dummy doy_v hod fr)) = [0, 0] \<and>
     rnet_leaf (fr_cw (night_half_hour K X ma p dummy doy_v hod fr)) = [0, 0] \<and>
     apar_leaf (fr_cw (night_half_hour K X ma p dummy doy_v hod fr)) = [0, 0] \<and>
     omega_leaf (fr_cw (night_half_hour K X ma p dummy doy_v hod fr)) = [0, 0]"
  using zeroed_leaves[of "wk_of_hour X ma p doy_v hod fr"]
  by (simp add: night_half_hour_def)

lemma sunlit_wk_keeps [simp]:
  "trans_leaf (sunlit_wk K X ma p doy_v hod fr) = trans_leaf (fr_cw fr)"
  "rnet_leaf (sunlit_wk K X ma p doy_v hod fr) = rnet_leaf (fr_cw fr)"
  "omega_leaf (sunlit_wk K X ma p doy_v hod fr) = omega_leaf (fr_cw fr)"
  "an_leaf (sunlit_wk K X ma p doy_v hod fr) = an_leaf (fr_cw fr)"
  "gsc_leaf (sunlit_wk K X ma p doy_v hod fr) = gsc_leaf (fr_cw fr)"
  "leaf_idx (sunlit_wk K X ma p doy_v hod fr) = 0"
  by (simp_all add: sunlit_wk_def calculate_top_of_canopy_leafn_def Let_def wk_of_hour_def)

lemma not_photosynthesizing_if:
  "fst (photosynthesis_C3 X c cw m p s) \<le> 0.0001 \<Longrightarrow> leaf_idx cw < length (an_leaf cw) \<Longrightarrow>
     \<not> photosynthesizing X c cw m p s"
  by (simp add: photosynthesizing_def after_photosynthesis_def)

lemma after_photosynthesis_an [simp]:
  "length (an_leaf (after_photosynthesis X c cw m p s)) = length (an_leaf cw)"
  by (simp add: after_photosynthesis_def)

lemma idle_leaves_keeps [simp]:
  "rnet_leaf (idle_leaves K X ma p doy_v hod fr) = rnet_leaf (fr_cw fr)"
  "trans_leaf (idle_leaves K X ma p doy_v hod fr) = trans_leaf (fr_cw fr)"
  "omega_leaf (idle_leaves K X ma p doy_v hod fr) = omega_leaf (fr_cw fr)"
  by (simp_all add: idle_leaves_def Let_def)

lemma half_hour_both_idle:
  assumes su: "sun_up X ma p doy_v hod fr" and c3: "ps_pathway (fr_c fr) = C3"
    and np1: "\<not> photosynthesizing X (fr_c fr) (sunlit_entry K X ma p doy_v hod fr)
                  (met_of_hour X ma hod fr) p (fr_s fr)"
    and np2: "\<not> photosynthesizing X (fr_c fr) (shaded_entry_after_idle K X ma p doy_v hod fr)
                  (met_of_hour X ma hod fr) p (fr_s fr)"
  shows "half_hour K X ma p dummy doy_v hod fr =
     Inr (hour_tail K X p dummy fr (met_of_hour X ma hod fr) (idle_leaves K X ma p doy_v hod fr)
            (fr_s fr) (fr_iter fr))"
proof -
  let ?m = "met_of_hour X ma hod fr"
  let ?c = "fr_c fr" and ?s = "fr_s fr" and ?f = "fr_f fr"
  let ?cwa = "initialise_leaf_surface (sunlit_wk K X ma p doy_v hod fr) ?m"
  let ?cw1 = "after_photosynthesis X ?c ?cwa ?m p ?s"
  let ?cwb = "initialise_leaf_surface (?cw1\<lparr>leaf_idx := 1\<rparr>) ?m"
  let ?cw2 = "after_photosynthesis X ?c ?cwb ?m p ?s"
  have a: "leaf_temperature_loop K X ?c ?f ?m p ?s ?cwa (fr_iter fr) = Inr (NonPhotosynthesizing, ?cw1, fr_iter fr)"
    using c3 np1 by (subst ltl_unfold) (simp add: sunlit_entry_def)
  have b: "leaf_temperature_loop K X ?c ?f ?m p ?s ?cwb (fr_iter fr) = Inr (NonPhotosynthesizing, ?cw2, fr_iter fr)"
    using c3 np2 by (subst ltl_unfold) (simp add: shaded_entry_after_idle_def sunlit_entry_def)
  have "leaf_loop K X ?c ?f ?m p ?s (sunlit_wk K X ma p doy_v hod fr) (fr_iter fr)
          = Inr (?cw2\<lparr>leaf_idx := 2\<rparr>, fr_iter fr)"
    using a b by (simp add: leaf_loop_unfold)
  then show ?thesis
    using su by (simp add: half_hour_unfold idle_leaves_def Let_def)
qed

lemma half_hour_solves:
  assumes "sun_up X ma p doy_v hod fr" "half_hour K X ma p dummy doy_v hod fr = Inr fr'"
  shows "\<exists>ex1 cw1 iter1 ex2 cw2.
     leaf_temperature_loop K X (fr_c fr) (fr_f fr) (met_of_hour X ma hod fr) p (fr_s fr)
       (sunlit_entry K X ma p doy_v hod fr) (fr_iter fr) = Inr (ex1, cw1, iter1) \<and>
     leaf_temperature_loop K X (fr_c fr) (fr_f fr) (met_of_hour X ma hod fr) p (fr_s fr)
       (initialise_leaf_surface (cw1\<lparr>leaf_idx := 1\<rparr>) (met_of_hour X ma hod fr)) iter1
         = Inr (ex2, cw2, fr_iter fr') \<and>
     fr_cw fr' = scale_to_canopy (cw2\<lparr>leaf_idx := 2\<rparr>)"
  using assms
  by (auto simp: half_hour_unfold leaf_loop_unfold sunlit_entry_def split: sum.splits prod.splits)



section \<open>The driver as a whole\<close>

lemma canopy_eq:
  "canopy K X dummy cw c f ma m p s =
     (case hour_loop K X ma p dummy (doy ma ! nat (hour_idx c)) 0 (entry_frame X cw c f m s) of
        Inl e \<Rightarrow> Inl e
      | Inr fr \<Rightarrow> Inr (day_end X p fr))"
  by (simp add: canopy_def entry_frame_def day_end_def Let_def split: sum.splits)

lemma entry_frame_simps [simp]:
  "fr_cw (entry_frame X cw c f m s) = cw" "fr_c (entry_frame X cw c f m s) = c"
  "fr_iter (entry_frame X cw c f m s) = 0" "fr_sunlight_hrs (entry_frame X cw c f m s) = 0"
  "fr_m (entry_frame X cw c f m s) = m" "fr_s (entry_frame X cw c f m s) = s"
  "fr_f (entry_frame X cw c f m s) = zero_water_day_fluxes X (zero_carbon_day_fluxes f)"
  by (simp_all add: entry_frame_def)

lemma day_end_simps [simp]:
  "fr_iter (day_end X p fr) = fr_iter fr" "fr_cw (day_end X p fr) = fr_cw fr"
  "fr_c (day_end X p fr) = fr_c fr" "fr_sunlight_hrs (day_end X p fr) = fr_sunlight_hrs fr"
  by (simp_all add: day_end_def)

lemma sundown_run_keeps [simp]:
  "num_hlf_hrs (fr_c (sundown_run K X ma p dummy doy_v n fr)) = num_hlf_hrs (fr_c fr)"
  "ps_pathway (fr_c (sundown_run K X ma p dummy doy_v n fr)) = ps_pathway (fr_c fr)"
  "fr_iter (sundown_run K X ma p dummy doy_v n fr) = fr_iter fr"
  "leaf_arrays_ok (fr_cw (sundown_run K X ma p dummy doy_v n fr)) = leaf_arrays_ok (fr_cw fr)"
  by (induction n) simp_all

lemma sundown_prefix:
  assumes "\<forall>j<n. \<not> sun_up X ma p doy_v (int j) (sundown_run K X ma p dummy doy_v j fr)"
    and "int n \<le> num_hlf_hrs (fr_c fr)"
  shows "hour_loop K X ma p dummy doy_v 0 fr =
     hour_loop K X ma p dummy doy_v (int n) (sundown_run K X ma p dummy doy_v n fr)"
  using assms
proof (induction n)
  case 0
  then show ?case by simp
next
  case (Suc n)
  let ?fr = "sundown_run K X ma p dummy doy_v n fr"
  from Suc.prems have dark: "\<not> sun_up X ma p doy_v (int n) ?fr" by simp
  from Suc.prems have lt: "int n < num_hlf_hrs (fr_c ?fr)" by simp
  have "hour_loop K X ma p dummy doy_v 0 fr = hour_loop K X ma p dummy doy_v (int n) ?fr"
    using Suc.prems by (intro Suc.IH) simp_all
  also have "\<dots> = hour_loop K X ma p dummy doy_v (int n + 1) (night_half_hour K X ma p dummy doy_v (int n) ?fr)"
    using lt dark by (subst hour_loop.simps) (simp add: half_hour_night)
  also have "int n + 1 = int (Suc n)" by simp
  finally show ?case by simp
qed

lemma sundown_day:
  assumes "\<forall>j<nat (num_hlf_hrs (fr_c fr)).
     \<not> sun_up X ma p doy_v (int j) (sundown_run K X ma p dummy doy_v j fr)"
  shows "hour_loop K X ma p dummy doy_v 0 fr =
     Inr (sundown_run K X ma p dummy doy_v (nat (num_hlf_hrs (fr_c fr))) fr)"
proof -
  let ?n = "nat (num_hlf_hrs (fr_c fr))"
  show ?thesis
  proof (cases "0 \<le> num_hlf_hrs (fr_c fr)")
    case True
    then have le: "int ?n \<le> num_hlf_hrs (fr_c fr)" by simp
    have "hour_loop K X ma p dummy doy_v 0 fr =
        hour_loop K X ma p dummy doy_v (int ?n) (sundown_run K X ma p dummy doy_v ?n fr)"
      using assms le by (rule sundown_prefix)
    also have "\<dots> = Inr (sundown_run K X ma p dummy doy_v ?n fr)"
      using True by (subst hour_loop.simps) simp
    finally show ?thesis .
  next
    case False
    then show ?thesis by (subst hour_loop.simps) simp
  qed
qed

lemma first_sun_up_not_C3:
  assumes "ps_pathway (fr_c fr) \<noteq> C3" and "int h < num_hlf_hrs (fr_c fr)"
    and "\<forall>j<h. \<not> sun_up X ma p doy_v (int j) (sundown_run K X ma p dummy doy_v j fr)"
    and "sun_up X ma p doy_v (int h) (sundown_run K X ma p dummy doy_v h fr)"
  shows "hour_loop K X ma p dummy doy_v 0 fr =
     Inl (C4_not_implemented (''C4 photosynthesis not implemented'' @ [CHR 0x0A])
            (fr_f (sundown_run K X ma p dummy doy_v h fr)))"
proof -
  have "hour_loop K X ma p dummy doy_v 0 fr =
      hour_loop K X ma p dummy doy_v (int h) (sundown_run K X ma p dummy doy_v h fr)"
    using assms(3) assms(2) by (intro sundown_prefix) simp_all
  also have "\<dots> = Inl (C4_not_implemented (''C4 photosynthesis not implemented'' @ [CHR 0x0A])
            (fr_f (sundown_run K X ma p dummy doy_v h fr)))"
    using assms(1,2,4) by (subst hour_loop_not_C3) simp_all
  finally show ?thesis .
qed

lemma scaled_zero:
  "leaf_arrays_ok cw \<Longrightarrow>
     an_canopy (scale_to_canopy (zero_hourly_fluxes cw)) = 0 \<and>
     apar_canopy (scale_to_canopy (zero_hourly_fluxes cw)) = 0"
  by (simp add: scale_to_canopy_def zero_hourly_fluxes_unfold zero_leaf_def leaf_arrays_ok_def
        NUM_LEAVES_def SUNLIT_def SHADED_def)

lemma night_carbon_totals:
  assumes "keeps_carbon_totals X" "leaf_arrays_ok (fr_cw fr)"
    "carbon_day_totals (fr_f fr) = (0, 0, 0, 0, 0, 0)"
  shows "carbon_day_totals (fr_f (night_half_hour K X ma p dummy doy_v hod fr)) = (0, 0, 0, 0, 0, 0)"
proof -
  let ?cw = "scale_to_canopy (zero_hourly_fluxes (wk_of_hour X ma p doy_v hod fr))"
  have z: "an_canopy ?cw = 0" "apar_canopy ?cw = 0"
    using scaled_zero[of "wk_of_hour X ma p doy_v hod fr"] assms(2) by simp_all
  have "carbon_day_totals (sum_hourly_carbon_fluxes K ?cw (fr_f fr) p) = (0, 0, 0, 0, 0, 0)"
    using assms(3) z by (simp add: carbon_day_totals_def sum_hourly_carbon_fluxes_def Let_def)
  moreover have "carbon_day_totals (fr_f (night_half_hour K X ma p dummy doy_v hod fr)) =
      carbon_day_totals (sum_hourly_carbon_fluxes K ?cw (fr_f fr) p)"
    using assms(1) by (simp add: night_half_hour_def hour_tail_def Let_def keeps_carbon_totals_def)
  ultimately show ?thesis by simp
qed

lemma sundown_run_carbon_totals:
  assumes "keeps_carbon_totals X" "leaf_arrays_ok cw"
  shows "carbon_day_totals (fr_f (sundown_run K X ma p dummy doy_v n (entry_frame X cw c f m s)))
           = (0, 0, 0, 0, 0, 0)"
proof (induction n)
  case 0
  have "carbon_day_totals (zero_water_day_fluxes X (zero_carbon_day_fluxes f))
          = carbon_day_totals (zero_carbon_day_fluxes f)"
    using assms(1) by (simp add: keeps_carbon_totals_def)
  then show ?case
    by (simp add: carbon_day_totals_def zero_carbon_day_fluxes_def)
next
  case (Suc n)
  show ?case
    using assms Suc.IH by (simp add: night_carbon_totals)
qed

lemma sun_up_ignores_leaf_physiology [simp]:
  "sun_up (X\<lparr>photosynthesis_C3 := q, penman_leaf_wrapper := w\<rparr>) ma p doy_v hod fr
     = sun_up X ma p doy_v hod fr"
  by (simp add: sun_up_def wk_of_hour_def met_of_hour_def Let_def)

lemma night_ignores_leaf_physiology [simp]:
  "night_half_hour K (X\<lparr>photosynthesis_C3 := q, penman_leaf_wrapper := w\<rparr>) ma p dummy doy_v hod fr
     = night_half_hour K X ma p dummy doy_v hod fr"
  by (simp add: night_half_hour_def hour_tail_def wk_of_hour_def met_of_hour_def Let_def)

lemma hour_loop_ignores_leaf_physiology:
  "ps_pathway (fr_c fr) \<noteq> C3 \<Longrightarrow>
   hour_loop K (X\<lparr>photosynthesis_C3 := q, penman_leaf_wrapper := w\<rparr>) ma p dummy doy_v hod fr
     = hour_loop K X ma p dummy doy_v hod fr"
proof (induction K X ma p dummy doy_v hod fr rule: hour_loop.induct)
  case (1 K X ma p dummy doy_v hod fr)
  let ?X = "X\<lparr>photosynthesis_C3 := q, penman_leaf_wrapper := w\<rparr>"
  show ?case
  proof (cases "hod < num_hlf_hrs (fr_c fr)")
    case True
    show ?thesis
    proof (cases "sun_up X ma p doy_v hod fr")
      case su: True
      with True "1.prems" show ?thesis
        by (simp add: hour_loop_not_C3)
    next
      case False
      have h: "half_hour K X ma p dummy doy_v hod fr = Inr (night_half_hour K X ma p dummy doy_v hod fr)"
        using False by (rule half_hour_night)
      have "hour_loop K ?X ma p dummy doy_v (hod + 1) (night_half_hour K X ma p dummy doy_v hod fr)
          = hour_loop K X ma p dummy doy_v (hod + 1) (night_half_hour K X ma p dummy doy_v hod fr)"
        using "1.prems" by (intro "1.IH"[OF True h]) simp
      with True False "1.prems" show ?thesis
        by (simp add: hour_loop_not_C3)
    qed
  next
    case False
    then have "hour_loop K ?X ma p dummy doy_v hod fr = Inr fr"
      by (subst hour_loop.simps) simp
    moreover from False have "hour_loop K X ma p dummy doy_v hod fr = Inr fr"
      by (subst hour_loop.simps) simp
    ultimately show ?thesis by simp
  qed
qed

lemma frame_ends_ignore_leaf_physiology [simp]:
  "entry_frame (X\<lparr>photosynthesis_C3 := q, penman_leaf_wrapper := w\<rparr>) cw c f m s = entry_frame X cw c f m s"
  "day_end (X\<lparr>photosynthesis_C3 := q, penman_leaf_wrapper := w\<rparr>) p fr = day_end X p fr"
  by (simp_all add: entry_frame_def day_end_def)

lemma canopy_ignores_leaf_physiology:
  "ps_pathway c \<noteq> C3 \<Longrightarrow>
   canopy K (X\<lparr>photosynthesis_C3 := q, penman_leaf_wrapper := w\<rparr>) dummy cw c f ma m p s
     = canopy K X dummy cw c f ma m p s"
  by (simp add: canopy_eq hour_loop_ignores_leaf_physiology split: sum.splits)

section \<open>What a leaf solve that returns has done\<close>

lemma ltl_exact:
  "leaf_temperature_loop K X c f m p s cw iter = Inr (ex, cw', iter') \<Longrightarrow>
     iter \<le> iter' \<and> unconverged_passes K X c f m p s cw (nat (iter' - iter)) \<and>
     (ex = Converged \<longrightarrow>
        photosynthesizing X c ((next_pass K X c f m p s ^^ nat (iter' - iter)) cw) m p s \<and>
        within_tolerance (leaf_pass K X c f m p s ((next_pass K X c f m p s ^^ nat (iter' - iter)) cw)) \<and>
        cw' = leaf_pass K X c f m p s ((next_pass K X c f m p s ^^ nat (iter' - iter)) cw)) \<and>
     (ex = NonPhotosynthesizing \<longrightarrow>
        \<not> photosynthesizing X c ((next_pass K X c f m p s ^^ nat (iter' - iter)) cw) m p s \<and>
        cw' = after_photosynthesis X c ((next_pass K X c f m p s ^^ nat (iter' - iter)) cw) m p s)"
proof (induction K X c f m p s cw iter rule: ltl_induct)
  case (pass K X c f m p s cw iter)
  show ?case
  proof (cases "ps_pathway c = C3 \<and> photosynthesizing X c cw m p s \<and> iter < itermax
                 \<and> \<not> within_tolerance (leaf_pass K X c f m p s cw)")
    case True
    then have r: "leaf_temperature_loop K X c f m p s (next_pass K X c f m p s cw) (iter + 1)
                    = Inr (ex, cw', iter')"
      using pass.prems by (subst (asm) ltl_unfold) simp
    note ih = pass.IH[OF _ _ _ _ r]
    from True ih have le: "iter + 1 \<le> iter'" by simp
    define k where "k = nat (iter' - (iter + 1))"
    have k: "nat (iter' - iter) = Suc k" using le by (simp add: k_def)
    have fp: "(next_pass K X c f m p s ^^ Suc k) cw = (next_pass K X c f m p s ^^ k) (next_pass K X c f m p s cw)"
      by (simp only: funpow_Suc_right o_apply)
    from True ih show ?thesis
      unfolding k fp unconverged_passes_Suc using le by (simp add: k_def)
  next
    case False
    with pass.prems show ?thesis
      by (subst (asm) ltl_unfold) (auto split: if_splits simp: unconverged_passes_iff)
  qed
qed

lemma leaf_pass_writes:
  assumes "leaf_arrays_ok cw" "leaf_idx cw < NUM_LEAVES"
  shows
    "an_leaf (leaf_pass K X c f m p s cw) = (an_leaf cw)[leaf_idx cw := fst (photosynthesis_C3 X c cw m p s)]"
    "gsc_leaf (leaf_pass K X c f m p s cw) = (gsc_leaf cw)[leaf_idx cw := snd (photosynthesis_C3 X c cw m p s)]"
    "rnet_leaf (leaf_pass K X c f m p s cw) =
       (rnet_leaf cw)[leaf_idx cw :=
          calc_leaf_net_rad K X p s (tair m) (vpd m) (apar_leaf cw ! leaf_idx cw * PAR_2_SW K)]"
    "trans_leaf (leaf_pass K X c f m p s cw) =
       (trans_leaf cw)[leaf_idx cw :=
          pm_transpiration (penman_leaf_wrapper X m p s (tleaf cw)
            (calc_leaf_net_rad K X p s (tair m) (vpd m) (apar_leaf cw ! leaf_idx cw * PAR_2_SW K))
            (snd (photosynthesis_C3 X c cw m p s)))]"
    "omega_leaf (leaf_pass K X c f m p s cw) =
       (omega_leaf cw)[leaf_idx cw :=
          pm_omega (penman_leaf_wrapper X m p s (tleaf cw)
            (calc_leaf_net_rad K X p s (tair m) (vpd m) (apar_leaf cw ! leaf_idx cw * PAR_2_SW K))
            (snd (photosynthesis_C3 X c cw m p s)))]"
    "apar_leaf (leaf_pass K X c f m p s cw) = apar_leaf cw"
  using assms
  by (simp_all add: leaf_pass_def solve_leaf_energy_balance_def after_photosynthesis_def Let_def
        leaf_arrays_ok_def)

lemma next_pass_arrays [simp]:
  "an_leaf (next_pass K X c f m p s cw) = an_leaf (leaf_pass K X c f m p s cw)"
  "gsc_leaf (next_pass K X c f m p s cw) = gsc_leaf (leaf_pass K X c f m p s cw)"
  "trans_leaf (next_pass K X c f m p s cw) = trans_leaf (leaf_pass K X c f m p s cw)"
  "omega_leaf (next_pass K X c f m p s cw) = omega_leaf (leaf_pass K X c f m p s cw)"
  by (simp_all add: next_pass_def)

lemma iterate_apar [simp]:
  "apar_leaf ((next_pass K X c f m p s ^^ j) cw) = apar_leaf cw"
  by (induction j) simp_all

lemma iterate_other_leaf:
  assumes "leaf_arrays_ok cw" "leaf_idx cw < NUM_LEAVES" "i \<noteq> leaf_idx cw"
  shows "an_leaf ((next_pass K X c f m p s ^^ j) cw) ! i = an_leaf cw ! i \<and>
         gsc_leaf ((next_pass K X c f m p s ^^ j) cw) ! i = gsc_leaf cw ! i \<and>
         rnet_leaf ((next_pass K X c f m p s ^^ j) cw) ! i = rnet_leaf cw ! i \<and>
         trans_leaf ((next_pass K X c f m p s ^^ j) cw) ! i = trans_leaf cw ! i \<and>
         omega_leaf ((next_pass K X c f m p s ^^ j) cw) ! i = omega_leaf cw ! i"
proof (induction j)
  case 0
  show ?case by simp
next
  case (Suc j)
  let ?cw = "(next_pass K X c f m p s ^^ j) cw"
  have ok: "leaf_arrays_ok ?cw" "leaf_idx ?cw < NUM_LEAVES" "leaf_idx ?cw = leaf_idx cw"
    using assms by (simp_all add: iterate_invariants)
  from leaf_pass_writes[OF ok(1,2), of K X c f m p s] ok(3) assms(3) Suc.IH
  show ?case by simp
qed

lemma ltl_last_pass:
  assumes r: "leaf_temperature_loop K X c f m p s cw iter = Inr (ex, cw', iter')"
    and ok: "leaf_arrays_ok cw" and ix: "leaf_idx cw < NUM_LEAVES"
  shows "(let cwl = (next_pass K X c f m p s ^^ nat (iter' - iter)) cw
          in an_leaf cw' ! leaf_idx cw = fst (photosynthesis_C3 X c cwl m p s) \<and>
             gsc_leaf cw' ! leaf_idx cw = snd (photosynthesis_C3 X c cwl m p s)) \<and>
         (ex = NonPhotosynthesizing \<and> iter' = iter \<longrightarrow>
            rnet_leaf cw' = rnet_leaf cw \<and> trans_leaf cw' = trans_leaf cw \<and>
            omega_leaf cw' = omega_leaf cw) \<and>
         (\<not> (ex = NonPhotosynthesizing \<and> iter' = iter) \<longrightarrow>
            (let cwe = (next_pass K X c f m p s
                         ^^ (nat (iter' - iter) - (if ex = NonPhotosynthesizing then 1 else 0))) cw
             in leaf_arrays_ok cwe \<and> leaf_idx cwe = leaf_idx cw \<and> apar_leaf cwe = apar_leaf cw \<and>
                rnet_leaf cw' = rnet_leaf (leaf_pass K X c f m p s cwe) \<and>
                trans_leaf cw' = trans_leaf (leaf_pass K X c f m p s cwe) \<and>
                omega_leaf cw' = omega_leaf (leaf_pass K X c f m p s cwe))) \<and>
         (\<forall>i. i \<noteq> leaf_idx cw \<longrightarrow>
            an_leaf cw' ! i = an_leaf cw ! i \<and> gsc_leaf cw' ! i = gsc_leaf cw ! i \<and>
            rnet_leaf cw' ! i = rnet_leaf cw ! i \<and> trans_leaf cw' ! i = trans_leaf cw ! i \<and>
            omega_leaf cw' ! i = omega_leaf cw ! i) \<and>
         apar_leaf cw' = apar_leaf cw"
proof -
  define k where "k = nat (iter' - iter)"
  define np where "np = next_pass K X c f m p s"
  define cwl where "cwl = (np ^^ k) cw"
  note ex = ltl_exact[OF r, folded k_def np_def, folded cwl_def]
  have inv: "leaf_arrays_ok cwl" "leaf_idx cwl = leaf_idx cw" "apar_leaf cwl = apar_leaf cw"
    using ok by (simp_all add: cwl_def np_def iterate_invariants)
  have len: "leaf_idx cw < length (an_leaf cwl)" "leaf_idx cw < length (gsc_leaf cwl)"
    "leaf_idx cw < length (rnet_leaf cwl)" "leaf_idx cw < length (trans_leaf cwl)"
    "leaf_idx cw < length (omega_leaf cwl)"
    using inv(1) ix by (simp_all add: leaf_arrays_ok_def)
  have other: "an_leaf cwl ! i = an_leaf cw ! i \<and> gsc_leaf cwl ! i = gsc_leaf cw ! i \<and>
      rnet_leaf cwl ! i = rnet_leaf cw ! i \<and> trans_leaf cwl ! i = trans_leaf cw ! i \<and>
      omega_leaf cwl ! i = omega_leaf cw ! i" if "i \<noteq> leaf_idx cw" for i
    unfolding cwl_def np_def using ok ix that by (rule iterate_other_leaf)
  have ix': "leaf_idx cwl < NUM_LEAVES" using ix inv(2) by simp
  note w = leaf_pass_writes[OF inv(1) ix', of K X c f m p s, unfolded inv(2,3)]
  show ?thesis
  proof (cases ex)
    case Converged
    with ex have cw': "cw' = leaf_pass K X c f m p s cwl" by simp
    have e0: "ex \<noteq> NonPhotosynthesizing" using Converged by simp
    show ?thesis
      unfolding Let_def k_def[symmetric] np_def[symmetric]
      using e0 w len other inv by (simp add: cw' cwl_def[symmetric])
  next
    case NonPhotosynthesizing
    with ex have cw': "cw' = after_photosynthesis X c cwl m p s" by simp
    have fresh: "an_leaf cw' ! leaf_idx cw = fst (photosynthesis_C3 X c cwl m p s)"
      "gsc_leaf cw' ! leaf_idx cw = snd (photosynthesis_C3 X c cwl m p s)"
      using len inv(2) by (simp_all add: cw' after_photosynthesis_def)
    have oth: "an_leaf cw' ! i = an_leaf cwl ! i" "gsc_leaf cw' ! i = gsc_leaf cwl ! i"
      if "i \<noteq> leaf_idx cw" for i
      using that inv(2) by (simp_all add: cw' after_photosynthesis_def)
    show ?thesis
    proof (cases k)
      case 0
      then have "cwl = cw" by (simp add: cwl_def)
      moreover from 0 ex have "iter' = iter" by (simp add: k_def)
      ultimately show ?thesis
        unfolding Let_def k_def[symmetric] np_def[symmetric]
        using NonPhotosynthesizing fresh oth other 0 by (simp add: cw')
    next
      case (Suc k')
      define cwe where "cwe = (np ^^ k') cw"
      have l: "cwl = np cwe" by (simp add: cwl_def cwe_def Suc)
      have inve: "leaf_arrays_ok cwe" "leaf_idx cwe = leaf_idx cw" "apar_leaf cwe = apar_leaf cw"
        using ok by (simp_all add: cwe_def np_def iterate_invariants)
      have ixe: "leaf_idx cwe < NUM_LEAVES" using ix inve(2) by simp
      have lene: "leaf_idx cw < length (rnet_leaf cwe)" "leaf_idx cw < length (trans_leaf cwe)"
        "leaf_idx cw < length (omega_leaf cwe)"
        using inve(1) ix by (simp_all add: leaf_arrays_ok_def)
      note we = leaf_pass_writes[OF inve(1) ixe, of K X c f m p s, unfolded inve(2,3)]
      have ne: "iter' \<noteq> iter" using Suc ex by (simp add: k_def)
      have st: "rnet_leaf cw' = rnet_leaf (leaf_pass K X c f m p s cwe)"
        "trans_leaf cw' = trans_leaf (leaf_pass K X c f m p s cwe)"
        "omega_leaf cw' = omega_leaf (leaf_pass K X c f m p s cwe)"
        "apar_leaf cw' = apar_leaf cw"
        using inv(3) by (simp_all add: cw' l np_def)
      have oth2: "rnet_leaf cw' ! i = rnet_leaf cw ! i \<and> trans_leaf cw' ! i = trans_leaf cw ! i \<and>
          omega_leaf cw' ! i = omega_leaf cw ! i" if "i \<noteq> leaf_idx cw" for i
        using other[OF that] by (simp add: cw')
      have km: "k - Suc 0 = k'" using Suc by simp
      show ?thesis
        unfolding Let_def k_def[symmetric] np_def[symmetric]
        using NonPhotosynthesizing ne fresh st inve oth other oth2
        by (simp add: km cwe_def[symmetric] cwl_def[symmetric])
    qed
  qed
qed

section \<open>The scenarios: how the stand-in collaborators run\<close>

lemma stub_photosynthesizing:
  "leaf_arrays_ok cw \<Longrightarrow> leaf_idx cw < 2 \<Longrightarrow>
   photosynthesizing (X_stub sun ps nt) c cw m p s \<longleftrightarrow> fst (ps c) > 0.0001"
  by (simp add: photosynthesizing_def after_photosynthesis_def X_stub_def leaf_arrays_ok_def
        NUM_LEAVES_def)

lemma stub_tleaf_new:
  "leaf_arrays_ok cw \<Longrightarrow> leaf_idx cw < 2 \<Longrightarrow>
   tleaf_new (leaf_pass K_gday (X_stub sun ps nt) c f m p s cw) = nt (tair m) (tleaf cw)"
  by (simp add: leaf_pass_def solve_leaf_energy_balance_def after_photosynthesis_def X_stub_def
        K_gday_def Let_def leaf_arrays_ok_def NUM_LEAVES_def diff_divide_distrib)

lemma stub_within_tolerance:
  "leaf_arrays_ok cw \<Longrightarrow> leaf_idx cw < 2 \<Longrightarrow>
   within_tolerance (leaf_pass K_gday (X_stub sun ps nt) c f m p s cw) \<longleftrightarrow>
     \<bar>tleaf cw - nt (tair m) (tleaf cw)\<bar> < 0.02"
  by (simp add: within_tolerance_def stub_tleaf_new)

lemma stub_tleaf_iterate:
  "leaf_arrays_ok cw \<Longrightarrow> leaf_idx cw < 2 \<Longrightarrow>
   tleaf ((next_pass K_gday (X_stub sun ps nt) c f m p s ^^ j) cw) = (nt (tair m) ^^ j) (tleaf cw)"
  by (induction j) (simp_all add: stub_tleaf_new iterate_invariants)

lemma settle_iterate: "(settle_after n ta ^^ j) ta = ta + real (min j n)"
  by (induction j) (auto simp: settle_after_def min_def)

lemma contract_iterate: "(contract ta ^^ j) ta = ta + 5.43 - 5.43 * 0.99 ^ j"
  by (induction j) (simp_all add: contract_def algebra_simps)

lemma contract_gap: "\<bar>(ta + 5.43 - 5.43 * 0.99 ^ j) - contract ta (ta + 5.43 - 5.43 * 0.99 ^ j)\<bar> = 0.0543 * 0.99 ^ j"
  by (simp add: contract_def algebra_simps)

lemma num99: "(0.02::real) \<le> 0.0543 * 0.99 ^ 99"
  by (simp add: power_divide)

lemma num100: "(0.0543::real) * 0.99 ^ 100 < 0.02"
  by (simp add: power_divide)


lemma stub_unconverged_settle:
  assumes "leaf_arrays_ok cw" "leaf_idx cw < 2" "tleaf cw = tair m" "fst (ps c) > 0.0001" "k \<le> n"
  shows "unconverged_passes K_gday (X_stub sun ps (settle_after n)) c f m p s cw k"
  unfolding unconverged_passes_iff
proof (intro allI impI)
  fix j assume "j < k"
  with assms have jn: "j < n" by simp
  have t: "tleaf ((next_pass K_gday (X_stub sun ps (settle_after n)) c f m p s ^^ j) cw) = tair m + real j"
    using assms jn by (simp add: stub_tleaf_iterate settle_iterate)
  show "photosynthesizing (X_stub sun ps (settle_after n)) c
          ((next_pass K_gday (X_stub sun ps (settle_after n)) c f m p s ^^ j) cw) m p s \<and>
        \<not> within_tolerance (leaf_pass K_gday (X_stub sun ps (settle_after n)) c f m p s
          ((next_pass K_gday (X_stub sun ps (settle_after n)) c f m p s ^^ j) cw))"
    using assms jn
    by (simp add: stub_photosynthesizing stub_within_tolerance iterate_invariants t settle_after_def)
qed

lemma stub_settle_final_pass:
  assumes "leaf_arrays_ok cw" "leaf_idx cw < 2" "tleaf cw = tair m" "fst (ps c) > 0.0001"
  shows "photosynthesizing (X_stub sun ps (settle_after n)) c
           ((next_pass K_gday (X_stub sun ps (settle_after n)) c f m p s ^^ n) cw) m p s \<and>
         within_tolerance (leaf_pass K_gday (X_stub sun ps (settle_after n)) c f m p s
           ((next_pass K_gday (X_stub sun ps (settle_after n)) c f m p s ^^ n) cw))"
proof -
  have t: "tleaf ((next_pass K_gday (X_stub sun ps (settle_after n)) c f m p s ^^ n) cw) = tair m + real n"
    using assms by (simp add: stub_tleaf_iterate settle_iterate)
  show ?thesis
    using assms by (simp add: stub_photosynthesizing stub_within_tolerance iterate_invariants t settle_after_def)
qed

lemma stub_settle_converges:
  assumes "ps_pathway c = C3" "leaf_arrays_ok cw" "leaf_idx cw < 2" "tleaf cw = tair m"
    "fst (ps c) > 0.0001" "iter + int n < itermax"
  shows "leaf_temperature_loop K_gday (X_stub sun ps (settle_after n)) c f m p s cw iter =
           Inr (Converged,
                leaf_pass K_gday (X_stub sun ps (settle_after n)) c f m p s
                  ((next_pass K_gday (X_stub sun ps (settle_after n)) c f m p s ^^ n) cw),
                iter + int n)"
proof (rule ltl_converges)
  show "unconverged_passes K_gday (X_stub sun ps (settle_after n)) c f m p s cw n"
    using assms by (intro stub_unconverged_settle) simp_all
  have t: "tleaf ((next_pass K_gday (X_stub sun ps (settle_after n)) c f m p s ^^ n) cw) = tair m + real n"
    using assms by (simp add: stub_tleaf_iterate settle_iterate)
  show "within_tolerance (leaf_pass K_gday (X_stub sun ps (settle_after n)) c f m p s
          ((next_pass K_gday (X_stub sun ps (settle_after n)) c f m p s ^^ n) cw))"
    using assms by (simp add: stub_within_tolerance iterate_invariants t settle_after_def)
  show "photosynthesizing (X_stub sun ps (settle_after n)) c
          ((next_pass K_gday (X_stub sun ps (settle_after n)) c f m p s ^^ n) cw) m p s"
    using assms by (simp add: stub_photosynthesizing iterate_invariants)
qed (use assms in simp_all)




lemma stub_sun_up [simp]: "sun_up (X_stub sun ps nt) ma p doy_v hod fr \<longleftrightarrow> sun hod"
  by (simp add: sun_up_def wk_of_hour_def met_of_hour_def X_stub_def Let_def)

lemma stub_sunlit_wk:
  "leaf_arrays_ok (fr_cw fr) \<Longrightarrow> leaf_arrays_ok (sunlit_wk K (X_stub sun ps nt) ma p doy_v hod fr)"
  "leaf_idx (sunlit_wk K X ma p doy_v hod fr) = 0"
  by (simp_all add: sunlit_wk_def calculate_top_of_canopy_leafn_def Let_def leaf_arrays_ok_def
        wk_of_hour_def X_stub_def NUM_LEAVES_def)



lemma fr_start_simps [simp]:
  "fr_cw (fr_start X c) = cw0" "fr_c (fr_start X c) = c" "fr_iter (fr_start X c) = 0"
  "fr_sunlight_hrs (fr_start X c) = 0" "fr_m (fr_start X c) = m0" "fr_s (fr_start X c) = s0"
  by (simp_all add: fr_start_def)

lemma cw0_ok [simp]: "leaf_arrays_ok cw0"
  by (simp add: leaf_arrays_ok_def cw0_def NUM_LEAVES_def)

lemma canopy_unfold:
  "canopy K X dummy cw0 c f0 ma m0 p s0 =
     (case hour_loop K X ma p dummy (doy ma ! nat (hour_idx c)) 0 (fr_start X c) of
        Inl e \<Rightarrow> Inl e
      | Inr fr \<Rightarrow>
          Inr (fr\<lparr>fr_f := (fr_f fr)\<lparr>omega := omega (fr_f fr) / real_of_int (fr_sunlight_hrs fr)\<rparr>,
                  fr_m := (fr_m fr)\<lparr>tsoil := tsoil (fr_m fr) / real_of_int (num_hlf_hrs (fr_c fr))\<rparr>,
                  fr_s := (if water_stress (fr_c fr) then calculate_soil_water_fac X (fr_c fr) p (fr_s fr)
                           else (fr_s fr)\<lparr>wtfac_topsoil := 1, wtfac_root := 1\<rparr>)\<rparr>))"
  by (simp add: canopy_def fr_start_def Let_def split: sum.splits)

lemma canopy_returns:
  "hour_loop K X ma p dummy (doy ma ! nat (hour_idx c)) 0 (fr_start X c) = Inr fr \<Longrightarrow>
   \<not> isl (canopy K X dummy cw0 c f0 ma m0 p s0) \<and>
   fr_iter (projr (canopy K X dummy cw0 c f0 ma m0 p s0)) = fr_iter fr \<and>
   fr_c (projr (canopy K X dummy cw0 c f0 ma m0 p s0)) = fr_c fr \<and>
   fr_cw (projr (canopy K X dummy cw0 c f0 ma m0 p s0)) = fr_cw fr"
  by (simp add: canopy_unfold)

lemma sun_window_count: "length (filter sun_window [0..47]) = 11"
  by (simp add: sun_window_def upto.simps)

lemma polar_night_runs:
  "\<exists>fr'. hour_loop K_gday X_polar_night ma p dummy doy_v hod fr = Inr fr'"
proof -
  define I :: "frame \<Rightarrow> bool" where "I fr \<longleftrightarrow> True" for fr
  have step: "\<exists>fr'. half_hour K_gday X_polar_night ma p dummy doy_v hod fr = Inr fr' \<and> I fr'" for hod fr
    by (simp add: X_polar_night_def half_hour_night I_def sun_never_def)
  have "I fr" by (simp add: I_def)
  from hour_loop_invariant[of I K_gday X_polar_night ma p dummy doy_v, OF step this]
  show ?thesis by blast
qed




lemma contract_tleaf:
  assumes "leaf_arrays_ok cw" "leaf_idx cw < 2" "tleaf cw = tair m"
  shows "tleaf ((next_pass K_gday (X_stub sun ps contract) c f m p s ^^ j) cw)
           = tair m + 5.43 - 5.43 * 0.99 ^ j"
  using assms by (simp add: stub_tleaf_iterate contract_iterate)

lemma contract_within:
  assumes "leaf_arrays_ok cw" "leaf_idx cw < 2" "tleaf cw = tair m"
  shows "within_tolerance (leaf_pass K_gday (X_stub sun ps contract) c f m p s
           ((next_pass K_gday (X_stub sun ps contract) c f m p s ^^ j) cw))
         \<longleftrightarrow> (0.0543::real) * 0.99 ^ j < 0.02"
proof -
  let ?cw = "(next_pass K_gday (X_stub sun ps contract) c f m p s ^^ j) cw"
  have "within_tolerance (leaf_pass K_gday (X_stub sun ps contract) c f m p s ?cw)
          \<longleftrightarrow> \<bar>tleaf ?cw - contract (tair m) (tleaf ?cw)\<bar> < 0.02"
    using assms by (intro stub_within_tolerance) (simp_all add: iterate_invariants)
  also have "tleaf ?cw = tair m + 5.43 - 5.43 * 0.99 ^ j"
    using assms by (rule contract_tleaf)
  finally show ?thesis
    by (simp only: contract_gap)
qed

lemma contract_slow: "j < 100 \<Longrightarrow> (0.02::real) \<le> 0.0543 * 0.99 ^ j"
proof -
  assume "j < 100"
  then have "(0.99::real) ^ 99 \<le> 0.99 ^ j"
    by (intro power_decreasing) simp_all
  then have "(0.0543::real) * 0.99 ^ 99 \<le> 0.0543 * 0.99 ^ j"
    by simp
  with num99 show ?thesis by linarith
qed

lemma contract_unconverged:
  assumes "leaf_arrays_ok cw" "leaf_idx cw < 2" "tleaf cw = tair m" "fst (ps c) > 0.0001" "k \<le> 100"
  shows "unconverged_passes K_gday (X_stub sun ps contract) c f m p s cw k"
  unfolding unconverged_passes_iff
proof (intro allI impI)
  fix j assume "j < k"
  with assms have j: "j < 100" by simp
  from contract_slow[OF j] have "\<not> (0.0543::real) * 0.99 ^ j < 0.02" by linarith
  then show "photosynthesizing (X_stub sun ps contract) c
          ((next_pass K_gday (X_stub sun ps contract) c f m p s ^^ j) cw) m p s \<and>
        \<not> within_tolerance (leaf_pass K_gday (X_stub sun ps contract) c f m p s
          ((next_pass K_gday (X_stub sun ps contract) c f m p s ^^ j) cw))"
    using assms
    by (simp add: stub_photosynthesizing iterate_invariants contract_within)
qed

lemma cw_leaf_simps [simp]:
  "leaf_arrays_ok cw_leaf" "leaf_idx cw_leaf = 0" "tleaf cw_leaf = tair m_noon"
  by (simp_all add: cw_leaf_def) (simp add: cw0_def)

lemma contract_run_facts:
  "unconverged_passes K_gday X_contract (c_day 48 C3 False) f0 m_noon p0 s0 cw_leaf 100 \<and>
   photosynthesizing X_contract (c_day 48 C3 False)
     ((next_pass K_gday X_contract (c_day 48 C3 False) f0 m_noon p0 s0 ^^ 100) cw_leaf) m_noon p0 s0 \<and>
   within_tolerance (leaf_pass K_gday X_contract (c_day 48 C3 False) f0 m_noon p0 s0
     ((next_pass K_gday X_contract (c_day 48 C3 False) f0 m_noon p0 s0 ^^ 100) cw_leaf))"
  unfolding X_contract_def
  using num100
  by (simp add: contract_unconverged contract_within stub_photosynthesizing iterate_invariants
        ps_steady_def)

lemma contract_run_fails:
  "leaf_temperature_loop K_gday X_contract (c_day 48 C3 False) f0 m_noon p0 s0 cw_leaf 0
     = Inl (No_convergence 100)"
  using ltl_fails[of "c_day 48 C3 False" K_gday X_contract f0 m_noon p0 s0 cw_leaf 100 0]
    contract_run_facts
  by (simp add: c_day_def itermax_def)

lemma drift_iterate: "(drift ta ^^ j) t = t + real j"
  by (induction j) (simp_all add: drift_def)

lemma drift_unconverged:
  assumes "leaf_arrays_ok cw" "leaf_idx cw < 2" "fst (ps c) > 0.0001"
  shows "unconverged_passes K_gday (X_stub sun ps drift) c f m p s cw k"
  unfolding unconverged_passes_iff
  using assms
  by (simp add: stub_photosynthesizing stub_within_tolerance iterate_invariants drift_def)

lemma stub_leaf_pass_writes:
  "leaf_arrays_ok cw \<Longrightarrow> leaf_idx cw < 2 \<Longrightarrow>
   trans_leaf (leaf_pass K_gday (X_stub sun ps nt) c f m p s cw) = (trans_leaf cw)[leaf_idx cw := snd (ps c) / 50] \<and>
   omega_leaf (leaf_pass K_gday (X_stub sun ps nt) c f m p s cw) = (omega_leaf cw)[leaf_idx cw := 0.5] \<and>
   an_leaf (leaf_pass K_gday (X_stub sun ps nt) c f m p s cw) = (an_leaf cw)[leaf_idx cw := fst (ps c)] \<and>
   gsc_leaf (leaf_pass K_gday (X_stub sun ps nt) c f m p s cw) = (gsc_leaf cw)[leaf_idx cw := snd (ps c)]"
  by (simp add: leaf_pass_def solve_leaf_energy_balance_def after_photosynthesis_def X_stub_def
        Let_def leaf_arrays_ok_def NUM_LEAVES_def)

lemma stub_leaf_loop_immediate:
  assumes "ps_pathway c = C3" "leaf_arrays_ok cw" "leaf_idx cw = 0"
    "fst (ps c) > 0.0001" "iter < itermax"
  shows "\<exists>cw'. leaf_loop K_gday (X_stub sun ps (settle_after 0)) c f m p s cw iter = Inr (cw', iter) \<and>
           leaf_arrays_ok cw' \<and>
           trans_leaf cw' = (trans_leaf cw)[0 := snd (ps c) / 50, 1 := snd (ps c) / 50] \<and>
           omega_leaf cw' = (omega_leaf cw)[0 := 0.5, 1 := 0.5] \<and>
           an_leaf cw' = (an_leaf cw)[0 := fst (ps c), 1 := fst (ps c)] \<and>
           gsc_leaf cw' = (gsc_leaf cw)[0 := snd (ps c), 1 := snd (ps c)]"
proof -
  let ?X = "X_stub sun ps (settle_after 0)"
  define cwa where "cwa = initialise_leaf_surface cw m"
  define cw1 where "cw1 = leaf_pass K_gday ?X c f m p s cwa"
  have a: "leaf_temperature_loop K_gday ?X c f m p s cwa iter = Inr (Converged, cw1, iter)"
    unfolding cw1_def cwa_def
    using stub_settle_converges[of c "initialise_leaf_surface cw m" m ps iter 0 sun f p s] assms
    by simp
  have ok1: "leaf_arrays_ok cw1" "leaf_idx cw1 = 0"
    using assms by (simp_all add: cw1_def cwa_def)
  define cwb where "cwb = initialise_leaf_surface (cw1\<lparr>leaf_idx := Suc 0\<rparr>) m"
  define cw2 where "cw2 = leaf_pass K_gday ?X c f m p s cwb"
  have b: "leaf_temperature_loop K_gday ?X c f m p s cwb iter = Inr (Converged, cw2, iter)"
    unfolding cw2_def cwb_def
    using stub_settle_converges[of c "initialise_leaf_surface (cw1\<lparr>leaf_idx := Suc 0\<rparr>) m" m ps iter 0 sun f p s]
      assms ok1
    by simp
  have l: "leaf_loop K_gday ?X c f m p s cw iter = Inr (cw2\<lparr>leaf_idx := 2\<rparr>, iter)"
    using assms(3) a b by (simp add: leaf_loop_unfold cwa_def[symmetric] cwb_def[symmetric])
  have w1: "trans_leaf cw1 = (trans_leaf cw)[0 := snd (ps c) / 50]"
      "omega_leaf cw1 = (omega_leaf cw)[0 := 0.5]"
      "an_leaf cw1 = (an_leaf cw)[0 := fst (ps c)]"
      "gsc_leaf cw1 = (gsc_leaf cw)[0 := snd (ps c)]"
    using stub_leaf_pass_writes[of cwa sun ps "settle_after 0" c f m p s] assms
    by (simp_all add: cw1_def cwa_def)
  have w2: "trans_leaf cw2 = (trans_leaf cw1)[1 := snd (ps c) / 50]"
      "omega_leaf cw2 = (omega_leaf cw1)[1 := 0.5]"
      "an_leaf cw2 = (an_leaf cw1)[1 := fst (ps c)]"
      "gsc_leaf cw2 = (gsc_leaf cw1)[1 := snd (ps c)]"
    using stub_leaf_pass_writes[of cwb sun ps "settle_after 0" c f m p s] ok1
    by (simp_all add: cw2_def cwb_def)
  have "leaf_arrays_ok cw2" using ok1 by (simp add: cw2_def cwb_def)
  with l w1 w2 show ?thesis by simp
qed

lemma c_day_simps [simp]:
  "ps_pathway (c_day n pw ws) = pw" "num_hlf_hrs (c_day n pw ws) = n"
  "hour_idx (c_day n pw ws) = 0" "water_stress (c_day n pw ws) = ws"
  by (simp_all add: c_day_def)

lemma fading_first_half_hour:
  "\<exists>fr1. half_hour K_gday X_fading ma0 p0 0 d 0 (fr_start X_fading (c_day n C3 False)) = Inr fr1 \<and>
     fr_iter fr1 = 0 \<and> leaf_arrays_ok (fr_cw fr1) \<and> fr_c fr1 = (c_day n C3 False)\<lparr>hour_idx := 1\<rparr> \<and>
     fr_s fr1 = s0 \<and>
     trans_leaf (fr_cw fr1) = [0.002, 0.002] \<and> omega_leaf (fr_cw fr1) = [0.5, 0.5] \<and>
     an_leaf (fr_cw fr1) = [10, 10] \<and> gsc_leaf (fr_cw fr1) = [0.1, 0.1]"
proof -
  let ?c = "c_day n C3 False"
  let ?fr = "fr_start X_fading ?c"
  let ?X = "X_stub sun_always ps_first_only (settle_after 0)"
  let ?cw = "sunlit_wk K_gday ?X ma0 p0 d 0 ?fr"
  have ps: "ps_first_only ?c = (10, 0.1)"
    by (simp add: ps_first_only_def)
  have pre: "ps_pathway ?c = C3" "leaf_arrays_ok ?cw" "leaf_idx ?cw = 0"
      "fst (ps_first_only ?c) > 0.0001" "(0::int) < itermax"
    by (simp_all add: stub_sunlit_wk ps itermax_def)
  from stub_leaf_loop_immediate[where c = ?c and cw = ?cw and ps = ps_first_only and iter = 0
      and sun = sun_always and f = "fr_f ?fr" and m = "met_of_hour ?X ma0 0 ?fr" and p = p0 and s = s0] pre
  obtain cw' where l: "leaf_loop K_gday ?X ?c (fr_f ?fr) (met_of_hour ?X ma0 0 ?fr) p0 s0 ?cw 0 = Inr (cw', 0)"
    and w: "leaf_arrays_ok cw'"
      "trans_leaf cw' = (trans_leaf ?cw)[0 := snd (ps_first_only ?c) / 50, 1 := snd (ps_first_only ?c) / 50]"
      "omega_leaf cw' = (omega_leaf ?cw)[0 := 0.5, 1 := 0.5]"
      "an_leaf cw' = (an_leaf ?cw)[0 := fst (ps_first_only ?c), 1 := fst (ps_first_only ?c)]"
      "gsc_leaf cw' = (gsc_leaf ?cw)[0 := snd (ps_first_only ?c), 1 := snd (ps_first_only ?c)]"
    by blast
  have h: "half_hour K_gday ?X ma0 p0 0 d 0 ?fr =
      Inr (hour_tail K_gday ?X p0 0 ?fr (met_of_hour ?X ma0 0 ?fr) cw' s0 0)"
    using l by (simp add: half_hour_unfold sun_always_def)
  have s: "fr_s (hour_tail K_gday ?X p0 0 ?fr (met_of_hour ?X ma0 0 ?fr) cw' s0 0) = s0"
    by (simp add: hour_tail_def Let_def X_stub_def)
  show ?thesis
    using h[folded X_fading_def] w s[folded X_fading_def] by (simp add: cw0_def ps)
qed

lemma fading_second_half_hour:
  assumes "leaf_arrays_ok (fr_cw fr1)" "fr_c fr1 = (c_day n C3 False)\<lparr>hour_idx := 1\<rparr>"
  shows "\<exists>fr2. half_hour K_gday X_fading ma0 p0 0 d 1 fr1 = Inr fr2 \<and>
     trans_leaf (fr_cw fr2) = trans_leaf (fr_cw fr1) \<and> omega_leaf (fr_cw fr2) = omega_leaf (fr_cw fr1) \<and>
     rnet_leaf (fr_cw fr2) = rnet_leaf (fr_cw fr1) \<and>
     an_leaf (fr_cw fr2) = [0, 0] \<and> gsc_leaf (fr_cw fr2) = [0, 0] \<and>
     fr_c fr2 = (c_day n C3 False)\<lparr>hour_idx := 2\<rparr>"
proof -
  have ps: "ps_first_only (fr_c fr1) = (0, 0)"
    using assms(2) by (simp add: ps_first_only_def)
  have h: "half_hour K_gday X_fading ma0 p0 0 d 1 fr1 =
     Inr (hour_tail K_gday X_fading p0 0 fr1 (met_of_hour X_fading ma0 1 fr1)
            (idle_leaves K_gday X_fading ma0 p0 d 1 fr1) (fr_s fr1) (fr_iter fr1))"
    using assms ps
    by (intro half_hour_both_idle)
       (simp_all add: X_fading_def sun_always_def stub_photosynthesizing sunlit_entry_def
          shaded_entry_after_idle_def stub_sunlit_wk)
  obtain a b where an: "an_leaf (fr_cw fr1) = [a, b]"
    using assms(1) by (auto simp: leaf_arrays_ok_def NUM_LEAVES_def length_Suc_conv numeral_2_eq_2)
  obtain g h where gs: "gsc_leaf (fr_cw fr1) = [g, h]"
    using assms(1) by (auto simp: leaf_arrays_ok_def NUM_LEAVES_def length_Suc_conv numeral_2_eq_2)
  have "an_leaf (idle_leaves K_gday X_fading ma0 p0 d 1 fr1) = [0, 0]"
       "gsc_leaf (idle_leaves K_gday X_fading ma0 p0 d 1 fr1) = [0, 0]"
    using an gs ps
    by (simp_all add: idle_leaves_def Let_def after_photosynthesis_def X_fading_def X_stub_def)
  with h assms(2) show ?thesis by simp
qed

lemma fading_two_half_hour_day:
  "\<not> isl (canopy K_gday X_fading 0 cw0 (c_day 2 C3 False) f0 ma0 m0 p0 s0) \<and>
   an_canopy (fr_cw (projr (canopy K_gday X_fading 0 cw0 (c_day 2 C3 False) f0 ma0 m0 p0 s0))) = 0 \<and>
   gsc_canopy (fr_cw (projr (canopy K_gday X_fading 0 cw0 (c_day 2 C3 False) f0 ma0 m0 p0 s0))) = 0 \<and>
   trans_canopy (fr_cw (projr (canopy K_gday X_fading 0 cw0 (c_day 2 C3 False) f0 ma0 m0 p0 s0))) = 0.004 \<and>
   omega_canopy (fr_cw (projr (canopy K_gday X_fading 0 cw0 (c_day 2 C3 False) f0 ma0 m0 p0 s0))) = 0.5"
proof -
  let ?d = "doy ma0 ! nat (hour_idx (c_day 2 C3 False))"
  let ?fr0 = "fr_start X_fading (c_day 2 C3 False)"
  obtain fr1 where h1: "half_hour K_gday X_fading ma0 p0 0 ?d 0 ?fr0 = Inr fr1"
    and ok1: "leaf_arrays_ok (fr_cw fr1)" and c1: "fr_c fr1 = (c_day 2 C3 False)\<lparr>hour_idx := 1\<rparr>"
    and v1: "trans_leaf (fr_cw fr1) = [0.002, 0.002]" "omega_leaf (fr_cw fr1) = [0.5, 0.5]"
    using fading_first_half_hour[of ?d 2] by blast
  obtain fr2 where h2: "half_hour K_gday X_fading ma0 p0 0 ?d 1 fr1 = Inr fr2"
    and v2: "trans_leaf (fr_cw fr2) = trans_leaf (fr_cw fr1)" "omega_leaf (fr_cw fr2) = omega_leaf (fr_cw fr1)"
      "an_leaf (fr_cw fr2) = [0, 0]" "gsc_leaf (fr_cw fr2) = [0, 0]"
    and c2: "fr_c fr2 = (c_day 2 C3 False)\<lparr>hour_idx := 2\<rparr>"
    using fading_second_half_hour[OF ok1 c1, of ?d] by blast
  have e: "hour_loop K_gday X_fading ma0 p0 0 ?d 2 fr2 = Inr fr2"
    using c2 by (subst hour_loop.simps) simp
  have "hour_loop K_gday X_fading ma0 p0 0 ?d 1 fr1 = Inr fr2"
    using c1 h2 e by (subst hour_loop.simps) simp
  then have l: "hour_loop K_gday X_fading ma0 p0 0 ?d 0 ?fr0 = Inr fr2"
    using h1 by (subst hour_loop.simps) simp
  from hour_result_scaled[OF h2] v1 v2
  have "an_canopy (fr_cw fr2) = 0 \<and> gsc_canopy (fr_cw fr2) = 0 \<and>
        trans_canopy (fr_cw fr2) = 0.004 \<and> omega_canopy (fr_cw fr2) = 0.5"
    by (simp add: SUNLIT_def SHADED_def)
  with canopy_returns[OF l] show ?thesis by simp
qed

lemma fading_one_half_hour_day:
  "\<not> isl (canopy K_gday X_fading 0 cw0 (c_day 1 C3 False) f0 ma0 m0 p0 s0) \<and>
   an_canopy (fr_cw (projr (canopy K_gday X_fading 0 cw0 (c_day 1 C3 False) f0 ma0 m0 p0 s0))) = 20 \<and>
   gsc_canopy (fr_cw (projr (canopy K_gday X_fading 0 cw0 (c_day 1 C3 False) f0 ma0 m0 p0 s0))) = 0.2 \<and>
   trans_canopy (fr_cw (projr (canopy K_gday X_fading 0 cw0 (c_day 1 C3 False) f0 ma0 m0 p0 s0))) = 0.004 \<and>
   omega_canopy (fr_cw (projr (canopy K_gday X_fading 0 cw0 (c_day 1 C3 False) f0 ma0 m0 p0 s0))) = 0.5"
proof -
  let ?d = "doy ma0 ! nat (hour_idx (c_day 1 C3 False))"
  let ?fr0 = "fr_start X_fading (c_day 1 C3 False)"
  obtain fr1 where h1: "half_hour K_gday X_fading ma0 p0 0 ?d 0 ?fr0 = Inr fr1"
    and c1: "fr_c fr1 = (c_day 1 C3 False)\<lparr>hour_idx := 1\<rparr>"
    and v1: "trans_leaf (fr_cw fr1) = [0.002, 0.002]" "omega_leaf (fr_cw fr1) = [0.5, 0.5]"
      "an_leaf (fr_cw fr1) = [10, 10]" "gsc_leaf (fr_cw fr1) = [0.1, 0.1]"
    using fading_first_half_hour[of ?d 1] by blast
  have e: "hour_loop K_gday X_fading ma0 p0 0 ?d 1 fr1 = Inr fr1"
    using c1 by (subst hour_loop.simps) simp
  then have l: "hour_loop K_gday X_fading ma0 p0 0 ?d 0 ?fr0 = Inr fr1"
    using h1 by (subst hour_loop.simps) simp
  from hour_result_scaled[OF h1] v1
  have "an_canopy (fr_cw fr1) = 20 \<and> gsc_canopy (fr_cw fr1) = 0.2 \<and>
        trans_canopy (fr_cw fr1) = 0.004 \<and> omega_canopy (fr_cw fr1) = 0.5"
    by (simp add: SUNLIT_def SHADED_def)
  with canopy_returns[OF l] show ?thesis by simp
qed

lemma stub_hour_tail_omega:
  "omega (fr_f (hour_tail K (X_stub sun ps nt) p dummy fr m cw s iter)) =
     omega (fr_f fr) + (omega_leaf cw ! 0 + omega_leaf cw ! 1) / 2"
  by (simp add: hour_tail_def Let_def X_stub_def sum_hourly_carbon_fluxes_def scale_to_canopy_def
        SUNLIT_def SHADED_def)

lemma stub_half_hour_immediate:
  assumes "ps_pathway (fr_c fr) = C3" "leaf_arrays_ok (fr_cw fr)" "sun hod"
    "fst (ps (fr_c fr)) > 0.0001" "fr_iter fr < itermax"
  shows "\<exists>fr'. half_hour K_gday (X_stub sun ps (settle_after 0)) ma p dummy doy_v hod fr = Inr fr' \<and>
           fr_iter fr' = fr_iter fr \<and> leaf_arrays_ok (fr_cw fr') \<and>
           omega (fr_f fr') = omega (fr_f fr) + 0.5"
proof -
  let ?X = "X_stub sun ps (settle_after 0)"
  let ?cw = "sunlit_wk K_gday ?X ma p doy_v hod fr"
  have pre: "ps_pathway (fr_c fr) = C3" "leaf_arrays_ok ?cw" "leaf_idx ?cw = 0"
    using assms by (simp_all add: stub_sunlit_wk)
  from stub_leaf_loop_immediate[where c = "fr_c fr" and cw = ?cw and ps = ps and iter = "fr_iter fr"
      and sun = sun and f = "fr_f fr" and m = "met_of_hour ?X ma hod fr" and p = p and s = "fr_s fr"]
    pre assms(4,5)
  obtain cw' where l: "leaf_loop K_gday ?X (fr_c fr) (fr_f fr) (met_of_hour ?X ma hod fr) p (fr_s fr)
        ?cw (fr_iter fr) = Inr (cw', fr_iter fr)"
    and w: "leaf_arrays_ok cw'" "omega_leaf cw' = (omega_leaf ?cw)[0 := 0.5, 1 := 0.5]"
    by blast
  have len: "length (omega_leaf ?cw) = 2"
    using pre(2) by (simp add: leaf_arrays_ok_def NUM_LEAVES_def)
  have h: "half_hour K_gday ?X ma p dummy doy_v hod fr =
      Inr (hour_tail K_gday ?X p dummy fr (met_of_hour ?X ma hod fr) cw' (fr_s fr) (fr_iter fr))"
    using l assms(3) by (simp add: half_hour_unfold)
  show ?thesis
    using h w len by (simp add: stub_hour_tail_omega)
qed

lemma stub_night_omega:
  assumes "leaf_arrays_ok (fr_cw fr)"
  shows "omega (fr_f (night_half_hour K (X_stub sun ps nt) ma p dummy doy_v hod fr)) = omega (fr_f fr)"
  using zeroed_leaves[of "wk_of_hour (X_stub sun ps nt) ma p doy_v hod fr"] assms
  by (simp add: night_half_hour_def stub_hour_tail_omega)

lemma sun_window_upto:
  "0 \<le> hod \<Longrightarrow> real (length (filter sun_window [0..hod + 1 - 1])) =
     real (length (filter sun_window [0..hod - 1])) + (if sun_window hod then 1 else 0)"
  using upto_rec2[of 0 hod] by simp

lemma window_day_omega:
  "\<exists>fr'. hour_loop K_gday X_window ma p dummy doy_v 0 (fr_start X_window (c_day 48 C3 ws)) = Inr fr' \<and>
     omega (fr_f fr') = 5.5"
proof -
  define I :: "int \<Rightarrow> frame \<Rightarrow> bool"
    where "I hod fr \<longleftrightarrow> ps_pathway (fr_c fr) = C3 \<and> leaf_arrays_ok (fr_cw fr) \<and> fr_iter fr = 0 \<and>
      num_hlf_hrs (fr_c fr) = 48 \<and> 0 \<le> hod \<and>
      omega (fr_f fr) = 0.5 * real (length (filter sun_window [0..hod - 1]))" for hod fr
  have step: "\<exists>fr'. half_hour K_gday X_window ma p dummy doy_v hod fr = Inr fr' \<and> I (hod + 1) fr'"
    if "I hod fr" "hod < num_hlf_hrs (fr_c fr)" for hod fr
  proof (cases "sun_window hod")
    case True
    from that True obtain fr' where
      h: "half_hour K_gday X_window ma p dummy doy_v hod fr = Inr fr'"
      and "fr_iter fr' = fr_iter fr" "leaf_arrays_ok (fr_cw fr')" "omega (fr_f fr') = omega (fr_f fr) + 0.5"
      using stub_half_hour_immediate[of fr sun_window hod ps_steady ma p dummy doy_v, folded X_window_def]
      by (auto simp: I_def ps_steady_def itermax_def)
    with that True half_hour_counts[OF h] sun_window_upto[of hod] show ?thesis
      by (auto simp: I_def)
  next
    case False
    have h: "half_hour K_gday X_window ma p dummy doy_v hod fr =
        Inr (night_half_hour K_gday X_window ma p dummy doy_v hod fr)"
      using False by (simp add: X_window_def half_hour_night)
    have "omega (fr_f (night_half_hour K_gday X_window ma p dummy doy_v hod fr)) = omega (fr_f fr)"
      using that stub_night_omega[of fr K_gday sun_window ps_steady "settle_after 0", folded X_window_def]
      by (simp add: I_def)
    with that False h sun_window_upto[of hod] show ?thesis
      by (auto simp: I_def)
  qed
  have "I 0 (fr_start X_window (c_day 48 C3 ws))"
    by (simp add: I_def fr_start_def X_window_def X_stub_def)
  from hour_loop_invariant_indexed[of I K_gday X_window ma p dummy doy_v, OF step this]
  obtain fr' where "hour_loop K_gday X_window ma p dummy doy_v 0 (fr_start X_window (c_day 48 C3 ws)) = Inr fr'"
    and "I 48 fr'" by auto
  then show ?thesis
    using sun_window_count by (auto simp: I_def)
qed

section \<open>Rounding to the nearest double\<close>

lemma rne_of_int [simp]: "rne (of_int n) = n"
  by (simp add: rne_def)

lemma rne_numeral [simp]: "rne (numeral k) = numeral k"
  by (simp add: rne_def)

lemma rne_bounds: "\<lfloor>x\<rfloor> \<le> rne x \<and> rne x \<le> \<lfloor>x\<rfloor> + 1"
  by (simp add: rne_def Let_def)

lemma rne_ge_int: "of_int n \<le> x \<Longrightarrow> n \<le> rne x"
proof -
  assume "of_int n \<le> x"
  then have "n \<le> \<lfloor>x\<rfloor>" by (simp add: le_floor_iff)
  with rne_bounds[of x] show ?thesis by linarith
qed

lemma rne_le_int: "x \<le> of_int n \<Longrightarrow> rne x \<le> n"
proof (cases "x = of_int n")
  case True
  then show ?thesis by simp
next
  case False
  assume "x \<le> of_int n"
  with False have "x < of_int n" by simp
  then have "\<lfloor>x\<rfloor> < n" by (simp add: floor_less_iff)
  with rne_bounds[of x] show ?thesis by linarith
qed

lemma fl64_pos_eval:
  assumes "2 powr of_int e \<le> x" "x < 2 powr (of_int e + 1)"
  shows "fl64 x = of_int (rne (x / 2 powr (of_int e - 52))) * 2 powr (of_int e - 52)"
proof -
  have "(0::real) < 2 powr of_int e" by simp
  with assms(1) have x: "0 < x" by linarith
  have "\<lfloor>log 2 x\<rfloor> = e"
    using x assms by (simp add: floor_log_eq_powr_iff)
  with x show ?thesis by (simp add: fl64_def Let_def)
qed

lemma fl64_zero [simp]: "fl64 0 = 0"
  by (simp add: fl64_def)

lemma fl64_minus: "fl64 (- x) = - fl64 x"
  by (simp add: fl64_def Let_def sgn_minus)

lemma pow2_split52: "(2::real) powr r = 2 ^ 52 * 2 powr (r - 52)"
proof -
  have "(2::real) powr r = 2 powr (52 + (r - 52))" by simp
  also have "\<dots> = 2 powr 52 * 2 powr (r - 52)" by (rule powr_add)
  finally show ?thesis by simp
qed

lemma pow2_split53: "(2::real) powr (r + 1) = 2 ^ 53 * 2 powr (r - 52)"
proof -
  have "(2::real) powr (r + 1) = 2 powr (53 + (r - 52))" by (simp add: add.commute)
  also have "\<dots> = 2 powr 53 * 2 powr (r - 52)" by (rule powr_add)
  finally show ?thesis by simp
qed

lemma fl64_of_form:
  assumes "2 ^ 52 \<le> m" "m \<le> 2 ^ 53"
  shows "fl64 (of_int m * 2 powr (of_int e - 52)) = of_int m * 2 powr (of_int e - 52)"
proof (cases "m = 2 ^ 53")
  case True
  define r where "r = (of_int (e + 1) :: real)"
  let ?x = "of_int m * 2 powr (of_int e - 52) :: real"
  have x: "?x = 2 powr r"
    using True by (simp add: r_def pow2_split53[of "of_int e"])
  have "fl64 (2 powr r) = of_int (rne (2 powr r / 2 powr (r - 52))) * 2 powr (r - 52)"
    unfolding r_def by (rule fl64_pos_eval) simp_all
  also have "2 powr r / 2 powr (r - 52) = of_int (2 ^ 52)"
    by (subst pow2_split52[of r]) simp
  also have "of_int (rne (of_int (2 ^ 52))) * 2 powr (r - 52) = (2::real) powr r"
    by (simp add: pow2_split52[of r])
  finally show ?thesis using x by simp
next
  case False
  with assms have lt: "m < 2 ^ 53" by simp
  let ?u = "2 powr (of_int e - 52) :: real"
  let ?x = "of_int m * ?u"
  have u: "0 < ?u" by simp
  have a: "2 powr of_int e \<le> ?x"
  proof -
    have "(2 ^ 52 :: real) \<le> of_int m"
      using assms(1) by (metis of_int_le_iff of_int_numeral of_int_power)
    then show ?thesis
      unfolding pow2_split52[of "of_int e"] using u by (simp only: mult_le_cancel_right_pos)
  qed
  have b: "?x < 2 powr (of_int e + 1)"
  proof -
    have "of_int m < (2 ^ 53 :: real)"
      using lt by (metis of_int_less_iff of_int_numeral of_int_power)
    then show ?thesis
      unfolding pow2_split53[of "of_int e"] using u by (simp only: mult_less_cancel_right_pos)
  qed
  have "fl64 ?x = of_int (rne (?x / ?u)) * ?u"
    using a b by (rule fl64_pos_eval)
  then show ?thesis by simp
qed

lemma fl64_pos_form:
  assumes "0 < x"
  shows "\<exists>e m. fl64 x = of_int m * 2 powr (of_int e - 52) \<and> 2 ^ 52 \<le> m \<and> m \<le> 2 ^ 53"
proof -
  define e where "e = \<lfloor>log 2 x\<rfloor>"
  let ?u = "2 powr (of_int e - 52) :: real"
  have u: "0 < ?u" by simp
  have b: "2 powr of_int e \<le> x" "x < 2 powr (of_int e + 1)"
    using assms floor_log_eq_powr_iff[of x 2 e] by (simp_all add: e_def)
  have f: "fl64 x = of_int (rne (x / ?u)) * ?u"
    using b by (rule fl64_pos_eval)
  have "of_int (2 ^ 52) \<le> x / ?u"
    using b(1) u unfolding pow2_split52[of "of_int e"] by (simp add: le_divide_eq)
  then have lo: "2 ^ 52 \<le> rne (x / ?u)" by (rule rne_ge_int)
  have "x / ?u \<le> of_int (2 ^ 53)"
    using b(2) u unfolding pow2_split53[of "of_int e"] by (simp add: divide_le_eq)
  then have hi: "rne (x / ?u) \<le> 2 ^ 53" by (rule rne_le_int)
  from f lo hi show ?thesis by blast
qed

lemma fl64_idem [simp]: "fl64 (fl64 x) = fl64 x"
proof -
  have pos: "fl64 (fl64 y) = fl64 y" if "0 < y" for y
  proof -
    from fl64_pos_form[OF that] obtain e m where
      "fl64 y = of_int m * 2 powr (of_int e - 52)" "2 ^ 52 \<le> m" "m \<le> 2 ^ 53" by blast
    then show ?thesis by (simp add: fl64_of_form)
  qed
  consider "x = 0" | "0 < x" | "x < 0" by linarith
  then show ?thesis
  proof cases
    case 1 then show ?thesis by simp
  next
    case 2 then show ?thesis by (rule pos)
  next
    case 3
    then have "0 < - x" by simp
    from pos[OF this] show ?thesis by (simp add: fl64_minus)
  qed
qed

lemma fl64_double: "fl64 (2 * x) = 2 * fl64 x"
proof -
  have pos: "fl64 (2 * y) = 2 * fl64 y" if "0 < y" for y
  proof -
    define e where "e = \<lfloor>log 2 y\<rfloor>"
    have b: "2 powr of_int e \<le> y" "y < 2 powr (of_int e + 1)"
      using that floor_log_eq_powr_iff[of y 2 e] by (simp_all add: e_def)
    have two: "(2::real) powr (of_int (e + 1) + r) = 2 * 2 powr (of_int e + r)" for r
    proof -
      have "(2::real) powr (of_int (e + 1) + r) = 2 powr (1 + (of_int e + r))" by (simp add: add.commute add.left_commute)
      also have "\<dots> = 2 powr 1 * 2 powr (of_int e + r)" by (rule powr_add)
      finally show ?thesis by simp
    qed
    have b2: "2 powr of_int (e + 1) \<le> 2 * y" "2 * y < 2 powr (of_int (e + 1) + 1)"
      using b two[of 0] two[of 1] by simp_all
    have "fl64 (2 * y) = of_int (rne (2 * y / 2 powr (of_int (e + 1) - 52))) * 2 powr (of_int (e + 1) - 52)"
      using b2 by (rule fl64_pos_eval)
    also have "2 powr (of_int (e + 1) - 52) = 2 * (2::real) powr (of_int e - 52)"
      using two[of "- 52"] by simp
    finally have "fl64 (2 * y) = 2 * (of_int (rne (y / 2 powr (of_int e - 52))) * 2 powr (of_int e - 52))"
      by simp
    also have "of_int (rne (y / 2 powr (of_int e - 52))) * 2 powr (of_int e - 52) = fl64 y"
      using b by (rule fl64_pos_eval[symmetric])
    finally show ?thesis .
  qed
  consider "x = 0" | "0 < x" | "x < 0" by linarith
  then show ?thesis
  proof cases
    case 1 then show ?thesis by simp
  next
    case 2 then show ?thesis by (rule pos)
  next
    case 3
    then have "0 < - x" by simp
    from pos[OF this] have "fl64 (- (2 * x)) = 2 * fl64 (- x)" by simp
    then show ?thesis by (simp add: fl64_minus)
  qed
qed

section \<open>The carbon accumulation in double arithmetic: general facts\<close>

lemma sum_hourly_dbl_fields:
  "gpp_gCm2 (sum_hourly_carbon_fluxes_dbl K cw f p) = dbl_add (gpp_gCm2 f) (hlfhr_gC_dbl K (an_canopy cw))"
  "npp_gCm2 (sum_hourly_carbon_fluxes_dbl K cw f p) =
     dbl_mul (gpp_gCm2 (sum_hourly_carbon_fluxes_dbl K cw f p)) (cue p)"
  "gpp (sum_hourly_carbon_fluxes_dbl K cw f p) =
     dbl_mul (gpp_gCm2 (sum_hourly_carbon_fluxes_dbl K cw f p)) (GRAM_C_2_TONNES_HA K)"
  "npp (sum_hourly_carbon_fluxes_dbl K cw f p) =
     dbl_mul (npp_gCm2 (sum_hourly_carbon_fluxes_dbl K cw f p)) (GRAM_C_2_TONNES_HA K)"
  "auto_resp (sum_hourly_carbon_fluxes_dbl K cw f p) =
     dbl_sub (gpp (sum_hourly_carbon_fluxes_dbl K cw f p)) (npp (sum_hourly_carbon_fluxes_dbl K cw f p))"
  "apar (sum_hourly_carbon_fluxes_dbl K cw f p) = dbl_add (apar f) (apar_canopy cw)"
  "gs_mol_m2_sec (sum_hourly_carbon_fluxes_dbl K cw f p) = dbl_add (gs_mol_m2_sec f) (gsc_canopy cw)"
  by (simp_all add: sum_hourly_carbon_fluxes_dbl_def hlfhr_gC_dbl_def Let_def)

lemma accumulate_day_dbl_gpp:
  "gpp_gCm2 (accumulate_day_dbl K p cws f) =
     fold (\<lambda>cw g. dbl_add g (hlfhr_gC_dbl K (an_canopy cw))) cws (gpp_gCm2 f)"
  unfolding accumulate_day_dbl_def
  by (induction cws arbitrary: f) (simp_all add: sum_hourly_dbl_fields)

lemma hlfhr_gC_dbl_zero [simp]: "hlfhr_gC_dbl K 0 = 0"
  by (simp add: hlfhr_gC_dbl_def dbl_mul_def)

lemma iterate_is_double:
  "fl64 (((\<lambda>g. dbl_add g c) ^^ k) 0) = ((\<lambda>g. dbl_add g c) ^^ k) 0"
  by (cases k) (simp_all add: dbl_add_def)

lemma fold_two_valued_dbl:
  assumes "\<forall>cw\<in>set cws. an_canopy cw = a \<or> an_canopy cw = 0"
  shows "fold (\<lambda>cw g. dbl_add g (hlfhr_gC_dbl K (an_canopy cw))) cws
           (((\<lambda>g. dbl_add g (hlfhr_gC_dbl K a)) ^^ j) 0) =
         ((\<lambda>g. dbl_add g (hlfhr_gC_dbl K a)) ^^ (j + length (filter (\<lambda>cw. an_canopy cw = a) cws))) 0"
  using assms
proof (induction cws arbitrary: j)
  case Nil
  then show ?case by simp
next
  case (Cons cw cws)
  let ?F = "\<lambda>g. dbl_add g (hlfhr_gC_dbl K a)"
  show ?case
  proof (cases "an_canopy cw = a")
    case True
    have "fold (\<lambda>cw g. dbl_add g (hlfhr_gC_dbl K (an_canopy cw))) (cw # cws) ((?F ^^ j) 0) =
          fold (\<lambda>cw g. dbl_add g (hlfhr_gC_dbl K (an_canopy cw))) cws ((?F ^^ Suc j) 0)"
      using True by simp
    also have "\<dots> = (?F ^^ (Suc j + length (filter (\<lambda>cw. an_canopy cw = a) cws))) 0"
      using Cons.prems by (intro Cons.IH) simp
    finally show ?thesis using True by simp
  next
    case False
    with Cons.prems have z: "an_canopy cw = 0" by simp
    have "dbl_add ((?F ^^ j) 0) (hlfhr_gC_dbl K (an_canopy cw)) = (?F ^^ j) 0"
      using iterate_is_double[where c = "hlfhr_gC_dbl K a" and k = j] by (simp add: z dbl_add_def)
    then have "fold (\<lambda>cw g. dbl_add g (hlfhr_gC_dbl K (an_canopy cw))) (cw # cws) ((?F ^^ j) 0) =
          fold (\<lambda>cw g. dbl_add g (hlfhr_gC_dbl K (an_canopy cw))) cws ((?F ^^ j) 0)"
      by simp
    also have "\<dots> = (?F ^^ (j + length (filter (\<lambda>cw. an_canopy cw = a) cws))) 0"
      using Cons.prems by (intro Cons.IH) simp
    finally show ?thesis using False by simp
  qed
qed

lemma accumulate_two_valued_dbl:
  assumes "\<forall>cw\<in>set cws. an_canopy cw = a \<or> an_canopy cw = 0"
  shows "gpp_gCm2 (accumulate_day_dbl K p cws (zero_carbon_day_fluxes f)) =
     ((\<lambda>g. dbl_add g (hlfhr_gC_dbl K a)) ^^ length (filter (\<lambda>cw. an_canopy cw = a) cws)) 0"
  using fold_two_valued_dbl[OF assms, of K 0]
  by (simp add: accumulate_day_dbl_gpp zero_carbon_day_fluxes_def)

lemma accumulate_zero_dbl:
  assumes "\<forall>cw\<in>set cws. an_canopy cw = 0"
  shows "gpp_gCm2 (accumulate_day_dbl K p cws (zero_carbon_day_fluxes f)) = 0"
proof -
  have "fold (\<lambda>cw g. dbl_add g (hlfhr_gC_dbl K (an_canopy cw))) cws 0 = 0"
    using assms by (induction cws) (simp_all add: dbl_add_def)
  then show ?thesis
    by (simp add: accumulate_day_dbl_gpp zero_carbon_day_fluxes_def)
qed

lemma iterate_exact:
  assumes "\<forall>j\<le>k. fl64 (real j * c) = real j * c"
  shows "((\<lambda>g. dbl_add g c) ^^ k) 0 = real k * c"
  using assms
proof (induction k)
  case 0
  then show ?case by simp
next
  case (Suc k)
  then have ih: "((\<lambda>g. dbl_add g c) ^^ k) 0 = real k * c" by simp
  have "((\<lambda>g. dbl_add g c) ^^ Suc k) 0 = dbl_add (real k * c) c"
    by (simp add: ih)
  also have "\<dots> = fl64 (real (Suc k) * c)"
    by (simp add: dbl_add_def algebra_simps)
  also from Suc.prems have "\<dots> = real (Suc k) * c" by blast
  finally show ?case .
qed

section \<open>Six half hours of unit assimilation, in doubles\<close>

lemma K_gday_dbl_values:
  "UMOL_TO_MOL K_gday_dbl = 4722366482869645 / 2 ^ 72"
  "MOL_C_TO_GRAMS_C K_gday_dbl = 12" "SEC_2_HLFHR K_gday_dbl = 1800"
proof -
  have "fl64 (1 / 1000000) = 4722366482869645 / 2 ^ 72"
    by (subst fl64_pos_eval[where e = "- 20"]) (simp_all add: rne_def Let_def powr_neg_numeral)
  then show "UMOL_TO_MOL K_gday_dbl = 4722366482869645 / 2 ^ 72"
    by (simp add: K_gday_dbl_def)
  have "fl64 12 = 12"
    by (subst fl64_pos_eval[where e = 3]) (simp_all add: rne_def Let_def powr_neg_numeral)
  then show "MOL_C_TO_GRAMS_C K_gday_dbl = 12"
    by (simp add: K_gday_dbl_def)
  have "fl64 1800 = 1800"
    by (subst fl64_pos_eval[where e = 10]) (simp_all add: rne_def Let_def powr_neg_numeral)
  then show "SEC_2_HLFHR K_gday_dbl = 1800"
    by (simp add: K_gday_dbl_def)
qed

lemma unit_conversion_dbl: "hlfhr_gC_dbl K_gday_dbl 1 = 6225776124876974 / 2 ^ 58"
proof -
  have a: "fl64 (4722366482869645 / 2 ^ 72) = 4722366482869645 / 2 ^ 72"
    by (subst fl64_pos_eval[where e = "- 20"]) (simp_all add: rne_def Let_def powr_neg_numeral)
  have b: "fl64 (4722366482869645 / 2 ^ 72 * 12) = 7083549724304468 / 2 ^ 69"
    by (subst fl64_pos_eval[where e = "- 17"]) (simp_all add: rne_def Let_def powr_neg_numeral)
  have c: "fl64 (7083549724304468 / 2 ^ 69 * 1800) = 6225776124876974 / 2 ^ 58"
    by (subst fl64_pos_eval[where e = "- 6"]) (simp_all add: rne_def Let_def powr_neg_numeral)
  show ?thesis
    unfolding hlfhr_gC_dbl_def dbl_mul_def K_gday_dbl_values mult_1 a b c ..
qed

lemma unit_sums_dbl:
  "dbl_add 0 (6225776124876974 / 2 ^ 58) = 6225776124876974 / 2 ^ 58"
  "dbl_add (6225776124876974 / 2 ^ 58) (6225776124876974 / 2 ^ 58) = 6225776124876974 / 2 ^ 57"
  "dbl_add (6225776124876974 / 2 ^ 57) (6225776124876974 / 2 ^ 58) = 4669332093657730 / 2 ^ 56"
  "dbl_add (4669332093657730 / 2 ^ 56) (6225776124876974 / 2 ^ 58) = 6225776124876974 / 2 ^ 56"
  "dbl_add (6225776124876974 / 2 ^ 56) (6225776124876974 / 2 ^ 58) = 7782220156096218 / 2 ^ 56"
  "dbl_add (7782220156096218 / 2 ^ 56) (6225776124876974 / 2 ^ 58) = 4669332093657731 / 2 ^ 55"
  "dbl_mul 6 (6225776124876974 / 2 ^ 58) = 4669332093657730 / 2 ^ 55"
proof -
  show "dbl_add 0 (6225776124876974 / 2 ^ 58) = 6225776124876974 / 2 ^ 58"
    unfolding dbl_add_def
    by (subst fl64_pos_eval[where e = "- 6"]) (simp_all add: rne_def Let_def powr_neg_numeral)
  show "dbl_add (6225776124876974 / 2 ^ 58) (6225776124876974 / 2 ^ 58) = 6225776124876974 / 2 ^ 57"
    unfolding dbl_add_def
    by (subst fl64_pos_eval[where e = "- 5"]) (simp_all add: rne_def Let_def powr_neg_numeral)
  show "dbl_add (6225776124876974 / 2 ^ 57) (6225776124876974 / 2 ^ 58) = 4669332093657730 / 2 ^ 56"
    unfolding dbl_add_def
    by (subst fl64_pos_eval[where e = "- 4"]) (simp_all add: rne_def Let_def powr_neg_numeral)
  show "dbl_add (4669332093657730 / 2 ^ 56) (6225776124876974 / 2 ^ 58) = 6225776124876974 / 2 ^ 56"
    unfolding dbl_add_def
    by (subst fl64_pos_eval[where e = "- 4"]) (simp_all add: rne_def Let_def powr_neg_numeral)
  show "dbl_add (6225776124876974 / 2 ^ 56) (6225776124876974 / 2 ^ 58) = 7782220156096218 / 2 ^ 56"
    unfolding dbl_add_def
    by (subst fl64_pos_eval[where e = "- 4"]) (simp_all add: rne_def Let_def powr_neg_numeral)
  show "dbl_add (7782220156096218 / 2 ^ 56) (6225776124876974 / 2 ^ 58) = 4669332093657731 / 2 ^ 55"
    unfolding dbl_add_def
    by (subst fl64_pos_eval[where e = "- 3"]) (simp_all add: rne_def Let_def powr_neg_numeral)
  show "dbl_mul 6 (6225776124876974 / 2 ^ 58) = 4669332093657730 / 2 ^ 55"
    unfolding dbl_mul_def
    by (subst fl64_pos_eval[where e = "- 3"]) (simp_all add: rne_def Let_def powr_neg_numeral)
qed

lemma six_half_hours_dbl:
  "gpp_gCm2 (accumulate_day_dbl K_gday_dbl p0 day_six (zero_carbon_day_fluxes f0)) = 4669332093657731 / 2 ^ 55"
proof -
  let ?c = "hlfhr_gC_dbl K_gday_dbl 1"
  have "gpp_gCm2 (accumulate_day_dbl K_gday_dbl p0 day_six (zero_carbon_day_fluxes f0)) =
      dbl_add (dbl_add (dbl_add (dbl_add (dbl_add (dbl_add 0 ?c) ?c) ?c) ?c) ?c) ?c"
    by (simp add: accumulate_day_dbl_gpp day_six_def zero_carbon_day_fluxes_def cw0_def
          numeral_eq_Suc)
  also have "\<dots> = 4669332093657731 / 2 ^ 55"
    unfolding unit_conversion_dbl unit_sums_dbl ..
  finally show ?thesis .
qed

section \<open>Flux reset and aggregation: the claims\<close>

text \<open>
  Claim C6. Each half hour the day-total gross production is to be incremented by the
  canopy assimilation converted by the three constants, net production is to be gross
  production times the carbon-use efficiency, autotrophic respiration gross minus net,
  and canopy APAR and conductance are to be added to their day totals; consequently
  the gross production of the day is to be exactly 0 when canopy assimilation is 0 in
  every half hour, and exactly \<open>k\<close> times the conversion of a single half hour when it
  is \<open>a\<close> in \<open>k\<close> half hours and 0 in the others.

  On the code the last part fails: the day total is the result of \<open>k\<close> rounded
  additions (line 288), which need not be \<open>k\<close> times the term. With the constants
  1E-6, 12 and 1800 as doubles and a canopy assimilation of 1 in each of six half
  hours, the conversion of one half hour is \<open>6225776124876974 / 2 ^ 58\<close> (0.0216), and
  the gross production after the six half hours is \<open>4669332093657731 / 2 ^ 55\<close>
  (0.12960000000000002); six times the conversion is \<open>4669332093657730 / 2 ^ 55\<close>
  (0.1296) as a product of doubles and \<open>9338664187315461 / 2 ^ 56\<close> as a product of
  reals.
\<close>

theorem C6_six_half_hours_counterexample:
  "map an_canopy day_six = [1, 1, 1, 1, 1, 1] \<and>
   hlfhr_gC_dbl K_gday_dbl 1 = 6225776124876974 / 2 ^ 58 \<and>
   gpp_gCm2 (accumulate_day_dbl K_gday_dbl p0 day_six (zero_carbon_day_fluxes f0))
     = 4669332093657731 / 2 ^ 55 \<and>
   dbl_mul 6 (hlfhr_gC_dbl K_gday_dbl 1) = 4669332093657730 / 2 ^ 55 \<and>
   6 * hlfhr_gC_dbl K_gday_dbl 1 = 9338664187315461 / 2 ^ 56 \<and>
   gpp_gCm2 (accumulate_day_dbl K_gday_dbl p0 day_six (zero_carbon_day_fluxes f0))
     \<noteq> dbl_mul 6 (hlfhr_gC_dbl K_gday_dbl 1) \<and>
   gpp_gCm2 (accumulate_day_dbl K_gday_dbl p0 day_six (zero_carbon_day_fluxes f0))
     \<noteq> 6 * hlfhr_gC_dbl K_gday_dbl 1"
proof -
  have m: "map an_canopy day_six = [1, 1, 1, 1, 1, 1]"
    by (simp add: day_six_def numeral_eq_Suc)
  have p6: "dbl_mul 6 (hlfhr_gC_dbl K_gday_dbl 1) = 4669332093657730 / 2 ^ 55"
    unfolding unit_conversion_dbl by (rule unit_sums_dbl(7))
  have r6: "6 * hlfhr_gC_dbl K_gday_dbl 1 = 9338664187315461 / 2 ^ 56"
    unfolding unit_conversion_dbl by simp
  note g6 = six_half_hours_dbl
  have n1: "gpp_gCm2 (accumulate_day_dbl K_gday_dbl p0 day_six (zero_carbon_day_fluxes f0))
      \<noteq> dbl_mul 6 (hlfhr_gC_dbl K_gday_dbl 1)"
    unfolding g6 p6 by simp
  have n2: "gpp_gCm2 (accumulate_day_dbl K_gday_dbl p0 day_six (zero_carbon_day_fluxes f0))
      \<noteq> 6 * hlfhr_gC_dbl K_gday_dbl 1"
    unfolding g6 r6 by simp
  from m unit_conversion_dbl g6 p6 r6 n1 n2 show ?thesis by blast
qed

text \<open>
  Claim C6, as amended. Each call of \<open>sum_hourly_carbon_fluxes\<close> adds to the day-total
  gross production the canopy assimilation times the three conversion constants
  (micromole to mole, mole of carbon to gram, seconds per half hour); sets net
  production to the new gross production times the carbon-use efficiency; sets the two
  productions in tonnes per hectare to the two in grams times \<open>GRAM_C_2_TONNES_HA\<close>;
  sets autotrophic respiration to the former of these minus the latter; and adds canopy
  APAR and canopy conductance to their day totals. This holds in exact arithmetic and,
  with every operation rounded, in double arithmetic. Consequently, in double
  arithmetic, over any series of half hours started from the day-start reset: if
  canopy assimilation is 0 in every half hour the gross production is exactly 0; if it
  is \<open>a\<close> in \<open>k\<close> half hours and 0 in the others, the gross production is what \<open>k\<close>
  successive rounded additions of the single-half-hour conversion of \<open>a\<close> give,
  starting from 0. That is exactly \<open>k\<close> times the conversion whenever every multiple
  of the conversion up to the \<open>k\<close>-fold is a double.
\<close>

theorem C6_daily_carbon_accumulation:
  "gpp_gCm2 (sum_hourly_carbon_fluxes K cw f p) =
     gpp_gCm2 f + an_canopy cw * UMOL_TO_MOL K * MOL_C_TO_GRAMS_C K * SEC_2_HLFHR K \<and>
   npp_gCm2 (sum_hourly_carbon_fluxes K cw f p) = gpp_gCm2 (sum_hourly_carbon_fluxes K cw f p) * cue p \<and>
   gpp (sum_hourly_carbon_fluxes K cw f p) =
     gpp_gCm2 (sum_hourly_carbon_fluxes K cw f p) * GRAM_C_2_TONNES_HA K \<and>
   npp (sum_hourly_carbon_fluxes K cw f p) =
     npp_gCm2 (sum_hourly_carbon_fluxes K cw f p) * GRAM_C_2_TONNES_HA K \<and>
   auto_resp (sum_hourly_carbon_fluxes K cw f p) =
     gpp (sum_hourly_carbon_fluxes K cw f p) - npp (sum_hourly_carbon_fluxes K cw f p) \<and>
   apar (sum_hourly_carbon_fluxes K cw f p) = apar f + apar_canopy cw \<and>
   gs_mol_m2_sec (sum_hourly_carbon_fluxes K cw f p) = gs_mol_m2_sec f + gsc_canopy cw \<and>
   gpp_gCm2 (sum_hourly_carbon_fluxes_dbl K cw f p) =
     dbl_add (gpp_gCm2 f)
       (dbl_mul (dbl_mul (dbl_mul (an_canopy cw) (UMOL_TO_MOL K)) (MOL_C_TO_GRAMS_C K)) (SEC_2_HLFHR K)) \<and>
   npp_gCm2 (sum_hourly_carbon_fluxes_dbl K cw f p) =
     dbl_mul (gpp_gCm2 (sum_hourly_carbon_fluxes_dbl K cw f p)) (cue p) \<and>
   gpp (sum_hourly_carbon_fluxes_dbl K cw f p) =
     dbl_mul (gpp_gCm2 (sum_hourly_carbon_fluxes_dbl K cw f p)) (GRAM_C_2_TONNES_HA K) \<and>
   npp (sum_hourly_carbon_fluxes_dbl K cw f p) =
     dbl_mul (npp_gCm2 (sum_hourly_carbon_fluxes_dbl K cw f p)) (GRAM_C_2_TONNES_HA K) \<and>
   auto_resp (sum_hourly_carbon_fluxes_dbl K cw f p) =
     dbl_sub (gpp (sum_hourly_carbon_fluxes_dbl K cw f p)) (npp (sum_hourly_carbon_fluxes_dbl K cw f p)) \<and>
   apar (sum_hourly_carbon_fluxes_dbl K cw f p) = dbl_add (apar f) (apar_canopy cw) \<and>
   gs_mol_m2_sec (sum_hourly_carbon_fluxes_dbl K cw f p) = dbl_add (gs_mol_m2_sec f) (gsc_canopy cw) \<and>
   ((\<forall>cw\<in>set cws. an_canopy cw = 0) \<longrightarrow>
      gpp_gCm2 (accumulate_day_dbl K p cws (zero_carbon_day_fluxes f)) = 0) \<and>
   ((\<forall>cw\<in>set cws. an_canopy cw = a \<or> an_canopy cw = 0) \<longrightarrow>
      gpp_gCm2 (accumulate_day_dbl K p cws (zero_carbon_day_fluxes f)) =
        ((\<lambda>g. dbl_add g (hlfhr_gC_dbl K a)) ^^ length (filter (\<lambda>cw. an_canopy cw = a) cws)) 0) \<and>
   ((\<forall>j\<le>k. fl64 (real j * hlfhr_gC_dbl K a) = real j * hlfhr_gC_dbl K a) \<longrightarrow>
      ((\<lambda>g. dbl_add g (hlfhr_gC_dbl K a)) ^^ k) 0 = real k * hlfhr_gC_dbl K a)"
proof -
  have r: "gpp_gCm2 (sum_hourly_carbon_fluxes K cw f p) =
      gpp_gCm2 f + an_canopy cw * UMOL_TO_MOL K * MOL_C_TO_GRAMS_C K * SEC_2_HLFHR K"
    "npp_gCm2 (sum_hourly_carbon_fluxes K cw f p) = gpp_gCm2 (sum_hourly_carbon_fluxes K cw f p) * cue p"
    "gpp (sum_hourly_carbon_fluxes K cw f p) =
       gpp_gCm2 (sum_hourly_carbon_fluxes K cw f p) * GRAM_C_2_TONNES_HA K"
    "npp (sum_hourly_carbon_fluxes K cw f p) =
       npp_gCm2 (sum_hourly_carbon_fluxes K cw f p) * GRAM_C_2_TONNES_HA K"
    "auto_resp (sum_hourly_carbon_fluxes K cw f p) =
       gpp (sum_hourly_carbon_fluxes K cw f p) - npp (sum_hourly_carbon_fluxes K cw f p)"
    "apar (sum_hourly_carbon_fluxes K cw f p) = apar f + apar_canopy cw"
    "gs_mol_m2_sec (sum_hourly_carbon_fluxes K cw f p) = gs_mol_m2_sec f + gsc_canopy cw"
    by (simp_all add: sum_hourly_carbon_fluxes_def Let_def)
  have d: "gpp_gCm2 (sum_hourly_carbon_fluxes_dbl K cw f p) =
      dbl_add (gpp_gCm2 f)
        (dbl_mul (dbl_mul (dbl_mul (an_canopy cw) (UMOL_TO_MOL K)) (MOL_C_TO_GRAMS_C K)) (SEC_2_HLFHR K))"
    "npp_gCm2 (sum_hourly_carbon_fluxes_dbl K cw f p) =
       dbl_mul (gpp_gCm2 (sum_hourly_carbon_fluxes_dbl K cw f p)) (cue p)"
    "gpp (sum_hourly_carbon_fluxes_dbl K cw f p) =
       dbl_mul (gpp_gCm2 (sum_hourly_carbon_fluxes_dbl K cw f p)) (GRAM_C_2_TONNES_HA K)"
    "npp (sum_hourly_carbon_fluxes_dbl K cw f p) =
       dbl_mul (npp_gCm2 (sum_hourly_carbon_fluxes_dbl K cw f p)) (GRAM_C_2_TONNES_HA K)"
    "auto_resp (sum_hourly_carbon_fluxes_dbl K cw f p) =
       dbl_sub (gpp (sum_hourly_carbon_fluxes_dbl K cw f p)) (npp (sum_hourly_carbon_fluxes_dbl K cw f p))"
    "apar (sum_hourly_carbon_fluxes_dbl K cw f p) = dbl_add (apar f) (apar_canopy cw)"
    "gs_mol_m2_sec (sum_hourly_carbon_fluxes_dbl K cw f p) = dbl_add (gs_mol_m2_sec f) (gsc_canopy cw)"
    by (simp_all add: sum_hourly_carbon_fluxes_dbl_def Let_def)
  have z: "(\<forall>cw\<in>set cws. an_canopy cw = 0) \<longrightarrow>
      gpp_gCm2 (accumulate_day_dbl K p cws (zero_carbon_day_fluxes f)) = 0"
    using accumulate_zero_dbl[of cws K p f] by blast
  have t: "(\<forall>cw\<in>set cws. an_canopy cw = a \<or> an_canopy cw = 0) \<longrightarrow>
      gpp_gCm2 (accumulate_day_dbl K p cws (zero_carbon_day_fluxes f)) =
        ((\<lambda>g. dbl_add g (hlfhr_gC_dbl K a)) ^^ length (filter (\<lambda>cw. an_canopy cw = a) cws)) 0"
    using accumulate_two_valued_dbl[of cws a K p f] by blast
  have e: "(\<forall>j\<le>k. fl64 (real j * hlfhr_gC_dbl K a) = real j * hlfhr_gC_dbl K a) \<longrightarrow>
      ((\<lambda>g. dbl_add g (hlfhr_gC_dbl K a)) ^^ k) 0 = real k * hlfhr_gC_dbl K a"
    using iterate_exact[where k = k and c = "hlfhr_gC_dbl K a"] by blast
  from r d z t e show ?thesis by blast
qed

theorem C6_daily_carbon_accumulation_witness:
  "map an_canopy day_dark = [0, 0, 0] \<and>
   gpp_gCm2 (accumulate_day_dbl K_gday_dbl p0 day_dark (zero_carbon_day_fluxes f0)) = 0 \<and>
   map an_canopy day_bright = [5, 0, 5] \<and>
   gpp_gCm2 (accumulate_day_dbl K_gday_dbl p0 day_bright (zero_carbon_day_fluxes f0)) =
     dbl_add (dbl_add 0 (hlfhr_gC_dbl K_gday_dbl 5)) (hlfhr_gC_dbl K_gday_dbl 5) \<and>
   list_all (\<lambda>j. fl64 (real j * hlfhr_gC_dbl K_gday_dbl 5) = real j * hlfhr_gC_dbl K_gday_dbl 5) [0, 1, 2] \<and>
   dbl_add (dbl_add 0 (hlfhr_gC_dbl K_gday_dbl 5)) (hlfhr_gC_dbl K_gday_dbl 5)
     = 2 * hlfhr_gC_dbl K_gday_dbl 5"
proof -
  let ?c = "hlfhr_gC_dbl K_gday_dbl 5"
  let ?F = "\<lambda>g. dbl_add g (hlfhr_gC_dbl K_gday_dbl 5)"
  have md: "map an_canopy day_dark = [0, 0, 0]" and mb: "map an_canopy day_bright = [5, 0, 5]"
    by (simp_all add: day_dark_def day_bright_def cw0_def)
  have dk: "\<forall>cw\<in>set day_dark. an_canopy cw = 0"
    by (simp add: day_dark_def cw0_def)
  have br: "\<forall>cw\<in>set day_bright. an_canopy cw = 5 \<or> an_canopy cw = 0"
    by (simp add: day_bright_def cw0_def)
  have n: "length (filter (\<lambda>cw. an_canopy cw = 5) day_bright) = 2"
    by (simp add: day_bright_def cw0_def)
  have f2: "(?F ^^ 2) 0 = dbl_add (dbl_add 0 ?c) ?c"
    by (simp add: numeral_2_eq_2)
  have c1: "fl64 ?c = ?c"
    by (simp add: hlfhr_gC_dbl_def dbl_mul_def)
  have c2: "fl64 (2 * ?c) = 2 * ?c"
    by (simp only: fl64_double c1)
  have ex: "fl64 (real j * ?c) = real j * ?c" if "j \<le> 2" for j
  proof -
    from that consider "j = 0" | "j = 1" | "j = 2" by linarith
    then show ?thesis
      using c1 c2 by cases simp_all
  qed
  then have exa: "\<forall>j\<le>2. fl64 (real j * ?c) = real j * ?c" by blast
  have la: "list_all (\<lambda>j. fl64 (real j * ?c) = real j * ?c) [0, 1, 2]"
    using c1 c2 by simp
  note t1 = C6_daily_carbon_accumulation[where K = K_gday_dbl and cw = cw0 and f = f0 and p = p0
      and cws = day_dark and a = 5 and k = 2]
  note t2 = C6_daily_carbon_accumulation[where K = K_gday_dbl and cw = cw0 and f = f0 and p = p0
      and cws = day_bright and a = 5 and k = 2]
  have a: "gpp_gCm2 (accumulate_day_dbl K_gday_dbl p0 day_dark (zero_carbon_day_fluxes f0)) = 0"
    using t1 dk by blast
  have "gpp_gCm2 (accumulate_day_dbl K_gday_dbl p0 day_bright (zero_carbon_day_fluxes f0)) =
      (?F ^^ length (filter (\<lambda>cw. an_canopy cw = 5) day_bright)) 0"
    using t2 br by blast
  then have b: "gpp_gCm2 (accumulate_day_dbl K_gday_dbl p0 day_bright (zero_carbon_day_fluxes f0)) =
      dbl_add (dbl_add 0 ?c) ?c"
    by (simp only: n f2)
  have "(?F ^^ 2) 0 = real 2 * ?c"
    using t2 exa by blast
  then have c: "dbl_add (dbl_add 0 ?c) ?c = 2 * ?c"
    by (simp only: f2 of_nat_numeral)
  from md a mb b la c show ?thesis by blast
qed

text \<open>
  Claim C7. \<open>scale_to_canopy\<close> is a pure sum and mean: canopy assimilation,
  conductance, APAR, transpiration and net radiation are each the sunlit plus the shaded
  value, and canopy omega is their arithmetic mean. On a workspace whose per-leaf arrays
  have two elements, zeroing the per-leaf fluxes and then scaling gives canopy totals
  that are all zero.
\<close>

theorem C7_scale_to_canopy_sum_mean:
  "an_canopy (scale_to_canopy cw) = an_leaf cw ! SUNLIT + an_leaf cw ! SHADED \<and>
   gsc_canopy (scale_to_canopy cw) = gsc_leaf cw ! SUNLIT + gsc_leaf cw ! SHADED \<and>
   apar_canopy (scale_to_canopy cw) = apar_leaf cw ! SUNLIT + apar_leaf cw ! SHADED \<and>
   trans_canopy (scale_to_canopy cw) = trans_leaf cw ! SUNLIT + trans_leaf cw ! SHADED \<and>
   rnet_canopy (scale_to_canopy cw) = rnet_leaf cw ! SUNLIT + rnet_leaf cw ! SHADED \<and>
   omega_canopy (scale_to_canopy cw) = (omega_leaf cw ! SUNLIT + omega_leaf cw ! SHADED) / 2 \<and>
   (leaf_arrays_ok cw \<longrightarrow>
      an_canopy (scale_to_canopy (zero_hourly_fluxes cw)) = 0 \<and>
      gsc_canopy (scale_to_canopy (zero_hourly_fluxes cw)) = 0 \<and>
      apar_canopy (scale_to_canopy (zero_hourly_fluxes cw)) = 0 \<and>
      trans_canopy (scale_to_canopy (zero_hourly_fluxes cw)) = 0 \<and>
      rnet_canopy (scale_to_canopy (zero_hourly_fluxes cw)) = 0 \<and>
      omega_canopy (scale_to_canopy (zero_hourly_fluxes cw)) = 0)"
  by (simp add: scale_to_canopy_def zero_hourly_fluxes_unfold zero_leaf_def leaf_arrays_ok_def
        NUM_LEAVES_def SUNLIT_def SHADED_def)

theorem C7_scale_to_canopy_sum_mean_witness:
  "leaf_arrays_ok cw_prev \<and>
   an_canopy (scale_to_canopy cw_prev) = 14 \<and>
   omega_canopy (scale_to_canopy cw_prev) = 0.4 \<and>
   an_canopy (scale_to_canopy (zero_hourly_fluxes cw_prev)) = 0 \<and>
   gsc_canopy (scale_to_canopy (zero_hourly_fluxes cw_prev)) = 0 \<and>
   apar_canopy (scale_to_canopy (zero_hourly_fluxes cw_prev)) = 0 \<and>
   trans_canopy (scale_to_canopy (zero_hourly_fluxes cw_prev)) = 0 \<and>
   rnet_canopy (scale_to_canopy (zero_hourly_fluxes cw_prev)) = 0 \<and>
   omega_canopy (scale_to_canopy (zero_hourly_fluxes cw_prev)) = 0"
proof -
  have ok: "leaf_arrays_ok cw_prev"
    by (simp add: leaf_arrays_ok_def cw_prev_def NUM_LEAVES_def)
  have v: "an_leaf cw_prev ! SUNLIT + an_leaf cw_prev ! SHADED = 14"
    "(omega_leaf cw_prev ! SUNLIT + omega_leaf cw_prev ! SHADED) / 2 = 0.4"
    by (simp_all add: cw_prev_def SUNLIT_def SHADED_def)
  from C7_scale_to_canopy_sum_mean[of cw_prev] ok v show ?thesis
    by simp
qed

text \<open>
  Claim C8. When the leaf area index is positive, the top-of-canopy leaf nitrogen
  is the total canopy nitrogen (leaf nitrogen content times leaf mass per area times
  LAI, leaf mass per area being carbon fraction over specific leaf area, in grams)
  times kn over 1 - exp (- kn LAI), with kn = 0.3. When the leaf area index is 0 it is
  0, whatever the other parameters.
\<close>

theorem C8_top_of_canopy_leafn:
  "(lai s > 0 \<longrightarrow>
      N0 (calculate_top_of_canopy_leafn K cw p s) =
        (shootnc s * (1 / sla p * cfracts p * KG_AS_G K) * lai s) * 0.3 / (1 - exp (- 0.3 * lai s))) \<and>
   (lai s = 0 \<longrightarrow> N0 (calculate_top_of_canopy_leafn K cw p s) = 0)"
  by (simp add: calculate_top_of_canopy_leafn_def Let_def)

theorem C8_top_of_canopy_leafn_witness:
  "lai s0 > 0 \<and>
   N0 (calculate_top_of_canopy_leafn K_gday cw0 p0 s0) = 2.25 / (1 - exp (- 0.6)) \<and>
   lai s_bare = 0 \<and>
   N0 (calculate_top_of_canopy_leafn K_gday cw0 p0 s_bare) = 0"
proof -
  have a: "lai s0 > 0" and b: "lai s_bare = 0"
    by (simp_all add: s0_def s_bare_def)
  from C8_top_of_canopy_leafn[of s0 K_gday cw0 p0] a
  have "N0 (calculate_top_of_canopy_leafn K_gday cw0 p0 s0) = 2.25 / (1 - exp (- 0.6))"
    by (simp add: s0_def p0_def K_gday_def)
  moreover from C8_top_of_canopy_leafn[of s_bare K_gday cw0 p0] b
  have "N0 (calculate_top_of_canopy_leafn K_gday cw0 p0 s_bare) = 0"
    by simp
  ultimately show ?thesis using a b by simp
qed

text \<open>
  Claim C10. \<open>zero_carbon_day_fluxes\<close> sets the six day totals \<open>gpp_gCm2\<close>,
  \<open>npp_gCm2\<close>, \<open>gpp\<close>, \<open>npp\<close>, \<open>auto_resp\<close> and \<open>apar\<close> to 0 and leaves every other
  field of the flux accumulator as it was: \<open>gs_mol_m2_sec\<close>, \<open>omega\<close> and all the
  fields that the model does not name (the extension of the record). The conductance
  total \<open>gs_mol_m2_sec\<close>, to which \<open>sum_hourly_carbon_fluxes\<close> adds, is therefore not
  reset: after the reset and one accumulation it is its old value plus the canopy
  conductance.
\<close>

theorem C10_zero_carbon_day_fluxes_frame:
  "gpp_gCm2 (zero_carbon_day_fluxes f) = 0 \<and> npp_gCm2 (zero_carbon_day_fluxes f) = 0 \<and>
   gpp (zero_carbon_day_fluxes f) = 0 \<and> npp (zero_carbon_day_fluxes f) = 0 \<and>
   auto_resp (zero_carbon_day_fluxes f) = 0 \<and> apar (zero_carbon_day_fluxes f) = 0 \<and>
   gs_mol_m2_sec (zero_carbon_day_fluxes f) = gs_mol_m2_sec f \<and>
   omega (zero_carbon_day_fluxes f) = omega f \<and>
   fluxes.more (zero_carbon_day_fluxes f) = fluxes.more f \<and>
   gs_mol_m2_sec (sum_hourly_carbon_fluxes K cw (zero_carbon_day_fluxes f) p) =
     gs_mol_m2_sec f + gsc_canopy cw"
  by (simp add: zero_carbon_day_fluxes_def sum_hourly_carbon_fluxes_def Let_def)

section \<open>Isothermal net radiation: the claim\<close>

lemma net_rad_shape:
  "calc_leaf_net_rad K X p s t v sw =
     leaf_abs p * sw -
     (1 - 0.642 * (((calc_sat_water_vapour_press X t - v) / (t + DEG_TO_KELVIN K)) powr (1 / 7)))
       * SIGMA_const K * (t + DEG_TO_KELVIN K) ^ 4 * 0.8 * exp (- 0.8 * lai s)"
  by (simp add: calc_leaf_net_rad_def Let_def)

text \<open>
  Claim C9. With the other arguments fixed, the isothermal net radiation does not
  increase when the vapour pressure deficit increases, and does not decrease when the
  absorbed shortwave radiation increases. Valid inputs are: an absolute air temperature
  above zero, a deficit that does not exceed the saturated vapour pressure at air
  temperature, a leaf absorptance that is not negative, and a Stefan-Boltzmann constant
  that is not negative.
\<close>

theorem C9_net_radiation_monotone:
  "(0 \<le> SIGMA_const K \<and> 0 < t + DEG_TO_KELVIN K \<and> v1 \<le> v2 \<and> v2 \<le> calc_sat_water_vapour_press X t
      \<longrightarrow> calc_leaf_net_rad K X p s t v2 sw \<le> calc_leaf_net_rad K X p s t v1 sw) \<and>
   (0 \<le> leaf_abs p \<and> sw1 \<le> sw2
      \<longrightarrow> calc_leaf_net_rad K X p s t v sw1 \<le> calc_leaf_net_rad K X p s t v sw2)"
proof (intro conjI impI)
  assume h: "0 \<le> SIGMA_const K \<and> 0 < t + DEG_TO_KELVIN K \<and> v1 \<le> v2 \<and> v2 \<le> calc_sat_water_vapour_press X t"
  define Tk where "Tk = t + DEG_TO_KELVIN K"
  define e1 where "e1 = (calc_sat_water_vapour_press X t - v1) / Tk"
  define e2 where "e2 = (calc_sat_water_vapour_press X t - v2) / Tk"
  have Tk: "0 < Tk" using h by (simp add: Tk_def)
  have "0 \<le> e2" using h Tk by (simp add: e2_def)
  moreover have "e2 \<le> e1" using h Tk by (simp add: e1_def e2_def divide_right_mono)
  ultimately have pw: "e2 powr (1 / 7) \<le> e1 powr (1 / 7)"
    by (intro powr_mono2) simp_all
  have nn: "0 \<le> SIGMA_const K * Tk ^ 4 * 0.8 * exp (- 0.8 * lai s)"
    using h Tk by simp
  have "(1 - 0.642 * e1 powr (1 / 7)) * (SIGMA_const K * Tk ^ 4 * 0.8 * exp (- 0.8 * lai s))
        \<le> (1 - 0.642 * e2 powr (1 / 7)) * (SIGMA_const K * Tk ^ 4 * 0.8 * exp (- 0.8 * lai s))"
    using pw nn by (intro mult_right_mono) simp_all
  then show "calc_leaf_net_rad K X p s t v2 sw \<le> calc_leaf_net_rad K X p s t v1 sw"
    by (simp add: net_rad_shape Tk_def e1_def e2_def mult.assoc)
next
  assume "0 \<le> leaf_abs p \<and> sw1 \<le> sw2"
  then have "leaf_abs p * sw1 \<le> leaf_abs p * sw2"
    by (simp add: mult_left_mono)
  then show "calc_leaf_net_rad K X p s t v sw1 \<le> calc_leaf_net_rad K X p s t v sw2"
    by (simp add: net_rad_shape)
qed

theorem C9_net_radiation_monotone_witness:
  "0 \<le> SIGMA_const K_gday \<and> 0 < 20 + DEG_TO_KELVIN K_gday \<and> (1::real) \<le> 2 \<and>
   2 \<le> calc_sat_water_vapour_press X_window 20 \<and>
   calc_leaf_net_rad K_gday X_window p0 s0 20 2 100 \<le> calc_leaf_net_rad K_gday X_window p0 s0 20 1 100 \<and>
   0 \<le> leaf_abs p0 \<and> (100::real) \<le> 200 \<and>
   calc_leaf_net_rad K_gday X_window p0 s0 20 1 100 \<le> calc_leaf_net_rad K_gday X_window p0 s0 20 1 200"
proof -
  have a: "0 \<le> SIGMA_const K_gday \<and> 0 < 20 + DEG_TO_KELVIN K_gday \<and> (1::real) \<le> 2 \<and>
           2 \<le> calc_sat_water_vapour_press X_window 20"
    by (simp add: K_gday_def X_window_def X_stub_def)
  have b: "0 \<le> leaf_abs p0 \<and> (100::real) \<le> 200"
    by (simp add: p0_def)
  from C9_net_radiation_monotone[of K_gday 20 1 2 X_window p0 s0 100 100 200 1] a b
  show ?thesis by blast
qed

section \<open>The daily driver: the claims\<close>

text \<open>
  Claim C1. The daily driver is to count the sunlight half hours apart from all half
  hours: at day end the sunlight-hour counter is the number of half hours with solar
  elevation above 0 and PAR above 20, and the mean decoupling coefficient is the
  accumulated omega over that count; on a day of 48 half hours with the sun up in half
  hours 20 to 30 only and water stress off, the count is 11 and both soil-moisture
  stress factors are 1.

  The code increments \<^verbatim>\<open>sunlight_hrs\<close> on line 123, after either branch, so the
  counter counts every half hour. On that day (scenario \<open>X_window\<close>, in which the
  water balance adds the canopy omega of each half hour, 0.5 with the sun up and 0 with
  the sun down, to the day total) the run returns, 11 of the 48 half hours have the sun
  up, the counter is 48, the day-end omega is 5.5 / 48 and not 5.5 / 11, and both stress
  factors are 1.
\<close>

theorem C1_sunlight_hours_window_day:
  "\<not> isl (canopy K_gday X_window 0 cw0 (c_day 48 C3 False) f0 ma0 m0 p0 s0) \<and>
   length (filter sun_window [0..47]) = 11 \<and>
   fr_sunlight_hrs (projr (canopy K_gday X_window 0 cw0 (c_day 48 C3 False) f0 ma0 m0 p0 s0)) = 48 \<and>
   omega (fr_f (projr (canopy K_gday X_window 0 cw0 (c_day 48 C3 False) f0 ma0 m0 p0 s0))) = 5.5 / 48 \<and>
   wtfac_topsoil (fr_s (projr (canopy K_gday X_window 0 cw0 (c_day 48 C3 False) f0 ma0 m0 p0 s0))) = 1 \<and>
   wtfac_root (fr_s (projr (canopy K_gday X_window 0 cw0 (c_day 48 C3 False) f0 ma0 m0 p0 s0))) = 1"
proof -
  let ?c = "c_day 48 C3 False"
  obtain fr where l: "hour_loop K_gday X_window ma0 p0 0 (doy ma0 ! nat (hour_idx ?c)) 0
      (fr_start X_window ?c) = Inr fr" and om: "omega (fr_f fr) = 5.5"
    using window_day_omega by blast
  from hour_loop_counts[OF l] have n: "fr_sunlight_hrs fr = 48"
    by simp
  from canopy_returns[OF l]
  have r: "\<not> isl (canopy K_gday X_window 0 cw0 ?c f0 ma0 m0 p0 s0)" by simp
  have o: "omega (fr_f (projr (canopy K_gday X_window 0 cw0 ?c f0 ma0 m0 p0 s0))) = 5.5 / 48"
    using l om n by (simp add: canopy_unfold)
  from canopy_projr_counts[OF r] r o sun_window_count show ?thesis
    by simp
qed

theorem C1_sunlight_hours_window_day_witness:
  "fr_sunlight_hrs (projr (canopy K_gday X_window 0 cw0 (c_day 48 C3 False) f0 ma0 m0 p0 s0)) \<noteq> 11 \<and>
   omega (fr_f (projr (canopy K_gday X_window 0 cw0 (c_day 48 C3 False) f0 ma0 m0 p0 s0))) \<noteq> 5.5 / 11"
  using C1_sunlight_hours_window_day by simp

text \<open>
  Claim C2. After canopy scaling in any half hour, every canopy total is to come from
  the two per-leaf values computed in that same half hour, also when the sun is up and a
  leaf is non-photosynthesizing on its first iteration.

  On the code this fails: a leaf that leaves the temperature loop on line 87 in its
  first pass never reaches \<open>solve_leaf_energy_balance\<close>, and nothing resets its net
  radiation, transpiration and omega. In scenario \<open>X_fading\<close> the leaves
  photosynthesize in the first half hour of the day and not in the second. After one
  half hour the canopy totals are assimilation 20, conductance 0.2, transpiration 0.004
  and omega 0.5; after two half hours assimilation and conductance are 0, and
  transpiration and omega are still 0.004 and 0.5, the values of the first half hour.
\<close>

theorem C2_stale_leaf_values_counterexample:
  "\<not> isl (canopy K_gday X_fading 0 cw0 (c_day 1 C3 False) f0 ma0 m0 p0 s0) \<and>
   an_canopy (fr_cw (projr (canopy K_gday X_fading 0 cw0 (c_day 1 C3 False) f0 ma0 m0 p0 s0))) = 20 \<and>
   gsc_canopy (fr_cw (projr (canopy K_gday X_fading 0 cw0 (c_day 1 C3 False) f0 ma0 m0 p0 s0))) = 0.2 \<and>
   trans_canopy (fr_cw (projr (canopy K_gday X_fading 0 cw0 (c_day 1 C3 False) f0 ma0 m0 p0 s0))) = 0.004 \<and>
   omega_canopy (fr_cw (projr (canopy K_gday X_fading 0 cw0 (c_day 1 C3 False) f0 ma0 m0 p0 s0))) = 0.5 \<and>
   \<not> isl (canopy K_gday X_fading 0 cw0 (c_day 2 C3 False) f0 ma0 m0 p0 s0) \<and>
   an_canopy (fr_cw (projr (canopy K_gday X_fading 0 cw0 (c_day 2 C3 False) f0 ma0 m0 p0 s0))) = 0 \<and>
   gsc_canopy (fr_cw (projr (canopy K_gday X_fading 0 cw0 (c_day 2 C3 False) f0 ma0 m0 p0 s0))) = 0 \<and>
   trans_canopy (fr_cw (projr (canopy K_gday X_fading 0 cw0 (c_day 2 C3 False) f0 ma0 m0 p0 s0))) = 0.004 \<and>
   omega_canopy (fr_cw (projr (canopy K_gday X_fading 0 cw0 (c_day 2 C3 False) f0 ma0 m0 p0 s0))) = 0.5"
  using fading_one_half_hour_day fading_two_half_hour_day by simp

text \<open>
  Claim C2, as amended. In a half hour that completes, every canopy total is the sum
  (for omega the mean) of the two per-leaf values that the workspace holds after the
  half hour. With the sun down these per-leaf values are the zeros written in that half
  hour. With the sun up they are what the sunlit solve and then the shaded solve have
  left in the workspace, and a leaf solve that returns has done the following, for a
  workspace with two-element arrays. It has stored the assimilation and conductance of
  its leaf from its last call of the photosynthesis routine. If the leaf is
  non-photosynthesizing on its first pass, the net radiation, transpiration and omega
  of the leaf are left as the solve found them, which is as an earlier half hour left
  them. Otherwise the net radiation of the leaf is the isothermal net radiation of this
  half hour's meteorology and absorbed PAR, and its transpiration and omega are those
  that the Penman solver returned in the last pass that reached the energy balance,
  from that pass's leaf temperature, this net radiation and that pass's conductance.
  The solve changes no per-leaf value of the other leaf and no absorbed PAR. In
  particular, when both leaves are non-photosynthesizing on their first pass (the
  shaded leaf being entered as the sunlit leaf's single photosynthesis call left the
  workspace), the half hour stores assimilation and conductance only (workspace
  \<open>idle_leaves\<close>), and canopy net radiation, transpiration and omega are the sum and
  mean of the per-leaf values that the workspace held when the half hour began.
\<close>

theorem C2_canopy_totals_per_half_hour:
  "(half_hour K X ma p dummy doy_v hod fr = Inr fr' \<longrightarrow>
      an_canopy (fr_cw fr') = an_leaf (fr_cw fr') ! SUNLIT + an_leaf (fr_cw fr') ! SHADED \<and>
      gsc_canopy (fr_cw fr') = gsc_leaf (fr_cw fr') ! SUNLIT + gsc_leaf (fr_cw fr') ! SHADED \<and>
      apar_canopy (fr_cw fr') = apar_leaf (fr_cw fr') ! SUNLIT + apar_leaf (fr_cw fr') ! SHADED \<and>
      trans_canopy (fr_cw fr') = trans_leaf (fr_cw fr') ! SUNLIT + trans_leaf (fr_cw fr') ! SHADED \<and>
      rnet_canopy (fr_cw fr') = rnet_leaf (fr_cw fr') ! SUNLIT + rnet_leaf (fr_cw fr') ! SHADED \<and>
      omega_canopy (fr_cw fr') = (omega_leaf (fr_cw fr') ! SUNLIT + omega_leaf (fr_cw fr') ! SHADED) / 2) \<and>
   (leaf_arrays_ok (fr_cw fr) \<and> \<not> sun_up X ma p doy_v hod fr \<longrightarrow>
      half_hour K X ma p dummy doy_v hod fr = Inr (night_half_hour K X ma p dummy doy_v hod fr) \<and>
      an_leaf (fr_cw (night_half_hour K X ma p dummy doy_v hod fr)) = [0, 0] \<and>
      gsc_leaf (fr_cw (night_half_hour K X ma p dummy doy_v hod fr)) = [0, 0] \<and>
      trans_leaf (fr_cw (night_half_hour K X ma p dummy doy_v hod fr)) = [0, 0] \<and>
      rnet_leaf (fr_cw (night_half_hour K X ma p dummy doy_v hod fr)) = [0, 0] \<and>
      apar_leaf (fr_cw (night_half_hour K X ma p dummy doy_v hod fr)) = [0, 0] \<and>
      omega_leaf (fr_cw (night_half_hour K X ma p dummy doy_v hod fr)) = [0, 0]) \<and>
   (sun_up X ma p doy_v hod fr \<and> half_hour K X ma p dummy doy_v hod fr = Inr fr' \<longrightarrow>
      (\<exists>ex1 cw1 iter1 ex2 cw2.
         leaf_temperature_loop K X (fr_c fr) (fr_f fr) (met_of_hour X ma hod fr) p (fr_s fr)
           (sunlit_entry K X ma p doy_v hod fr) (fr_iter fr) = Inr (ex1, cw1, iter1) \<and>
         leaf_temperature_loop K X (fr_c fr) (fr_f fr) (met_of_hour X ma hod fr) p (fr_s fr)
           (initialise_leaf_surface (cw1\<lparr>leaf_idx := 1\<rparr>) (met_of_hour X ma hod fr)) iter1
             = Inr (ex2, cw2, fr_iter fr') \<and>
         fr_cw fr' = scale_to_canopy (cw2\<lparr>leaf_idx := 2\<rparr>))) \<and>
   (leaf_temperature_loop K X c f m p s cw iter = Inr (ex, cw', iter') \<and>
    leaf_arrays_ok cw \<and> leaf_idx cw < NUM_LEAVES \<longrightarrow>
      (let cwl = (next_pass K X c f m p s ^^ nat (iter' - iter)) cw
       in an_leaf cw' ! leaf_idx cw = fst (photosynthesis_C3 X c cwl m p s) \<and>
          gsc_leaf cw' ! leaf_idx cw = snd (photosynthesis_C3 X c cwl m p s)) \<and>
      (ex = NonPhotosynthesizing \<and> iter' = iter \<longrightarrow>
         rnet_leaf cw' = rnet_leaf cw \<and> trans_leaf cw' = trans_leaf cw \<and>
         omega_leaf cw' = omega_leaf cw) \<and>
      (\<not> (ex = NonPhotosynthesizing \<and> iter' = iter) \<longrightarrow>
         (let cwe = (next_pass K X c f m p s
                      ^^ (nat (iter' - iter) - (if ex = NonPhotosynthesizing then 1 else 0))) cw;
              rn = calc_leaf_net_rad K X p s (tair m) (vpd m) (apar_leaf cw ! leaf_idx cw * PAR_2_SW K);
              pm = penman_leaf_wrapper X m p s (tleaf cwe) rn (snd (photosynthesis_C3 X c cwe m p s))
          in rnet_leaf cw' ! leaf_idx cw = rn \<and>
             trans_leaf cw' ! leaf_idx cw = pm_transpiration pm \<and>
             omega_leaf cw' ! leaf_idx cw = pm_omega pm)) \<and>
      (\<forall>i. i \<noteq> leaf_idx cw \<longrightarrow>
         an_leaf cw' ! i = an_leaf cw ! i \<and> gsc_leaf cw' ! i = gsc_leaf cw ! i \<and>
         rnet_leaf cw' ! i = rnet_leaf cw ! i \<and> trans_leaf cw' ! i = trans_leaf cw ! i \<and>
         omega_leaf cw' ! i = omega_leaf cw ! i) \<and>
      apar_leaf cw' = apar_leaf cw) \<and>
   (sun_up X ma p doy_v hod fr \<and> ps_pathway (fr_c fr) = C3 \<and>
    \<not> photosynthesizing X (fr_c fr) (sunlit_entry K X ma p doy_v hod fr)
        (met_of_hour X ma hod fr) p (fr_s fr) \<and>
    \<not> photosynthesizing X (fr_c fr) (shaded_entry_after_idle K X ma p doy_v hod fr)
        (met_of_hour X ma hod fr) p (fr_s fr) \<longrightarrow>
      half_hour K X ma p dummy doy_v hod fr =
        Inr (hour_tail K X p dummy fr (met_of_hour X ma hod fr) (idle_leaves K X ma p doy_v hod fr)
               (fr_s fr) (fr_iter fr)) \<and>
      rnet_canopy (fr_cw (hour_tail K X p dummy fr (met_of_hour X ma hod fr)
          (idle_leaves K X ma p doy_v hod fr) (fr_s fr) (fr_iter fr)))
        = rnet_leaf (fr_cw fr) ! SUNLIT + rnet_leaf (fr_cw fr) ! SHADED \<and>
      trans_canopy (fr_cw (hour_tail K X p dummy fr (met_of_hour X ma hod fr)
          (idle_leaves K X ma p doy_v hod fr) (fr_s fr) (fr_iter fr)))
        = trans_leaf (fr_cw fr) ! SUNLIT + trans_leaf (fr_cw fr) ! SHADED \<and>
      omega_canopy (fr_cw (hour_tail K X p dummy fr (met_of_hour X ma hod fr)
          (idle_leaves K X ma p doy_v hod fr) (fr_s fr) (fr_iter fr)))
        = (omega_leaf (fr_cw fr) ! SUNLIT + omega_leaf (fr_cw fr) ! SHADED) / 2)"
proof -
  have a: "half_hour K X ma p dummy doy_v hod fr = Inr fr' \<longrightarrow>
      an_canopy (fr_cw fr') = an_leaf (fr_cw fr') ! SUNLIT + an_leaf (fr_cw fr') ! SHADED \<and>
      gsc_canopy (fr_cw fr') = gsc_leaf (fr_cw fr') ! SUNLIT + gsc_leaf (fr_cw fr') ! SHADED \<and>
      apar_canopy (fr_cw fr') = apar_leaf (fr_cw fr') ! SUNLIT + apar_leaf (fr_cw fr') ! SHADED \<and>
      trans_canopy (fr_cw fr') = trans_leaf (fr_cw fr') ! SUNLIT + trans_leaf (fr_cw fr') ! SHADED \<and>
      rnet_canopy (fr_cw fr') = rnet_leaf (fr_cw fr') ! SUNLIT + rnet_leaf (fr_cw fr') ! SHADED \<and>
      omega_canopy (fr_cw fr') = (omega_leaf (fr_cw fr') ! SUNLIT + omega_leaf (fr_cw fr') ! SHADED) / 2"
    using hour_result_scaled[of K X ma p dummy doy_v hod fr fr'] by blast
  have b: "leaf_arrays_ok (fr_cw fr) \<and> \<not> sun_up X ma p doy_v hod fr \<longrightarrow>
      half_hour K X ma p dummy doy_v hod fr = Inr (night_half_hour K X ma p dummy doy_v hod fr) \<and>
      an_leaf (fr_cw (night_half_hour K X ma p dummy doy_v hod fr)) = [0, 0] \<and>
      gsc_leaf (fr_cw (night_half_hour K X ma p dummy doy_v hod fr)) = [0, 0] \<and>
      trans_leaf (fr_cw (night_half_hour K X ma p dummy doy_v hod fr)) = [0, 0] \<and>
      rnet_leaf (fr_cw (night_half_hour K X ma p dummy doy_v hod fr)) = [0, 0] \<and>
      apar_leaf (fr_cw (night_half_hour K X ma p dummy doy_v hod fr)) = [0, 0] \<and>
      omega_leaf (fr_cw (night_half_hour K X ma p dummy doy_v hod fr)) = [0, 0]"
    using night_leaves[of fr K X ma p dummy doy_v hod] half_hour_night[of X ma p doy_v hod fr K dummy]
    by blast
  have c: "sun_up X ma p doy_v hod fr \<and> half_hour K X ma p dummy doy_v hod fr = Inr fr' \<longrightarrow>
      (\<exists>ex1 cw1 iter1 ex2 cw2.
         leaf_temperature_loop K X (fr_c fr) (fr_f fr) (met_of_hour X ma hod fr) p (fr_s fr)
           (sunlit_entry K X ma p doy_v hod fr) (fr_iter fr) = Inr (ex1, cw1, iter1) \<and>
         leaf_temperature_loop K X (fr_c fr) (fr_f fr) (met_of_hour X ma hod fr) p (fr_s fr)
           (initialise_leaf_surface (cw1\<lparr>leaf_idx := 1\<rparr>) (met_of_hour X ma hod fr)) iter1
             = Inr (ex2, cw2, fr_iter fr') \<and>
         fr_cw fr' = scale_to_canopy (cw2\<lparr>leaf_idx := 2\<rparr>))"
    using half_hour_solves[of X ma p doy_v hod fr K dummy fr'] by blast
  have d: "leaf_temperature_loop K X c f m p s cw iter = Inr (ex, cw', iter') \<and>
    leaf_arrays_ok cw \<and> leaf_idx cw < NUM_LEAVES \<longrightarrow>
      (let cwl = (next_pass K X c f m p s ^^ nat (iter' - iter)) cw
       in an_leaf cw' ! leaf_idx cw = fst (photosynthesis_C3 X c cwl m p s) \<and>
          gsc_leaf cw' ! leaf_idx cw = snd (photosynthesis_C3 X c cwl m p s)) \<and>
      (ex = NonPhotosynthesizing \<and> iter' = iter \<longrightarrow>
         rnet_leaf cw' = rnet_leaf cw \<and> trans_leaf cw' = trans_leaf cw \<and>
         omega_leaf cw' = omega_leaf cw) \<and>
      (\<not> (ex = NonPhotosynthesizing \<and> iter' = iter) \<longrightarrow>
         (let cwe = (next_pass K X c f m p s
                      ^^ (nat (iter' - iter) - (if ex = NonPhotosynthesizing then 1 else 0))) cw;
              rn = calc_leaf_net_rad K X p s (tair m) (vpd m) (apar_leaf cw ! leaf_idx cw * PAR_2_SW K);
              pm = penman_leaf_wrapper X m p s (tleaf cwe) rn (snd (photosynthesis_C3 X c cwe m p s))
          in rnet_leaf cw' ! leaf_idx cw = rn \<and>
             trans_leaf cw' ! leaf_idx cw = pm_transpiration pm \<and>
             omega_leaf cw' ! leaf_idx cw = pm_omega pm)) \<and>
      (\<forall>i. i \<noteq> leaf_idx cw \<longrightarrow>
         an_leaf cw' ! i = an_leaf cw ! i \<and> gsc_leaf cw' ! i = gsc_leaf cw ! i \<and>
         rnet_leaf cw' ! i = rnet_leaf cw ! i \<and> trans_leaf cw' ! i = trans_leaf cw ! i \<and>
         omega_leaf cw' ! i = omega_leaf cw ! i) \<and>
      apar_leaf cw' = apar_leaf cw"
  proof
    assume h: "leaf_temperature_loop K X c f m p s cw iter = Inr (ex, cw', iter') \<and>
      leaf_arrays_ok cw \<and> leaf_idx cw < NUM_LEAVES"
    have lp: "rnet_leaf (leaf_pass K X c f m p s cwe) ! leaf_idx cwe =
          calc_leaf_net_rad K X p s (tair m) (vpd m) (apar_leaf cwe ! leaf_idx cwe * PAR_2_SW K) \<and>
        trans_leaf (leaf_pass K X c f m p s cwe) ! leaf_idx cwe =
          pm_transpiration (penman_leaf_wrapper X m p s (tleaf cwe)
            (calc_leaf_net_rad K X p s (tair m) (vpd m) (apar_leaf cwe ! leaf_idx cwe * PAR_2_SW K))
            (snd (photosynthesis_C3 X c cwe m p s))) \<and>
        omega_leaf (leaf_pass K X c f m p s cwe) ! leaf_idx cwe =
          pm_omega (penman_leaf_wrapper X m p s (tleaf cwe)
            (calc_leaf_net_rad K X p s (tair m) (vpd m) (apar_leaf cwe ! leaf_idx cwe * PAR_2_SW K))
            (snd (photosynthesis_C3 X c cwe m p s)))"
      if "leaf_arrays_ok cwe" "leaf_idx cwe < NUM_LEAVES" for cwe
      using that
      by (simp add: leaf_pass_def solve_leaf_energy_balance_def after_photosynthesis_def Let_def
            leaf_arrays_ok_def)
    from h have ix: "leaf_idx cw < NUM_LEAVES" by simp
    from h have lw: "(let cwl = (next_pass K X c f m p s ^^ nat (iter' - iter)) cw
          in an_leaf cw' ! leaf_idx cw = fst (photosynthesis_C3 X c cwl m p s) \<and>
             gsc_leaf cw' ! leaf_idx cw = snd (photosynthesis_C3 X c cwl m p s)) \<and>
         (ex = NonPhotosynthesizing \<and> iter' = iter \<longrightarrow>
            rnet_leaf cw' = rnet_leaf cw \<and> trans_leaf cw' = trans_leaf cw \<and>
            omega_leaf cw' = omega_leaf cw) \<and>
         (\<not> (ex = NonPhotosynthesizing \<and> iter' = iter) \<longrightarrow>
            (let cwe = (next_pass K X c f m p s
                         ^^ (nat (iter' - iter) - (if ex = NonPhotosynthesizing then 1 else 0))) cw
             in leaf_arrays_ok cwe \<and> leaf_idx cwe = leaf_idx cw \<and> apar_leaf cwe = apar_leaf cw \<and>
                rnet_leaf cw' = rnet_leaf (leaf_pass K X c f m p s cwe) \<and>
                trans_leaf cw' = trans_leaf (leaf_pass K X c f m p s cwe) \<and>
                omega_leaf cw' = omega_leaf (leaf_pass K X c f m p s cwe))) \<and>
         (\<forall>i. i \<noteq> leaf_idx cw \<longrightarrow>
            an_leaf cw' ! i = an_leaf cw ! i \<and> gsc_leaf cw' ! i = gsc_leaf cw ! i \<and>
            rnet_leaf cw' ! i = rnet_leaf cw ! i \<and> trans_leaf cw' ! i = trans_leaf cw ! i \<and>
            omega_leaf cw' ! i = omega_leaf cw ! i) \<and>
         apar_leaf cw' = apar_leaf cw"
      by (intro ltl_last_pass) simp_all
    define cwe where "cwe = (next_pass K X c f m p s
        ^^ (nat (iter' - iter) - (if ex = NonPhotosynthesizing then 1 else 0))) cw"
    show "(let cwl = (next_pass K X c f m p s ^^ nat (iter' - iter)) cw
       in an_leaf cw' ! leaf_idx cw = fst (photosynthesis_C3 X c cwl m p s) \<and>
          gsc_leaf cw' ! leaf_idx cw = snd (photosynthesis_C3 X c cwl m p s)) \<and>
      (ex = NonPhotosynthesizing \<and> iter' = iter \<longrightarrow>
         rnet_leaf cw' = rnet_leaf cw \<and> trans_leaf cw' = trans_leaf cw \<and>
         omega_leaf cw' = omega_leaf cw) \<and>
      (\<not> (ex = NonPhotosynthesizing \<and> iter' = iter) \<longrightarrow>
         (let cwe = (next_pass K X c f m p s
                      ^^ (nat (iter' - iter) - (if ex = NonPhotosynthesizing then 1 else 0))) cw;
              rn = calc_leaf_net_rad K X p s (tair m) (vpd m) (apar_leaf cw ! leaf_idx cw * PAR_2_SW K);
              pm = penman_leaf_wrapper X m p s (tleaf cwe) rn (snd (photosynthesis_C3 X c cwe m p s))
          in rnet_leaf cw' ! leaf_idx cw = rn \<and>
             trans_leaf cw' ! leaf_idx cw = pm_transpiration pm \<and>
             omega_leaf cw' ! leaf_idx cw = pm_omega pm)) \<and>
      (\<forall>i. i \<noteq> leaf_idx cw \<longrightarrow>
         an_leaf cw' ! i = an_leaf cw ! i \<and> gsc_leaf cw' ! i = gsc_leaf cw ! i \<and>
         rnet_leaf cw' ! i = rnet_leaf cw ! i \<and> trans_leaf cw' ! i = trans_leaf cw ! i \<and>
         omega_leaf cw' ! i = omega_leaf cw ! i) \<and>
      apar_leaf cw' = apar_leaf cw"
    proof (cases "ex = NonPhotosynthesizing \<and> iter' = iter")
      case True
      with lw show ?thesis unfolding Let_def by blast
    next
      case False
      with lw have e: "leaf_arrays_ok cwe" "leaf_idx cwe = leaf_idx cw" "apar_leaf cwe = apar_leaf cw"
        "rnet_leaf cw' = rnet_leaf (leaf_pass K X c f m p s cwe)"
        "trans_leaf cw' = trans_leaf (leaf_pass K X c f m p s cwe)"
        "omega_leaf cw' = omega_leaf (leaf_pass K X c f m p s cwe)"
        unfolding Let_def cwe_def by blast+
      from lp[of cwe] e ix have v:
        "rnet_leaf cw' ! leaf_idx cw =
          calc_leaf_net_rad K X p s (tair m) (vpd m) (apar_leaf cw ! leaf_idx cw * PAR_2_SW K)"
        "trans_leaf cw' ! leaf_idx cw =
          pm_transpiration (penman_leaf_wrapper X m p s (tleaf cwe)
            (calc_leaf_net_rad K X p s (tair m) (vpd m) (apar_leaf cw ! leaf_idx cw * PAR_2_SW K))
            (snd (photosynthesis_C3 X c cwe m p s)))"
        "omega_leaf cw' ! leaf_idx cw =
          pm_omega (penman_leaf_wrapper X m p s (tleaf cwe)
            (calc_leaf_net_rad K X p s (tair m) (vpd m) (apar_leaf cw ! leaf_idx cw * PAR_2_SW K))
            (snd (photosynthesis_C3 X c cwe m p s)))"
        by simp_all
      from lw v False show ?thesis unfolding Let_def cwe_def by blast
    qed
  qed
  have e: "sun_up X ma p doy_v hod fr \<and> ps_pathway (fr_c fr) = C3 \<and>
    \<not> photosynthesizing X (fr_c fr) (sunlit_entry K X ma p doy_v hod fr)
        (met_of_hour X ma hod fr) p (fr_s fr) \<and>
    \<not> photosynthesizing X (fr_c fr) (shaded_entry_after_idle K X ma p doy_v hod fr)
        (met_of_hour X ma hod fr) p (fr_s fr) \<longrightarrow>
      half_hour K X ma p dummy doy_v hod fr =
        Inr (hour_tail K X p dummy fr (met_of_hour X ma hod fr) (idle_leaves K X ma p doy_v hod fr)
               (fr_s fr) (fr_iter fr)) \<and>
      rnet_canopy (fr_cw (hour_tail K X p dummy fr (met_of_hour X ma hod fr)
          (idle_leaves K X ma p doy_v hod fr) (fr_s fr) (fr_iter fr)))
        = rnet_leaf (fr_cw fr) ! SUNLIT + rnet_leaf (fr_cw fr) ! SHADED \<and>
      trans_canopy (fr_cw (hour_tail K X p dummy fr (met_of_hour X ma hod fr)
          (idle_leaves K X ma p doy_v hod fr) (fr_s fr) (fr_iter fr)))
        = trans_leaf (fr_cw fr) ! SUNLIT + trans_leaf (fr_cw fr) ! SHADED \<and>
      omega_canopy (fr_cw (hour_tail K X p dummy fr (met_of_hour X ma hod fr)
          (idle_leaves K X ma p doy_v hod fr) (fr_s fr) (fr_iter fr)))
        = (omega_leaf (fr_cw fr) ! SUNLIT + omega_leaf (fr_cw fr) ! SHADED) / 2"
    using half_hour_both_idle[of X ma p doy_v hod fr K dummy]
    by (simp add: scale_to_canopy_def)
  from a b c d e show ?thesis by blast
qed

theorem C2_canopy_totals_per_half_hour_witness:
  "sun_up X_fading ma0 p0 1 25 fr_prev \<and> ps_pathway (fr_c fr_prev) = C3 \<and>
   \<not> photosynthesizing X_fading (fr_c fr_prev) (sunlit_entry K_gday X_fading ma0 p0 1 25 fr_prev)
       (met_of_hour X_fading ma0 25 fr_prev) p0 (fr_s fr_prev) \<and>
   \<not> photosynthesizing X_fading (fr_c fr_prev) (shaded_entry_after_idle K_gday X_fading ma0 p0 1 25 fr_prev)
       (met_of_hour X_fading ma0 25 fr_prev) p0 (fr_s fr_prev) \<and>
   half_hour K_gday X_fading ma0 p0 0 1 25 fr_prev =
     Inr (hour_tail K_gday X_fading p0 0 fr_prev (met_of_hour X_fading ma0 25 fr_prev)
            (idle_leaves K_gday X_fading ma0 p0 1 25 fr_prev) (fr_s fr_prev) (fr_iter fr_prev)) \<and>
   rnet_canopy (fr_cw (hour_tail K_gday X_fading p0 0 fr_prev (met_of_hour X_fading ma0 25 fr_prev)
            (idle_leaves K_gday X_fading ma0 p0 1 25 fr_prev) (fr_s fr_prev) (fr_iter fr_prev))) = 400 \<and>
   trans_canopy (fr_cw (hour_tail K_gday X_fading p0 0 fr_prev (met_of_hour X_fading ma0 25 fr_prev)
            (idle_leaves K_gday X_fading ma0 p0 1 25 fr_prev) (fr_s fr_prev) (fr_iter fr_prev))) = 0.003 \<and>
   omega_canopy (fr_cw (hour_tail K_gday X_fading p0 0 fr_prev (met_of_hour X_fading ma0 25 fr_prev)
            (idle_leaves K_gday X_fading ma0 p0 1 25 fr_prev) (fr_s fr_prev) (fr_iter fr_prev))) = 0.4 \<and>
   (\<exists>ex1 cw1 iter1 ex2 cw2.
      leaf_temperature_loop K_gday X_fading (fr_c fr_prev) (fr_f fr_prev) (met_of_hour X_fading ma0 25 fr_prev)
        p0 (fr_s fr_prev) (sunlit_entry K_gday X_fading ma0 p0 1 25 fr_prev) (fr_iter fr_prev)
          = Inr (ex1, cw1, iter1) \<and>
      leaf_temperature_loop K_gday X_fading (fr_c fr_prev) (fr_f fr_prev) (met_of_hour X_fading ma0 25 fr_prev)
        p0 (fr_s fr_prev)
        (initialise_leaf_surface (cw1\<lparr>leaf_idx := 1\<rparr>) (met_of_hour X_fading ma0 25 fr_prev)) iter1
          = Inr (ex2, cw2, fr_iter (hour_tail K_gday X_fading p0 0 fr_prev (met_of_hour X_fading ma0 25 fr_prev)
                   (idle_leaves K_gday X_fading ma0 p0 1 25 fr_prev) (fr_s fr_prev) (fr_iter fr_prev))) \<and>
      fr_cw (hour_tail K_gday X_fading p0 0 fr_prev (met_of_hour X_fading ma0 25 fr_prev)
               (idle_leaves K_gday X_fading ma0 p0 1 25 fr_prev) (fr_s fr_prev) (fr_iter fr_prev))
        = scale_to_canopy (cw2\<lparr>leaf_idx := 2\<rparr>)) \<and>
   leaf_arrays_ok (fr_cw fr_prev) \<and> \<not> sun_up X_polar_night ma0 p0 1 25 fr_prev \<and>
   half_hour K_gday X_polar_night ma0 p0 0 1 25 fr_prev =
     Inr (night_half_hour K_gday X_polar_night ma0 p0 0 1 25 fr_prev) \<and>
   trans_leaf (fr_cw (night_half_hour K_gday X_polar_night ma0 p0 0 1 25 fr_prev)) = [0, 0] \<and>
   trans_canopy (fr_cw (night_half_hour K_gday X_polar_night ma0 p0 0 1 25 fr_prev)) =
     trans_leaf (fr_cw (night_half_hour K_gday X_polar_night ma0 p0 0 1 25 fr_prev)) ! SUNLIT +
     trans_leaf (fr_cw (night_half_hour K_gday X_polar_night ma0 p0 0 1 25 fr_prev)) ! SHADED \<and>
   leaf_arrays_ok cw_leaf \<and> leaf_idx cw_leaf < NUM_LEAVES \<and>
   leaf_temperature_loop K_gday X_fading (fr_c fr_prev) f0 m_noon p0 s0 cw_leaf 0 =
     Inr (NonPhotosynthesizing, after_photosynthesis X_fading (fr_c fr_prev) cw_leaf m_noon p0 s0, 0) \<and>
   an_leaf (after_photosynthesis X_fading (fr_c fr_prev) cw_leaf m_noon p0 s0) ! leaf_idx cw_leaf = 0 \<and>
   rnet_leaf (after_photosynthesis X_fading (fr_c fr_prev) cw_leaf m_noon p0 s0) = rnet_leaf cw_leaf \<and>
   trans_leaf (after_photosynthesis X_fading (fr_c fr_prev) cw_leaf m_noon p0 s0) = trans_leaf cw_leaf \<and>
   omega_leaf (after_photosynthesis X_fading (fr_c fr_prev) cw_leaf m_noon p0 s0) = omega_leaf cw_leaf \<and>
   leaf_temperature_loop K_gday X_slow (c_day 48 C3 False) f0 m_noon p0 s0 cw_leaf 0 =
     Inr (Converged,
          leaf_pass K_gday X_slow (c_day 48 C3 False) f0 m_noon p0 s0
            ((next_pass K_gday X_slow (c_day 48 C3 False) f0 m_noon p0 s0 ^^ 30) cw_leaf), 30) \<and>
   an_leaf (leaf_pass K_gday X_slow (c_day 48 C3 False) f0 m_noon p0 s0
            ((next_pass K_gday X_slow (c_day 48 C3 False) f0 m_noon p0 s0 ^^ 30) cw_leaf)) ! leaf_idx cw_leaf
     = 10 \<and>
   rnet_leaf (leaf_pass K_gday X_slow (c_day 48 C3 False) f0 m_noon p0 s0
            ((next_pass K_gday X_slow (c_day 48 C3 False) f0 m_noon p0 s0 ^^ 30) cw_leaf)) ! leaf_idx cw_leaf =
     calc_leaf_net_rad K_gday X_slow p0 s0 (tair m_noon) (vpd m_noon)
       (apar_leaf cw_leaf ! leaf_idx cw_leaf * PAR_2_SW K_gday) \<and>
   trans_leaf (leaf_pass K_gday X_slow (c_day 48 C3 False) f0 m_noon p0 s0
            ((next_pass K_gday X_slow (c_day 48 C3 False) f0 m_noon p0 s0 ^^ 30) cw_leaf)) ! leaf_idx cw_leaf
     = 0.002 \<and>
   omega_leaf (leaf_pass K_gday X_slow (c_day 48 C3 False) f0 m_noon p0 s0
            ((next_pass K_gday X_slow (c_day 48 C3 False) f0 m_noon p0 s0 ^^ 30) cw_leaf)) ! leaf_idx cw_leaf
     = 0.5 \<and>
   trans_leaf (leaf_pass K_gday X_slow (c_day 48 C3 False) f0 m_noon p0 s0
            ((next_pass K_gday X_slow (c_day 48 C3 False) f0 m_noon p0 s0 ^^ 30) cw_leaf)) ! 1
     = trans_leaf cw_leaf ! 1"
proof -
  let ?ht = "hour_tail K_gday X_fading p0 0 fr_prev (met_of_hour X_fading ma0 25 fr_prev)
            (idle_leaves K_gday X_fading ma0 p0 1 25 fr_prev) (fr_s fr_prev) (fr_iter fr_prev)"
  let ?cwi = "after_photosynthesis X_fading (fr_c fr_prev) cw_leaf m_noon p0 s0"
  let ?cwc = "leaf_pass K_gday X_slow (c_day 48 C3 False) f0 m_noon p0 s0
            ((next_pass K_gday X_slow (c_day 48 C3 False) f0 m_noon p0 s0 ^^ 30) cw_leaf)"
  have ok: "leaf_arrays_ok (fr_cw fr_prev)"
    by (simp add: fr_prev_def cw_prev_def leaf_arrays_ok_def NUM_LEAVES_def)
  have c: "fr_c fr_prev = (c_day 48 C3 False)\<lparr>hour_idx := 25\<rparr>" "fr_iter fr_prev = 0"
    by (simp_all add: fr_prev_def)
  have c3: "ps_pathway (fr_c fr_prev) = C3" by (simp add: c)
  have ps: "ps_first_only (fr_c fr_prev) = (0, 0)"
    by (simp add: c ps_first_only_def)
  have su: "sun_up X_fading ma0 p0 1 25 fr_prev" and nsu: "\<not> sun_up X_polar_night ma0 p0 1 25 fr_prev"
    by (simp_all add: X_fading_def X_polar_night_def sun_always_def sun_never_def)
  have npa: "\<not> photosynthesizing X_fading (fr_c fr_prev) (sunlit_entry K_gday X_fading ma0 p0 1 25 fr_prev)
       (met_of_hour X_fading ma0 25 fr_prev) p0 (fr_s fr_prev)"
    using ok ps
    by (simp add: X_fading_def stub_photosynthesizing sunlit_entry_def stub_sunlit_wk)
  have npb: "\<not> photosynthesizing X_fading (fr_c fr_prev) (shaded_entry_after_idle K_gday X_fading ma0 p0 1 25 fr_prev)
       (met_of_hour X_fading ma0 25 fr_prev) p0 (fr_s fr_prev)"
    using ok ps
    by (simp add: X_fading_def stub_photosynthesizing shaded_entry_after_idle_def sunlit_entry_def
          stub_sunlit_wk)
  have old: "rnet_leaf (fr_cw fr_prev) ! SUNLIT + rnet_leaf (fr_cw fr_prev) ! SHADED = 400"
    "trans_leaf (fr_cw fr_prev) ! SUNLIT + trans_leaf (fr_cw fr_prev) ! SHADED = 0.003"
    "(omega_leaf (fr_cw fr_prev) ! SUNLIT + omega_leaf (fr_cw fr_prev) ! SHADED) / 2 = 0.4"
    by (simp_all add: fr_prev_def cw_prev_def SUNLIT_def SHADED_def)
  have lf: "leaf_arrays_ok cw_leaf" "leaf_idx cw_leaf < NUM_LEAVES"
    by (simp_all add: NUM_LEAVES_def)
  have np1: "\<not> photosynthesizing X_fading (fr_c fr_prev) cw_leaf m_noon p0 s0"
    using stub_photosynthesizing[of cw_leaf sun_always ps_first_only "settle_after 0" "fr_c fr_prev" m_noon p0 s0]
    by (simp add: X_fading_def ps)
  have idle: "leaf_temperature_loop K_gday X_fading (fr_c fr_prev) f0 m_noon p0 s0 cw_leaf 0 =
     Inr (NonPhotosynthesizing, ?cwi, 0)"
    using np1 by (subst ltl_unfold) (simp add: c)
  have conv: "leaf_temperature_loop K_gday X_slow (c_day 48 C3 False) f0 m_noon p0 s0 cw_leaf 0 =
     Inr (Converged, ?cwc, 30)"
    using stub_settle_converges[of "c_day 48 C3 False" cw_leaf m_noon ps_steady 0 30 sun_always f0 p0 s0,
        folded X_slow_def]
    by (simp add: ps_steady_def itermax_def)
  have stub: "pm_transpiration (penman_leaf_wrapper X_slow m p s t rn g) = g / 50"
    "pm_omega (penman_leaf_wrapper X_slow m p s t rn g) = 0.5"
    "photosynthesis_C3 X_slow cc cw m p s = (10, 0.1)"
    "photosynthesis_C3 X_fading (fr_c fr_prev) cw m p s = (0, 0)"
    for m p s t rn g cc cw
    by (simp_all add: X_slow_def X_fading_def X_stub_def ps_steady_def ps)
  note t1 = C2_canopy_totals_per_half_hour[where K = K_gday and X = X_fading and ma = ma0 and p = p0
      and dummy = 0 and doy_v = 1 and hod = 25 and fr = fr_prev and fr' = ?ht
      and c = "fr_c fr_prev" and f = f0 and m = m_noon and s = s0 and cw = cw_leaf and iter = 0
      and ex = NonPhotosynthesizing and cw' = ?cwi and iter' = 0]
  note t2 = C2_canopy_totals_per_half_hour[where K = K_gday and X = X_polar_night and ma = ma0 and p = p0
      and dummy = 0 and doy_v = 1 and hod = 25 and fr = fr_prev
      and fr' = "night_half_hour K_gday X_polar_night ma0 p0 0 1 25 fr_prev"]
  note t3 = C2_canopy_totals_per_half_hour[where K = K_gday and X = X_slow and p = p0
      and c = "c_day 48 C3 False" and f = f0 and m = m_noon and s = s0 and cw = cw_leaf and iter = 0
      and ex = Converged and cw' = ?cwc and iter' = 30]
  have a: "half_hour K_gday X_fading ma0 p0 0 1 25 fr_prev = Inr ?ht"
    using t1 su c3 npa npb by blast
  have a2: "rnet_canopy (fr_cw ?ht) = 400" "trans_canopy (fr_cw ?ht) = 0.003" "omega_canopy (fr_cw ?ht) = 0.4"
    using t1 su c3 npa npb old by simp_all
  have a3: "\<exists>ex1 cw1 iter1 ex2 cw2.
      leaf_temperature_loop K_gday X_fading (fr_c fr_prev) (fr_f fr_prev) (met_of_hour X_fading ma0 25 fr_prev)
        p0 (fr_s fr_prev) (sunlit_entry K_gday X_fading ma0 p0 1 25 fr_prev) (fr_iter fr_prev)
          = Inr (ex1, cw1, iter1) \<and>
      leaf_temperature_loop K_gday X_fading (fr_c fr_prev) (fr_f fr_prev) (met_of_hour X_fading ma0 25 fr_prev)
        p0 (fr_s fr_prev)
        (initialise_leaf_surface (cw1\<lparr>leaf_idx := 1\<rparr>) (met_of_hour X_fading ma0 25 fr_prev)) iter1
          = Inr (ex2, cw2, fr_iter ?ht) \<and>
      fr_cw ?ht = scale_to_canopy (cw2\<lparr>leaf_idx := 2\<rparr>)"
    using t1 su a by blast
  have b: "half_hour K_gday X_polar_night ma0 p0 0 1 25 fr_prev =
     Inr (night_half_hour K_gday X_polar_night ma0 p0 0 1 25 fr_prev)"
    "trans_leaf (fr_cw (night_half_hour K_gday X_polar_night ma0 p0 0 1 25 fr_prev)) = [0, 0]"
    using t2 ok nsu by blast+
  have b2: "trans_canopy (fr_cw (night_half_hour K_gday X_polar_night ma0 p0 0 1 25 fr_prev)) =
     trans_leaf (fr_cw (night_half_hour K_gday X_polar_night ma0 p0 0 1 25 fr_prev)) ! SUNLIT +
     trans_leaf (fr_cw (night_half_hour K_gday X_polar_night ma0 p0 0 1 25 fr_prev)) ! SHADED"
    using t2 b(1) by blast
  have d: "an_leaf ?cwi ! leaf_idx cw_leaf = 0" "rnet_leaf ?cwi = rnet_leaf cw_leaf"
    "trans_leaf ?cwi = trans_leaf cw_leaf" "omega_leaf ?cwi = omega_leaf cw_leaf"
    using t1 idle lf by (simp_all add: Let_def stub)
  have e: "an_leaf ?cwc ! leaf_idx cw_leaf = 10"
    "rnet_leaf ?cwc ! leaf_idx cw_leaf =
       calc_leaf_net_rad K_gday X_slow p0 s0 (tair m_noon) (vpd m_noon)
         (apar_leaf cw_leaf ! leaf_idx cw_leaf * PAR_2_SW K_gday)"
    "trans_leaf ?cwc ! leaf_idx cw_leaf = 0.002" "omega_leaf ?cwc ! leaf_idx cw_leaf = 0.5"
    "trans_leaf ?cwc ! 1 = trans_leaf cw_leaf ! 1"
    using t3 conv lf by (simp_all add: Let_def stub)
  from su c3 npa npb a a2 a3 ok nsu b b2 lf idle d conv e show ?thesis by blast
qed

text \<open>
  Claim C3. For each leaf class the temperature iteration is to end in the Converged
  state as soon as candidate and current leaf temperature differ by less than 0.02
  (which, with assimilation above the threshold and a difference that shrinks at each
  iteration, is to happen within the ceiling), and to end in the Failed state at exactly
  the ceiling of 100 if the difference never falls below the tolerance.

  On the code this fails: the test of the counter against the ceiling (line 90) comes
  before the test of the tolerance (line 93). In scenario \<open>X_contract\<close>, entered with
  the counter at 0, assimilation stays at 10 and the difference shrinks by one per cent
  at each pass; it is at least 0.02 in the first 100 passes and below 0.02 in the pass
  after them, where the counter stands at 100: the loop ends in the Failed state.
\<close>

theorem C3_late_convergence_counterexample:
  "unconverged_passes K_gday X_contract (c_day 48 C3 False) f0 m_noon p0 s0 cw_leaf 100 \<and>
   photosynthesizing X_contract (c_day 48 C3 False)
     ((next_pass K_gday X_contract (c_day 48 C3 False) f0 m_noon p0 s0 ^^ 100) cw_leaf) m_noon p0 s0 \<and>
   within_tolerance (leaf_pass K_gday X_contract (c_day 48 C3 False) f0 m_noon p0 s0
     ((next_pass K_gday X_contract (c_day 48 C3 False) f0 m_noon p0 s0 ^^ 100) cw_leaf)) \<and>
   leaf_temperature_loop K_gday X_contract (c_day 48 C3 False) f0 m_noon p0 s0 cw_leaf 0
     = Inl (No_convergence 100)"
  using contract_run_facts contract_run_fails by blast

text \<open>
  Claim C3, as amended. Let the first \<open>k\<close> passes of a leaf solve photosynthesize and
  miss the tolerance, and let the pass after them photosynthesize, with the C3 pathway.
  If that pass is within the tolerance while the counter, \<open>iter + k\<close>, is still below
  100, the solve ends Converged there, with the counter at \<open>iter + k\<close>. If the counter
  is 100 at that pass, the solve ends Failed, whether or not the pass is within the
  tolerance. A solve entered with the counter at most 100 whose passes never come
  within the tolerance ends Failed. Whenever a solve entered with the counter at most
  100 fails, the counter is exactly 100, and whenever it returns, the counter has not
  decreased and is at most 100.
\<close>

theorem C3_leaf_temperature_iteration:
  "(ps_pathway c = C3 \<and> unconverged_passes K X c f m p s cw k \<and>
    photosynthesizing X c ((next_pass K X c f m p s ^^ k) cw) m p s \<longrightarrow>
      (within_tolerance (leaf_pass K X c f m p s ((next_pass K X c f m p s ^^ k) cw)) \<and>
       iter + int k < 100 \<longrightarrow>
         leaf_temperature_loop K X c f m p s cw iter =
           Inr (Converged, leaf_pass K X c f m p s ((next_pass K X c f m p s ^^ k) cw), iter + int k)) \<and>
      (iter + int k = 100 \<longrightarrow>
         leaf_temperature_loop K X c f m p s cw iter = Inl (No_convergence 100))) \<and>
   (ps_pathway c = C3 \<and> iter \<le> 100 \<and> (\<forall>j. unconverged_passes K X c f m p s cw j) \<longrightarrow>
      leaf_temperature_loop K X c f m p s cw iter = Inl (No_convergence 100)) \<and>
   (iter \<le> 100 \<and> leaf_temperature_loop K X c f m p s cw iter = Inl (No_convergence n) \<longrightarrow> n = 100) \<and>
   (iter \<le> 100 \<and> leaf_temperature_loop K X c f m p s cw iter = Inr (ex, cw', iter') \<longrightarrow>
      iter \<le> iter' \<and> iter' \<le> 100)"
proof -
  have a: "ps_pathway c = C3 \<and> unconverged_passes K X c f m p s cw k \<and>
    photosynthesizing X c ((next_pass K X c f m p s ^^ k) cw) m p s \<longrightarrow>
      (within_tolerance (leaf_pass K X c f m p s ((next_pass K X c f m p s ^^ k) cw)) \<and>
       iter + int k < 100 \<longrightarrow>
         leaf_temperature_loop K X c f m p s cw iter =
           Inr (Converged, leaf_pass K X c f m p s ((next_pass K X c f m p s ^^ k) cw), iter + int k)) \<and>
      (iter + int k = 100 \<longrightarrow>
         leaf_temperature_loop K X c f m p s cw iter = Inl (No_convergence 100))"
    using ltl_converges[of c K X f m p s cw k iter] ltl_fails[of c K X f m p s cw k iter]
    by (simp add: itermax_def)
  have b: "ps_pathway c = C3 \<and> iter \<le> 100 \<and> (\<forall>j. unconverged_passes K X c f m p s cw j) \<longrightarrow>
      leaf_temperature_loop K X c f m p s cw iter = Inl (No_convergence 100)"
    using ltl_never_converging[of c iter K X f m p s cw] by (simp add: itermax_def)
  have c: "iter \<le> 100 \<and> leaf_temperature_loop K X c f m p s cw iter = Inl (No_convergence n) \<longrightarrow> n = 100"
    using ltl_failure[of K X c f m p s cw iter n] by (simp add: itermax_def)
  have d: "iter \<le> 100 \<and> leaf_temperature_loop K X c f m p s cw iter = Inr (ex, cw', iter') \<longrightarrow>
      iter \<le> iter' \<and> iter' \<le> 100"
    using ltl_result[of K X c f m p s cw iter ex cw' iter'] by (simp add: itermax_def)
  from a b c d show ?thesis by blast
qed


theorem C3_leaf_temperature_iteration_witness:
  "unconverged_passes K_gday X_slow (c_day 48 C3 False) f0 m_noon p0 s0 cw_leaf 30 \<and>
   leaf_temperature_loop K_gday X_slow (c_day 48 C3 False) f0 m_noon p0 s0 cw_leaf 0 =
     Inr (Converged,
          leaf_pass K_gday X_slow (c_day 48 C3 False) f0 m_noon p0 s0
            ((next_pass K_gday X_slow (c_day 48 C3 False) f0 m_noon p0 s0 ^^ 30) cw_leaf), 30) \<and>
   unconverged_passes K_gday X_contract (c_day 48 C3 False) f0 m_noon p0 s0 cw_leaf 100 \<and>
   leaf_temperature_loop K_gday X_contract (c_day 48 C3 False) f0 m_noon p0 s0 cw_leaf 0 =
     Inl (No_convergence 100) \<and>
   leaf_temperature_loop K_gday X_drift (c_day 48 C3 False) f0 m_noon p0 s0 cw_leaf 40 =
     Inl (No_convergence 100)"
proof -
  let ?c = "c_day 48 C3 False"
  have pc: "ps_pathway ?c = C3" by simp
  have lf: "leaf_arrays_ok cw_leaf" "leaf_idx cw_leaf < 2" "tleaf cw_leaf = tair m_noon"
    "fst (ps_steady ?c) > 0.0001"
    by (simp_all add: ps_steady_def)
  have u30: "unconverged_passes K_gday X_slow ?c f0 m_noon p0 s0 cw_leaf 30"
    using stub_unconverged_settle[where cw = cw_leaf and m = m_noon and ps = ps_steady and c = ?c
        and k = 30 and n = 30 and sun = sun_always and f = f0 and p = p0 and s = s0,
        folded X_slow_def] lf
    by simp
  have fin: "photosynthesizing X_slow ?c
           ((next_pass K_gday X_slow ?c f0 m_noon p0 s0 ^^ 30) cw_leaf) m_noon p0 s0 \<and>
         within_tolerance (leaf_pass K_gday X_slow ?c f0 m_noon p0 s0
           ((next_pass K_gday X_slow ?c f0 m_noon p0 s0 ^^ 30) cw_leaf))"
    using stub_settle_final_pass[where cw = cw_leaf and m = m_noon and ps = ps_steady and c = ?c
        and n = 30 and sun = sun_always and f = f0 and p = p0 and s = s0,
        folded X_slow_def] lf
    by blast
  have ud: "\<forall>j. unconverged_passes K_gday X_drift ?c f0 m_noon p0 s0 cw_leaf j"
    unfolding X_drift_def
    by (intro allI drift_unconverged) (simp_all add: ps_steady_def)
  have n30: "(0::int) + int 30 < 100" and n100: "(0::int) + int 100 = 100" and n40: "(40::int) \<le> 100"
    by simp_all
  note t1 = C3_leaf_temperature_iteration[where c = ?c and K = K_gday and X = X_slow and f = f0
      and m = m_noon and p = p0 and s = s0 and cw = cw_leaf and k = 30 and iter = 0]
  note t2 = C3_leaf_temperature_iteration[where c = ?c and K = K_gday and X = X_contract and f = f0
      and m = m_noon and p = p0 and s = s0 and cw = cw_leaf and k = 100 and iter = 0]
  note t3 = C3_leaf_temperature_iteration[where c = ?c and K = K_gday and X = X_drift and f = f0
      and m = m_noon and p = p0 and s = s0 and cw = cw_leaf and iter = 40]
  have "leaf_temperature_loop K_gday X_slow ?c f0 m_noon p0 s0 cw_leaf 0 =
     Inr (Converged,
          leaf_pass K_gday X_slow ?c f0 m_noon p0 s0
            ((next_pass K_gday X_slow ?c f0 m_noon p0 s0 ^^ 30) cw_leaf), 0 + int 30)"
    using t1 pc u30 fin n30 by blast
  then have a: "leaf_temperature_loop K_gday X_slow ?c f0 m_noon p0 s0 cw_leaf 0 =
     Inr (Converged,
          leaf_pass K_gday X_slow ?c f0 m_noon p0 s0
            ((next_pass K_gday X_slow ?c f0 m_noon p0 s0 ^^ 30) cw_leaf), 30)"
    by (simp only: add_0 of_nat_numeral)
  have b: "leaf_temperature_loop K_gday X_contract ?c f0 m_noon p0 s0 cw_leaf 0 = Inl (No_convergence 100)"
    using t2 pc contract_run_facts n100 by blast
  have d: "leaf_temperature_loop K_gday X_drift ?c f0 m_noon p0 s0 cw_leaf 40 = Inl (No_convergence 100)"
    using t3 pc ud n40 by blast
  from u30 a contract_run_facts b d show ?thesis by blast
qed




text \<open>
  Claim C5. Selecting a photosynthesis pathway other than C3 is to end the run through
  the unrecoverable-error path, the condition being reported before termination, and
  before any flux is accumulated into the day totals.

  On the code this fails: the pathway is tested inside the leaf temperature loop (line
  73), which is reached only in a half hour with the sun up. On the polar-night day of
  scenario \<open>X_polar_night\<close>, with the C4 pathway, the run returns after its 48 half
  hours without an error.
\<close>

theorem C5_polar_night_counterexample:
  "ps_pathway (c_day 48 C4 False) \<noteq> C3 \<and>
   \<not> isl (canopy K_gday X_polar_night 0 cw0 (c_day 48 C4 False) f0 ma0 m0 p0 s0) \<and>
   fr_sunlight_hrs (projr (canopy K_gday X_polar_night 0 cw0 (c_day 48 C4 False) f0 ma0 m0 p0 s0)) = 48"
proof -
  obtain fr where "hour_loop K_gday X_polar_night ma0 p0 0 (doy ma0 ! nat (hour_idx (c_day 48 C4 False))) 0
      (fr_start X_polar_night (c_day 48 C4 False)) = Inr fr"
    using polar_night_runs by blast
  from canopy_returns[OF this]
  have r: "\<not> isl (canopy K_gday X_polar_night 0 cw0 (c_day 48 C4 False) f0 ma0 m0 p0 s0)" by simp
  from canopy_projr_counts[OF r] r show ?thesis
    by (simp add: c_day_def)
qed

text \<open>
  Claim C5, as amended. With a pathway other than C3 the run ends through the
  unrecoverable-error path in the first half hour of the day in which the sun is up
  (elevation above 0 and PAR above 20), having written "C4 photosynthesis not
  implemented" to \<^verbatim>\<open>stderr\<close>; the half hours before it are carried out as half hours
  with the sun down (zeroed leaf fluxes, scaling, accumulation, water balance), and the
  flux accumulator at the exit is the one that they have left: the failing half hour
  has added nothing to it. Provided the two water routines that receive the accumulator
  leave the six carbon day totals alone, and the per-leaf arrays have two elements,
  these totals are still 0 at that point. Neither the photosynthesis routine nor the
  Penman solver has any part in the outcome, and the run fails in no other way. If no
  half hour of the day has the sun up, the run completes normally, whatever the
  pathway.
\<close>

theorem C5_non_C3_pathway:
  "(ps_pathway c \<noteq> C3 \<and> int h < num_hlf_hrs c \<and>
    (\<forall>j<h. \<not> sun_up X ma p (doy ma ! nat (hour_idx c)) (int j)
               (sundown_run K X ma p dummy (doy ma ! nat (hour_idx c)) j (entry_frame X cw c f m s))) \<and>
    sun_up X ma p (doy ma ! nat (hour_idx c)) (int h)
      (sundown_run K X ma p dummy (doy ma ! nat (hour_idx c)) h (entry_frame X cw c f m s)) \<longrightarrow>
      canopy K X dummy cw c f ma m p s =
        Inl (C4_not_implemented (''C4 photosynthesis not implemented'' @ [CHR 0x0A])
               (fr_f (sundown_run K X ma p dummy (doy ma ! nat (hour_idx c)) h
                        (entry_frame X cw c f m s))))) \<and>
   (keeps_carbon_totals X \<and> leaf_arrays_ok cw \<longrightarrow>
      carbon_day_totals (fr_f (sundown_run K X ma p dummy doy_v n (entry_frame X cw c f m s)))
        = (0, 0, 0, 0, 0, 0)) \<and>
   (ps_pathway c \<noteq> C3 \<longrightarrow>
      canopy K (X\<lparr>photosynthesis_C3 := q, penman_leaf_wrapper := w\<rparr>) dummy cw c f ma m p s
        = canopy K X dummy cw c f ma m p s) \<and>
   (ps_pathway c \<noteq> C3 \<and> canopy K X dummy cw c f ma m p s = Inl e \<longrightarrow>
      (\<exists>g. e = C4_not_implemented (''C4 photosynthesis not implemented'' @ [CHR 0x0A]) g)) \<and>
   ((\<forall>j<nat (num_hlf_hrs c).
       \<not> sun_up X ma p (doy ma ! nat (hour_idx c)) (int j)
           (sundown_run K X ma p dummy (doy ma ! nat (hour_idx c)) j (entry_frame X cw c f m s))) \<longrightarrow>
      canopy K X dummy cw c f ma m p s =
        Inr (day_end X p (sundown_run K X ma p dummy (doy ma ! nat (hour_idx c)) (nat (num_hlf_hrs c))
                            (entry_frame X cw c f m s)))) \<and>
   (ps_pathway (fr_c fr) \<noteq> C3 \<longrightarrow>
      half_hour K X ma p dummy doy_v hod fr =
        (if sun_up X ma p doy_v hod fr
           then Inl (C4_not_implemented (''C4 photosynthesis not implemented'' @ [CHR 0x0A]) (fr_f fr))
         else Inr (night_half_hour K X ma p dummy doy_v hod fr)))"
proof (intro conjI impI)
  let ?d = "doy ma ! nat (hour_idx c)"
  let ?fr0 = "entry_frame X cw c f m s"
  have ce: "canopy K X dummy cw c f ma m p s =
     (case hour_loop K X ma p dummy ?d 0 ?fr0 of Inl e \<Rightarrow> Inl e | Inr fr \<Rightarrow> Inr (day_end X p fr))"
    by (simp add: canopy_def entry_frame_def day_end_def Let_def split: sum.splits)
  {
    assume a: "ps_pathway c \<noteq> C3 \<and> int h < num_hlf_hrs c \<and>
      (\<forall>j<h. \<not> sun_up X ma p ?d (int j) (sundown_run K X ma p dummy ?d j ?fr0)) \<and>
      sun_up X ma p ?d (int h) (sundown_run K X ma p dummy ?d h ?fr0)"
    have "hour_loop K X ma p dummy ?d 0 ?fr0 =
        Inl (C4_not_implemented (''C4 photosynthesis not implemented'' @ [CHR 0x0A])
               (fr_f (sundown_run K X ma p dummy ?d h ?fr0)))"
      using a by (intro first_sun_up_not_C3) simp_all
    then show "canopy K X dummy cw c f ma m p s =
        Inl (C4_not_implemented (''C4 photosynthesis not implemented'' @ [CHR 0x0A])
               (fr_f (sundown_run K X ma p dummy ?d h ?fr0)))"
      by (simp add: ce)
  }
  {
    assume "keeps_carbon_totals X \<and> leaf_arrays_ok cw"
    then show "carbon_day_totals (fr_f (sundown_run K X ma p dummy doy_v n ?fr0)) = (0, 0, 0, 0, 0, 0)"
      by (simp add: sundown_run_carbon_totals)
  }
  {
    assume "ps_pathway c \<noteq> C3"
    then show "canopy K (X\<lparr>photosynthesis_C3 := q, penman_leaf_wrapper := w\<rparr>) dummy cw c f ma m p s
        = canopy K X dummy cw c f ma m p s"
      by (rule canopy_ignores_leaf_physiology)
  }
  {
    assume a: "ps_pathway c \<noteq> C3 \<and> canopy K X dummy cw c f ma m p s = Inl e"
    then have "hour_loop K X ma p dummy ?d 0 ?fr0 = Inl e"
      by (auto simp: ce split: sum.splits)
    from hour_loop_error_kinds[OF this] a
    show "\<exists>g. e = C4_not_implemented (''C4 photosynthesis not implemented'' @ [CHR 0x0A]) g"
      by simp
  }
  {
    assume "\<forall>j<nat (num_hlf_hrs c). \<not> sun_up X ma p ?d (int j) (sundown_run K X ma p dummy ?d j ?fr0)"
    then have "hour_loop K X ma p dummy ?d 0 ?fr0 =
        Inr (sundown_run K X ma p dummy ?d (nat (num_hlf_hrs (fr_c ?fr0))) ?fr0)"
      by (intro sundown_day) simp
    then show "canopy K X dummy cw c f ma m p s =
        Inr (day_end X p (sundown_run K X ma p dummy ?d (nat (num_hlf_hrs c)) ?fr0))"
      by (simp add: ce)
  }
  {
    assume a: "ps_pathway (fr_c fr) \<noteq> C3"
    have l: "leaf_temperature_loop K X (fr_c fr) g m' p s' cw' it =
        Inl (C4_not_implemented (''C4 photosynthesis not implemented'' @ [CHR 0x0A]) g)"
      for g m' s' cw' it
      using a by (subst leaf_temperature_loop.simps) simp
    show "half_hour K X ma p dummy doy_v hod fr =
        (if sun_up X ma p doy_v hod fr
           then Inl (C4_not_implemented (''C4 photosynthesis not implemented'' @ [CHR 0x0A]) (fr_f fr))
         else Inr (night_half_hour K X ma p dummy doy_v hod fr))"
      by (simp add: half_hour_unfold leaf_loop_unfold sunlit_wk_def l)
  }
qed

theorem C5_non_C3_pathway_witness:
  "ps_pathway (c_day 48 C4 False) \<noteq> C3 \<and>
   list_all (\<lambda>j. \<not> sun_window (int j)) [0..<20] \<and> sun_window 20 \<and>
   canopy K_gday X_window 0 cw0 (c_day 48 C4 False) f0 ma0 m0 p0 s0 =
     Inl (C4_not_implemented (''C4 photosynthesis not implemented'' @ [CHR 0x0A])
            (fr_f (sundown_run K_gday X_window ma0 p0 0 1 20
                     (entry_frame X_window cw0 (c_day 48 C4 False) f0 m0 s0)))) \<and>
   keeps_carbon_totals X_window \<and> leaf_arrays_ok cw0 \<and>
   carbon_day_totals (fr_f (sundown_run K_gday X_window ma0 p0 0 1 20
                              (entry_frame X_window cw0 (c_day 48 C4 False) f0 m0 s0)))
     = (0, 0, 0, 0, 0, 0) \<and>
   canopy K_gday (X_window\<lparr>photosynthesis_C3 := (\<lambda>c cw m p s. (1, 1)),
                           penman_leaf_wrapper := penman_leaf_wrapper X_drift\<rparr>)
       0 cw0 (c_day 48 C4 False) f0 ma0 m0 p0 s0
     = canopy K_gday X_window 0 cw0 (c_day 48 C4 False) f0 ma0 m0 p0 s0 \<and>
   list_all (\<lambda>j. \<not> sun_never (int j)) [0..<48] \<and>
   canopy K_gday X_polar_night 0 cw0 (c_day 48 C4 False) f0 ma0 m0 p0 s0 =
     Inr (day_end X_polar_night p0
            (sundown_run K_gday X_polar_night ma0 p0 0 1 48
               (entry_frame X_polar_night cw0 (c_day 48 C4 False) f0 m0 s0))) \<and>
   half_hour K_gday X_window ma0 p0 0 1 20 (fr_start X_window (c_day 48 C4 False)) =
     Inl (C4_not_implemented (''C4 photosynthesis not implemented'' @ [CHR 0x0A])
            (fr_f (fr_start X_window (c_day 48 C4 False)))) \<and>
   half_hour K_gday X_window ma0 p0 0 1 0 (fr_start X_window (c_day 48 C4 False)) =
     Inr (night_half_hour K_gday X_window ma0 p0 0 1 0 (fr_start X_window (c_day 48 C4 False)))"
proof -
  let ?c = "c_day 48 C4 False"
  let ?fw = "entry_frame X_window cw0 ?c f0 m0 s0"
  let ?fn = "entry_frame X_polar_night cw0 ?c f0 m0 s0"
  let ?fr = "fr_start X_window ?c"
  have d: "doy ma0 ! nat (hour_idx ?c) = 1"
    by (simp add: ma0_def)
  have pc: "ps_pathway ?c \<noteq> C3" and n: "int 20 < num_hlf_hrs ?c" and n48: "nat (num_hlf_hrs ?c) = 48"
    by simp_all
  have pf: "ps_pathway (fr_c ?fr) \<noteq> C3" by simp
  have dark: "\<forall>j<20. \<not> sun_up X_window ma0 p0 1 (int j) (sundown_run K_gday X_window ma0 p0 0 1 j ?fw)"
    by (simp add: X_window_def sun_window_def)
  have up: "sun_up X_window ma0 p0 1 (int 20) (sundown_run K_gday X_window ma0 p0 0 1 20 ?fw)"
    by (simp add: X_window_def sun_window_def)
  have night: "\<forall>j<48. \<not> sun_up X_polar_night ma0 p0 1 (int j) (sundown_run K_gday X_polar_night ma0 p0 0 1 j ?fn)"
    by (simp add: X_polar_night_def sun_never_def)
  have kc: "keeps_carbon_totals X_window"
    by (simp add: keeps_carbon_totals_def carbon_day_totals_def X_window_def X_stub_def)
  have s20: "sun_up X_window ma0 p0 1 20 ?fr" and s0: "\<not> sun_up X_window ma0 p0 1 0 ?fr"
    by (simp_all add: X_window_def sun_window_def)
  have la: "list_all (\<lambda>j. \<not> sun_window (int j)) [0..<20]" "sun_window 20"
    "list_all (\<lambda>j. \<not> sun_never (int j)) [0..<48]"
    by (simp_all add: list_all_iff sun_window_def sun_never_def)
  note t1 = C5_non_C3_pathway[where c = ?c and h = 20 and X = X_window and ma = ma0 and p = p0
      and K = K_gday and dummy = 0 and cw = cw0 and f = f0 and m = m0 and s = s0 and doy_v = 1 and n = 20
      and q = "\<lambda>c cw m p s. (1, 1)" and w = "penman_leaf_wrapper X_drift" and fr = ?fr and hod = 20,
      unfolded d]
  note t2 = C5_non_C3_pathway[where c = ?c and X = X_polar_night and ma = ma0 and p = p0
      and K = K_gday and dummy = 0 and cw = cw0 and f = f0 and m = m0 and s = s0, unfolded d n48]
  note t3 = C5_non_C3_pathway[where X = X_window and ma = ma0 and p = p0
      and K = K_gday and dummy = 0 and doy_v = 1 and fr = ?fr and hod = 0]
  have a: "canopy K_gday X_window 0 cw0 ?c f0 ma0 m0 p0 s0 =
     Inl (C4_not_implemented (''C4 photosynthesis not implemented'' @ [CHR 0x0A])
            (fr_f (sundown_run K_gday X_window ma0 p0 0 1 20 ?fw)))"
    using t1 pc n dark up by blast
  have b: "carbon_day_totals (fr_f (sundown_run K_gday X_window ma0 p0 0 1 20 ?fw)) = (0, 0, 0, 0, 0, 0)"
    using t1 kc cw0_ok by blast
  have e: "canopy K_gday (X_window\<lparr>photosynthesis_C3 := (\<lambda>c cw m p s. (1, 1)),
                           penman_leaf_wrapper := penman_leaf_wrapper X_drift\<rparr>)
       0 cw0 ?c f0 ma0 m0 p0 s0 = canopy K_gday X_window 0 cw0 ?c f0 ma0 m0 p0 s0"
    using t1 pc by blast
  have g: "canopy K_gday X_polar_night 0 cw0 ?c f0 ma0 m0 p0 s0 =
     Inr (day_end X_polar_night p0 (sundown_run K_gday X_polar_night ma0 p0 0 1 48 ?fn))"
    using t2 night by blast
  have h20: "half_hour K_gday X_window ma0 p0 0 1 20 ?fr =
     Inl (C4_not_implemented (''C4 photosynthesis not implemented'' @ [CHR 0x0A]) (fr_f ?fr))"
    using t1 pf s20 by simp
  have h0: "half_hour K_gday X_window ma0 p0 0 1 0 ?fr = Inr (night_half_hour K_gday X_window ma0 p0 0 1 0 ?fr)"
    using t3 pf s0 by simp
  from pc la a kc cw0_ok b e g h20 h0 show ?thesis by blast
qed

end
